theory Spec2Isabelle
  imports Complex_Main "HOL-Library.Word" "HOL-Library.AList"
begin

section \<open>JavaScript values used by the dashboard code\<close>

text \<open>
  A JavaScript string is a sequence of UTF-16 code units; \<open>length\<close> counts code units
  and \<open>trim\<close> and the regular-expression class \<open>\s\<close> look at single code units.
  Literals of the source are written \<open>js ''...''\<close>.
\<close>

type_synonym jschar = "16 word"
type_synonym jsstring = "jschar list"

definition js :: "string \<Rightarrow> jsstring" where
  "js s = map (\<lambda>c. of_nat (of_char c)) s"

text \<open>
  The code units that \<open>String.prototype.trim\<close> strips and that \<open>\s\<close> matches:
  ECMAScript WhiteSpace (TAB, VT, FF, SP, NBSP, ZWNBSP and the Unicode space separators)
  and LineTerminator (LF, CR, LS, PS).
\<close>

definition is_ws :: "jschar \<Rightarrow> bool" where
  "is_ws c \<longleftrightarrow>
     c = 0x09 \<or> c = 0x0A \<or> c = 0x0B \<or> c = 0x0C \<or> c = 0x0D \<or> c = 0x20 \<or> c = 0xA0 \<or>
     c = 0x1680 \<or> (0x2000 \<le> c \<and> c \<le> 0x200A) \<or> c = 0x2028 \<or> c = 0x2029 \<or>
     c = 0x202F \<or> c = 0x205F \<or> c = 0x3000 \<or> c = 0xFEFF"

definition trim :: "jsstring \<Rightarrow> jsstring" where
  "trim s = rev (dropWhile is_ws (rev (dropWhile is_ws s)))"

text \<open>
  A JavaScript number: NaN, the two infinities, or a finite value. Every finite double is
  a real number, so the finite values are modelled by \<open>real\<close>; the comparisons \<open><\<close> and
  \<open>>\<close> are false as soon as one side is NaN.
\<close>

datatype jsnum = NaN | NegInf | Fin real | PosInf

fun js_lt :: "jsnum \<Rightarrow> jsnum \<Rightarrow> bool" where
  "js_lt NaN _ = False"
| "js_lt _ NaN = False"
| "js_lt NegInf NegInf = False"
| "js_lt NegInf _ = True"
| "js_lt (Fin a) (Fin b) = (a < b)"
| "js_lt (Fin a) PosInf = True"
| "js_lt (Fin a) NegInf = False"
| "js_lt PosInf _ = False"

definition js_gt :: "jsnum \<Rightarrow> jsnum \<Rightarrow> bool" where
  "js_gt a b = js_lt b a"

definition isNaN :: "jsnum \<Rightarrow> bool" where
  "isNaN n = (n = NaN)"

text \<open>
  A value obtained from \<open>JSON.parse\<close> / \<open>Response.json()\<close>. An object is its list of
  properties. \<open>undefined\<close> is \<open>None\<close> of \<open>json option\<close>.
\<close>

datatype json =
    JNull
  | JBool bool
  | JNum real
  | JStr jsstring
  | JArr "json list"
  | JObj "(jsstring \<times> json) list"

text \<open>Truthiness of a parsed value, as \<open>if (v)\<close>, \<open>!v\<close> and \<open>v || w\<close> see it.\<close>

fun truthy :: "json \<Rightarrow> bool" where
  "truthy JNull = False"
| "truthy (JBool b) = b"
| "truthy (JNum r) = (r \<noteq> 0)"
| "truthy (JStr s) = (s \<noteq> [])"
| "truthy (JArr _) = True"
| "truthy (JObj _) = True"

text \<open>
  Property read \<open>v.k\<close> for the data properties the code reads (\<open>access_token\<close>,
  \<open>refresh_token\<close>, \<open>message\<close>, \<open>user\<close>, \<open>client\<close>, \<open>client_id\<close>, \<open>id\<close>, \<open>name\<close>):
  an object yields its property, every other non-null value yields \<open>undefined\<close>.
  On \<open>null\<close> the read \<open>v?.k\<close> yields \<open>undefined\<close> as well, while \<open>v.k\<close> throws a
  TypeError; the callers below write out which of the two applies.
\<close>

fun js_get :: "json \<Rightarrow> jsstring \<Rightarrow> json option" where
  "js_get (JObj kvs) k = map_of kvs k"
| "js_get _ k = None"

text \<open>Optional chaining \<open>v?.k\<close> on a possibly undefined value.\<close>

definition js_get_opt :: "json option \<Rightarrow> jsstring \<Rightarrow> json option" where
  "js_get_opt v k = (case v of None \<Rightarrow> None | Some d \<Rightarrow> js_get d k)"

text \<open>\<open>a || b\<close> on possibly undefined values.\<close>

definition js_or :: "json option \<Rightarrow> json option \<Rightarrow> json option" where
  "js_or a b = (case a of None \<Rightarrow> b | Some v \<Rightarrow> if truthy v then Some v else b)"

text \<open>
  Conversion to a string, as \<open>localStorage.setItem\<close>, template literals and
  \<open>new Error(message)\<close> perform it. A string converts to itself; the conversion of the
  other values is the language's \<open>String\<close>, taken as the parameter \<open>S\<close>.
\<close>

definition toStr :: "(json \<Rightarrow> jsstring) \<Rightarrow> json \<Rightarrow> jsstring" where
  "toStr S v = (case v of JStr s \<Rightarrow> s | _ \<Rightarrow> S v)"

section \<open>The API client\<close>

subsection \<open>Token storage\<close>

text \<open>
  \<open>localStorage\<close> maps keys to strings. On the server there is no \<open>window\<close>
  (\<open>typeof window === "undefined"\<close>): that is \<open>None\<close>.
\<close>

type_synonym local_storage = "jsstring \<rightharpoonup> jsstring"
type_synonym window = "local_storage option"

definition ACCESS_TOKEN_KEY :: jsstring where
  "ACCESS_TOKEN_KEY = js ''token''"

definition REFRESH_TOKEN_KEY :: jsstring where
  "REFRESH_TOKEN_KEY = js ''refresh_token''"

definition getAccessToken :: "window \<Rightarrow> jsstring option" where
  "getAccessToken w = (case w of None \<Rightarrow> None | Some ls \<Rightarrow> ls ACCESS_TOKEN_KEY)"

definition getRefreshToken :: "window \<Rightarrow> jsstring option" where
  "getRefreshToken w = (case w of None \<Rightarrow> None | Some ls \<Rightarrow> ls REFRESH_TOKEN_KEY)"

text \<open>
  \<open>setAuthTokens\<close> is called by \<open>apiFetch\<close> with the untyped properties of the refresh
  response, so its parameters are parsed values; \<open>setItem\<close> converts them to strings.
\<close>

definition setAuthTokens :: "(json \<Rightarrow> jsstring) \<Rightarrow> window \<Rightarrow> json \<Rightarrow> json option \<Rightarrow> window" where
  "setAuthTokens S w accessToken refreshToken =
     (case w of
        None \<Rightarrow> None
      | Some ls \<Rightarrow>
          (let ls1 = ls(ACCESS_TOKEN_KEY \<mapsto> toStr S accessToken)
           in case refreshToken of
                None \<Rightarrow> Some ls1
              | Some r \<Rightarrow>
                  if truthy r then Some (ls1(REFRESH_TOKEN_KEY \<mapsto> toStr S r)) else Some ls1))"

definition clearAuthTokens :: "window \<Rightarrow> window" where
  "clearAuthTokens w =
     (case w of
        None \<Rightarrow> None
      | Some ls \<Rightarrow> Some ((ls(ACCESS_TOKEN_KEY := None))(REFRESH_TOKEN_KEY := None)))"

subsection \<open>Requests and responses\<close>

text \<open>
  The body of a request: absent, the text \<open>JSON.stringify v\<close> of a value, some other
  text, or a \<open>FormData\<close> payload.
\<close>

datatype body_init = NoBody | JsonBody json | TextBody jsstring | FormData

type_synonym header_record = "(jsstring \<times> jsstring) list"

record request_init =
  ri_method :: "jsstring option"
  ri_headers :: header_record
  ri_body :: body_init

record fetch_request =
  rq_url :: jsstring
  rq_method :: "jsstring option"
  rq_headers :: header_record
  rq_body :: body_init
  rq_credentials :: jsstring

text \<open>
  A response: its status and what \<open>res.json()\<close> resolves to (\<open>None\<close> when the body
  is not JSON and \<open>json()\<close> rejects).
\<close>

record response =
  rs_status :: nat
  rs_json :: "json option"

definition ok :: "response \<Rightarrow> bool" where
  "ok res \<longleftrightarrow> 200 \<le> rs_status res \<and> rs_status res \<le> 299"

text \<open>
  \<open>fetch\<close> either rejects (network failure) or resolves to a response. The network is
  a function of the requests issued before and of the request itself.
\<close>

datatype fetch_result = FetchRejected | FetchResponse response

type_synonym network = "fetch_request list \<Rightarrow> fetch_request \<Rightarrow> fetch_result"

text \<open>What the promise returned by \<open>apiFetch\<close> rejects with.\<close>

datatype api_error =
    NetworkFailure
  | HttpError jsstring
  | JsonParseFailure

text \<open>
  The outcome of one call: the storage afterwards, every \<open>fetch\<close> issued (each with the
  storage at the moment it was issued), and the value or error the caller sees
  (\<open>Inr None\<close> is \<open>undefined\<close>).
\<close>

record fetch_outcome =
  final_storage :: window
  issued :: "(window \<times> fetch_request) list"
  result :: "api_error + json option"

subsection \<open>apiFetch\<close>

definition initialHeaders :: "request_init \<Rightarrow> header_record" where
  "initialHeaders options =
     (let headers = ri_headers options
      in if ri_body options = FormData then headers
         else AList.update (js ''Content-Type'')
                (case map_of headers (js ''Content-Type'') of
                   None \<Rightarrow> js ''application/json''
                 | Some v \<Rightarrow> if v \<noteq> [] then v else js ''application/json'')
                headers)"

definition attachAuthHeader :: "window \<Rightarrow> header_record \<Rightarrow> header_record" where
  "attachAuthHeader w headers =
     (case getAccessToken w of
        None \<Rightarrow> AList.delete (js ''Authorization'') headers
      | Some currentToken \<Rightarrow>
          if currentToken \<noteq> []
          then AList.update (js ''Authorization'') (js ''Bearer '' @ currentToken) headers
          else AList.delete (js ''Authorization'') headers)"

definition mkRequest :: "jsstring \<Rightarrow> jsstring \<Rightarrow> request_init \<Rightarrow> header_record \<Rightarrow> fetch_request" where
  "mkRequest base path options headers =
     \<lparr> rq_url = base @ path, rq_method = ri_method options, rq_headers = headers,
       rq_body = ri_body options, rq_credentials = js ''include'' \<rparr>"

text \<open>
  \<open>doRequest\<close> mutates the shared \<open>headers\<close> object and issues the request; it returns
  the result of \<open>fetch\<close>, the headers as mutated, and the extended list of issued requests.
\<close>

definition doRequest ::
  "jsstring \<Rightarrow> network \<Rightarrow> window \<Rightarrow> jsstring \<Rightarrow> request_init \<Rightarrow> header_record \<Rightarrow>
   (window \<times> fetch_request) list \<Rightarrow>
   fetch_result \<times> header_record \<times> (window \<times> fetch_request) list" where
  "doRequest base net w path options headers trace =
     (let headers' = attachAuthHeader w headers;
          rq = mkRequest base path options headers'
      in (net (map snd trace) rq, headers', trace @ [(w, rq)]))"

definition refreshRequest :: "jsstring \<Rightarrow> jsstring \<Rightarrow> fetch_request" where
  "refreshRequest base refreshToken =
     \<lparr> rq_url = base @ js ''/auth/refresh'', rq_method = Some (js ''POST''),
       rq_headers = [(js ''Content-Type'', js ''application/json'')],
       rq_body = JsonBody (JObj [(js ''refresh_token'', JStr refreshToken)]),
       rq_credentials = js ''include'' \<rparr>"

text \<open>
  The message of the error thrown for a response that is not ok: the truthy \<open>message\<close>
  property of the JSON body, else \<open>"Request failed"\<close> (also when \<open>json()\<close> rejects, and
  when the body is \<open>null\<close> so that \<open>data.message\<close> throws inside the \<open>try\<close>).
\<close>

definition errorMessage :: "(json \<Rightarrow> jsstring) \<Rightarrow> response \<Rightarrow> jsstring" where
  "errorMessage S res =
     (case rs_json res of
        None \<Rightarrow> js ''Request failed''
      | Some data \<Rightarrow>
          (case js_get data (js ''message'') of
             None \<Rightarrow> js ''Request failed''
           | Some m \<Rightarrow> if truthy m then toStr S m else js ''Request failed''))"

text \<open>The tail of \<open>apiFetch\<close>, from \<open>if (!res.ok)\<close> on.\<close>

definition deliver :: "(json \<Rightarrow> jsstring) \<Rightarrow> response \<Rightarrow> api_error + json option" where
  "deliver S res =
     (if \<not> ok res then Inl (HttpError (errorMessage S res))
      else if rs_status res = 204 then Inr None
      else (case rs_json res of None \<Rightarrow> Inl JsonParseFailure | Some d \<Rightarrow> Inr (Some d)))"

definition apiFetch ::
  "(json \<Rightarrow> jsstring) \<Rightarrow> jsstring \<Rightarrow> network \<Rightarrow> window \<Rightarrow> jsstring \<Rightarrow> request_init \<Rightarrow> fetch_outcome" where
  "apiFetch S base net w path options =
     (case doRequest base net w path options (initialHeaders options) [] of
        (FetchRejected, headers, trace) \<Rightarrow>
          \<lparr> final_storage = w, issued = trace, result = Inl NetworkFailure \<rparr>
      | (FetchResponse res, headers, trace) \<Rightarrow>
          if rs_status res = 401 \<and> path \<noteq> js ''/auth/login'' \<and> path \<noteq> js ''/auth/refresh''
          then
            (case getRefreshToken w of
               None \<Rightarrow> \<lparr> final_storage = w, issued = trace, result = deliver S res \<rparr>
             | Some refreshToken \<Rightarrow>
                 if refreshToken = []
                 then \<lparr> final_storage = w, issued = trace, result = deliver S res \<rparr>
                 else
                   (let rrq = refreshRequest base refreshToken;
                        trace2 = trace @ [(w, rrq)]
                    in case net (map snd trace) rrq of
                         FetchRejected \<Rightarrow>
                           \<lparr> final_storage = clearAuthTokens w, issued = trace2,
                             result = deliver S res \<rparr>
                       | FetchResponse refreshRes \<Rightarrow>
                           if ok refreshRes
                           then
                             (case rs_json refreshRes of
                                None \<Rightarrow>
                                  \<lparr> final_storage = clearAuthTokens w, issued = trace2,
                                    result = deliver S res \<rparr>
                              | Some data \<Rightarrow>
                                  (case js_get data (js ''access_token'') of
                                     None \<Rightarrow>
                                       \<lparr> final_storage = w, issued = trace2,
                                         result = deliver S res \<rparr>
                                   | Some token \<Rightarrow>
                                       if truthy token
                                       then
                                         (let w' = setAuthTokens S w token
                                                     (js_get data (js ''refresh_token''))
                                          in case doRequest base net w' path options headers trace2 of
                                               (FetchRejected, headers3, trace3) \<Rightarrow>
                                                 \<lparr> final_storage = clearAuthTokens w',
                                                   issued = trace3, result = deliver S res \<rparr>
                                             | (FetchResponse res2, headers3, trace3) \<Rightarrow>
                                                 \<lparr> final_storage = w', issued = trace3,
                                                   result = deliver S res2 \<rparr>)
                                       else
                                         \<lparr> final_storage = w, issued = trace2,
                                           result = deliver S res \<rparr>))
                           else
                             \<lparr> final_storage = clearAuthTokens w, issued = trace2,
                               result = deliver S res \<rparr>))
          else \<lparr> final_storage = w, issued = trace, result = deliver S res \<rparr>)"

text \<open>
  The request \<open>apiFetch\<close> issues first, and the one it issues again after a refresh that
  left the storage \<open>w'\<close>.
\<close>

definition originalRequest :: "jsstring \<Rightarrow> window \<Rightarrow> jsstring \<Rightarrow> request_init \<Rightarrow> fetch_request" where
  "originalRequest base w path options =
     mkRequest base path options (attachAuthHeader w (initialHeaders options))"

definition retriedRequest ::
  "jsstring \<Rightarrow> window \<Rightarrow> window \<Rightarrow> jsstring \<Rightarrow> request_init \<Rightarrow> fetch_request" where
  "retriedRequest base w w' path options =
     mkRequest base path options
       (attachAuthHeader w' (attachAuthHeader w (initialHeaders options)))"

subsection \<open>The older client of \<open>src/lib/api.ts\<close>\<close>

text \<open>
  The repository also holds an earlier \<open>apiFetch\<close> (in \<open>src/lib/api.ts\<close>) that knows no
  refresh token: it reads the token once, adds the header when there is a token, issues
  one request and delivers its response. It is named \<open>apiFetch_basic\<close> here.
\<close>

definition getToken :: "window \<Rightarrow> jsstring option" where
  "getToken w = (case w of None \<Rightarrow> None | Some ls \<Rightarrow> ls (js ''token''))"

definition apiFetch_basic ::
  "(json \<Rightarrow> jsstring) \<Rightarrow> jsstring \<Rightarrow> network \<Rightarrow> window \<Rightarrow> jsstring \<Rightarrow> request_init \<Rightarrow> fetch_outcome" where
  "apiFetch_basic S base net w path options =
     (let token = getToken w;
          headers = initialHeaders options;
          headers' = (case token of
                        None \<Rightarrow> headers
                      | Some t \<Rightarrow>
                          if t \<noteq> [] then AList.update (js ''Authorization'') (js ''Bearer '' @ t) headers
                          else headers);
          rq = mkRequest base path options headers'
      in case net [] rq of
           FetchRejected \<Rightarrow> \<lparr> final_storage = w, issued = [(w, rq)], result = Inl NetworkFailure \<rparr>
         | FetchResponse res \<Rightarrow> \<lparr> final_storage = w, issued = [(w, rq)], result = deliver S res \<rparr>)"

subsection \<open>Header names as \<open>fetch\<close> reads them\<close>

text \<open>
  \<open>fetch\<close> turns the \<open>headers\<close> record it is given into a \<open>Headers\<close> list, where names
  are case-insensitive: a name is stored with its letters \<open>A\<close> to \<open>Z\<close> in lower case, so
  the keys \<open>authorization\<close> and \<open>Authorization\<close> of a record name the same header. The
  record itself keeps such keys apart: \<open>headers["Authorization"] = v\<close> and
  \<open>delete headers["Authorization"]\<close> touch the key with exactly that spelling.
  \<open>carriesHeader rq name\<close> says that the request \<open>rq\<close> goes out with a header of that
  name, under whatever spelling.
\<close>

definition asciiLower :: "jschar \<Rightarrow> jschar" where
  "asciiLower c = (if 0x41 \<le> c \<and> c \<le> 0x5A then c + 0x20 else c)"

definition headerName :: "jsstring \<Rightarrow> jsstring" where
  "headerName k = map asciiLower k"

definition carriesHeader :: "fetch_request \<Rightarrow> jsstring \<Rightarrow> bool" where
  "carriesHeader rq name \<longleftrightarrow> headerName name
      \<in> set (map headerName (map fst (rq_headers rq)))"

section \<open>The onboarding wizards\<close>

text \<open>
  The repository holds three wizard components: the two-step \<open>DashboardSetupPage\<close> that
  can also edit an existing business (its functions keep the source's names here), an
  earlier two-step \<open>DashboardSetupPage\<close> without edit mode (suffix \<open>_plain\<close>), and the
  three-step \<open>ClientOnboardingPage\<close> (suffix \<open>_onboarding\<close>). A function whose text is the
  same in several components is modelled once.

  A handler is modelled as a function of the component state of the last render; the
  state updates it requests are those of the returned state.
\<close>

subsection \<open>The regular expression of the email check\<close>

text \<open>
  \<open>/^[^\s@]+@[^\s@]+\.[^\s@]+$/.test(s)\<close>: the pattern is anchored at both ends and has no
  flags, so \<open>test\<close> decides whether the whole string belongs to the regular language of
  the pattern. Membership is computed by derivatives.
\<close>

datatype rx =
    Nothing
  | Empty
  | Sym "jschar \<Rightarrow> bool"
  | Cat rx rx
  | Or rx rx
  | Many rx

fun nullable :: "rx \<Rightarrow> bool" where
  "nullable Nothing = False"
| "nullable Empty = True"
| "nullable (Sym p) = False"
| "nullable (Cat r s) = (nullable r \<and> nullable s)"
| "nullable (Or r s) = (nullable r \<or> nullable s)"
| "nullable (Many r) = True"

fun deriv :: "jschar \<Rightarrow> rx \<Rightarrow> rx" where
  "deriv c Nothing = Nothing"
| "deriv c Empty = Nothing"
| "deriv c (Sym p) = (if p c then Empty else Nothing)"
| "deriv c (Cat r s) =
     (if nullable r then Or (Cat (deriv c r) s) (deriv c s) else Cat (deriv c r) s)"
| "deriv c (Or r s) = Or (deriv c r) (deriv c s)"
| "deriv c (Many r) = Cat (deriv c r) (Many r)"

definition rx_test :: "rx \<Rightarrow> jsstring \<Rightarrow> bool" where
  "rx_test r s = nullable (foldl (\<lambda>q c. deriv c q) r s)"

definition OneOrMore :: "rx \<Rightarrow> rx" where
  "OneOrMore r = Cat r (Many r)"

text \<open>The class \<open>[^\s@]\<close>.\<close>

definition notSpaceNorAt :: "jschar \<Rightarrow> bool" where
  "notSpaceNorAt c \<longleftrightarrow> \<not> is_ws c \<and> c \<noteq> 0x40"

definition emailPattern :: rx where
  "emailPattern =
     Cat (OneOrMore (Sym notSpaceNorAt))
       (Cat (Sym (\<lambda>c. c = 0x40))
          (Cat (OneOrMore (Sym notSpaceNorAt))
             (Cat (Sym (\<lambda>c. c = 0x2E))
                (OneOrMore (Sym notSpaceNorAt)))))"

subsection \<open>Error state and keys\<close>

text \<open>
  \<open>StepErrorState\<close>: \<open>global\<close> is a message or \<open>null\<close>; \<open>fields\<close> is an object from keys
  to a message or \<open>null\<close>, kept as the list of its properties, so that
  \<open>Object.keys(fields).length > 0\<close> is non-emptiness of the list.
\<close>

type_synonym field_errors = "(jsstring \<times> jsstring option) list"

record step_error_state =
  e_global :: "jsstring option"
  e_fields :: field_errors

definition initialErrorState :: step_error_state where
  "initialErrorState = \<lparr> e_global = None, e_fields = [] \<rparr>"

text \<open>The statement \<open>if (c) errors.fields[k] = msg\<close>.\<close>

definition err_if :: "bool \<Rightarrow> jsstring \<Rightarrow> jsstring \<Rightarrow> field_errors \<Rightarrow> field_errors" where
  "err_if c k msg errs = (if c then AList.update k (Some msg) errs else errs)"

text \<open>Decimal digits of an array index, as a template literal prints it.\<close>

definition digit_char :: "nat \<Rightarrow> jschar" where
  "digit_char d = of_nat (48 + d)"

fun show_nat :: "nat \<Rightarrow> jsstring" where
  "show_nat n =
     (if n < 10 then [digit_char n]
      else show_nat (n div 10) @ [digit_char (n mod 10)])"

declare show_nat.simps [simp del]

text \<open>The key \<open>`${index}.${field}`\<close>.\<close>

definition index_key :: "nat \<Rightarrow> jsstring \<Rightarrow> jsstring" where
  "index_key index field = show_nat index @ js ''.'' @ field"

subsection \<open>Component state\<close>

text \<open>
  The business form of Step 1. The record has the fields of the edit-capable component;
  the earlier component has no \<open>state\<close>, \<open>postalCode\<close>, \<open>coverImageUrl\<close>, \<open>latitude\<close>,
  \<open>longitude\<close> and \<open>adminPassword\<close>, the three-step one has \<open>adminPassword\<close> but not the
  other five, and their functions never read the fields they lack.
\<close>

record business_form =
  companyName :: jsstring
  legalName :: jsstring
  contactName :: jsstring
  email :: jsstring
  phone :: jsstring
  address :: jsstring
  city :: jsstring
  state :: jsstring
  country :: jsstring
  postalCode :: jsstring
  taxId :: jsstring
  registrationNumber :: jsstring
  description :: jsstring
  logoUrl :: jsstring
  coverImageUrl :: jsstring
  latitude :: jsstring
  longitude :: jsstring
  adminPassword :: jsstring

text \<open>\<open>keyof typeof businessForm\<close>.\<close>

datatype business_field =
    F_companyName | F_legalName | F_contactName | F_email | F_phone | F_address | F_city
  | F_state | F_country | F_postalCode | F_taxId | F_registrationNumber | F_description
  | F_logoUrl | F_coverImageUrl | F_latitude | F_longitude | F_adminPassword

fun business_key :: "business_field \<Rightarrow> jsstring" where
  "business_key F_companyName = js ''companyName''"
| "business_key F_legalName = js ''legalName''"
| "business_key F_contactName = js ''contactName''"
| "business_key F_email = js ''email''"
| "business_key F_phone = js ''phone''"
| "business_key F_address = js ''address''"
| "business_key F_city = js ''city''"
| "business_key F_state = js ''state''"
| "business_key F_country = js ''country''"
| "business_key F_postalCode = js ''postalCode''"
| "business_key F_taxId = js ''taxId''"
| "business_key F_registrationNumber = js ''registrationNumber''"
| "business_key F_description = js ''description''"
| "business_key F_logoUrl = js ''logoUrl''"
| "business_key F_coverImageUrl = js ''coverImageUrl''"
| "business_key F_latitude = js ''latitude''"
| "business_key F_longitude = js ''longitude''"
| "business_key F_adminPassword = js ''adminPassword''"

text \<open>\<open>{ ...prev, [field]: value }\<close> on the business form.\<close>

fun set_business :: "business_field \<Rightarrow> jsstring \<Rightarrow> business_form \<Rightarrow> business_form" where
  "set_business F_companyName v f = f\<lparr>companyName := v\<rparr>"
| "set_business F_legalName v f = f\<lparr>legalName := v\<rparr>"
| "set_business F_contactName v f = f\<lparr>contactName := v\<rparr>"
| "set_business F_email v f = f\<lparr>email := v\<rparr>"
| "set_business F_phone v f = f\<lparr>phone := v\<rparr>"
| "set_business F_address v f = f\<lparr>address := v\<rparr>"
| "set_business F_city v f = f\<lparr>city := v\<rparr>"
| "set_business F_state v f = f\<lparr>state := v\<rparr>"
| "set_business F_country v f = f\<lparr>country := v\<rparr>"
| "set_business F_postalCode v f = f\<lparr>postalCode := v\<rparr>"
| "set_business F_taxId v f = f\<lparr>taxId := v\<rparr>"
| "set_business F_registrationNumber v f = f\<lparr>registrationNumber := v\<rparr>"
| "set_business F_description v f = f\<lparr>description := v\<rparr>"
| "set_business F_logoUrl v f = f\<lparr>logoUrl := v\<rparr>"
| "set_business F_coverImageUrl v f = f\<lparr>coverImageUrl := v\<rparr>"
| "set_business F_latitude v f = f\<lparr>latitude := v\<rparr>"
| "set_business F_longitude v f = f\<lparr>longitude := v\<rparr>"
| "set_business F_adminPassword v f = f\<lparr>adminPassword := v\<rparr>"

text \<open>
  \<open>LocationPayload\<close>. An optional or nullable property is an \<open>option\<close> (\<open>None\<close> for
  \<open>undefined\<close> and \<open>null\<close>, which the code never tells apart). \<open>client_id\<close> receives the
  component's \<open>clientId\<close>, which comes untyped from a response.
\<close>

record location_payload =
  l_id :: "jsstring option"
  l_client_id :: "json option"
  l_name :: jsstring
  l_description :: "jsstring option"
  l_phone :: "jsstring option"
  l_address :: "jsstring option"
  l_city :: "jsstring option"
  l_state :: "jsstring option"
  l_country :: "jsstring option"
  l_postal_code :: "jsstring option"
  l_latitude :: "jsnum option"
  l_longitude :: "jsnum option"

text \<open>\<open>keyof LocationPayload\<close>.\<close>

datatype location_field =
    L_id | L_client_id | L_name | L_description | L_phone | L_address | L_city | L_state
  | L_country | L_postal_code | L_latitude | L_longitude

fun location_key :: "location_field \<Rightarrow> jsstring" where
  "location_key L_id = js ''id''"
| "location_key L_client_id = js ''client_id''"
| "location_key L_name = js ''name''"
| "location_key L_description = js ''description''"
| "location_key L_phone = js ''phone''"
| "location_key L_address = js ''address''"
| "location_key L_city = js ''city''"
| "location_key L_state = js ''state''"
| "location_key L_country = js ''country''"
| "location_key L_postal_code = js ''postal_code''"
| "location_key L_latitude = js ''latitude''"
| "location_key L_longitude = js ''longitude''"

text \<open>
  \<open>{ ...loc, [field]: v }\<close> where \<open>v\<close> is a string (any field but the coordinates) or a
  number or \<open>undefined\<close> (the coordinates).
\<close>

fun set_location_text :: "location_field \<Rightarrow> jsstring \<Rightarrow> location_payload \<Rightarrow> location_payload" where
  "set_location_text L_id v loc = loc\<lparr>l_id := Some v\<rparr>"
| "set_location_text L_client_id v loc = loc\<lparr>l_client_id := Some (JStr v)\<rparr>"
| "set_location_text L_name v loc = loc\<lparr>l_name := v\<rparr>"
| "set_location_text L_description v loc = loc\<lparr>l_description := Some v\<rparr>"
| "set_location_text L_phone v loc = loc\<lparr>l_phone := Some v\<rparr>"
| "set_location_text L_address v loc = loc\<lparr>l_address := Some v\<rparr>"
| "set_location_text L_city v loc = loc\<lparr>l_city := Some v\<rparr>"
| "set_location_text L_state v loc = loc\<lparr>l_state := Some v\<rparr>"
| "set_location_text L_country v loc = loc\<lparr>l_country := Some v\<rparr>"
| "set_location_text L_postal_code v loc = loc\<lparr>l_postal_code := Some v\<rparr>"
| "set_location_text _ v loc = loc"

fun set_location_number :: "location_field \<Rightarrow> jsnum option \<Rightarrow> location_payload \<Rightarrow> location_payload" where
  "set_location_number L_latitude n loc = loc\<lparr>l_latitude := n\<rparr>"
| "set_location_number L_longitude n loc = loc\<lparr>l_longitude := n\<rparr>"
| "set_location_number _ n loc = loc"

definition emptyLocation :: location_payload where
  "emptyLocation =
     \<lparr> l_id = None, l_client_id = None, l_name = [], l_description = None,
       l_phone = Some [], l_address = Some [], l_city = Some [], l_state = Some [],
       l_country = Some [], l_postal_code = None, l_latitude = None, l_longitude = None \<rparr>"

text \<open>\<open>FacilityPayload\<close> of the three-step component.\<close>

record facility_payload =
  f_id :: "jsstring option"
  f_location_id :: "json option"
  f_name :: jsstring
  f_type :: jsstring
  f_status :: jsstring
  f_capacity :: "jsnum option"
  f_metadata :: "json option"

datatype facility_field =
    A_id | A_location_id | A_name | A_type | A_status | A_capacity | A_metadata

fun facility_key :: "facility_field \<Rightarrow> jsstring" where
  "facility_key A_id = js ''id''"
| "facility_key A_location_id = js ''location_id''"
| "facility_key A_name = js ''name''"
| "facility_key A_type = js ''type''"
| "facility_key A_status = js ''status''"
| "facility_key A_capacity = js ''capacity''"
| "facility_key A_metadata = js ''metadata''"

fun set_facility_text :: "facility_field \<Rightarrow> jsstring \<Rightarrow> facility_payload \<Rightarrow> facility_payload" where
  "set_facility_text A_id v fac = fac\<lparr>f_id := Some v\<rparr>"
| "set_facility_text A_location_id v fac = fac\<lparr>f_location_id := Some (JStr v)\<rparr>"
| "set_facility_text A_name v fac = fac\<lparr>f_name := v\<rparr>"
| "set_facility_text A_type v fac = fac\<lparr>f_type := v\<rparr>"
| "set_facility_text A_status v fac = fac\<lparr>f_status := v\<rparr>"
| "set_facility_text A_metadata v fac = fac\<lparr>f_metadata := Some (JStr v)\<rparr>"
| "set_facility_text A_capacity v fac = fac"

text \<open>
  The state of a component (the \<open>useState\<close> cells of the three components together),
  the \<open>clientId\<close> query parameter, and the routes pushed to the router.
\<close>

record wizard =
  currentStep :: nat
  isSubmitting :: bool
  clientId :: "json option"
  isEditing :: bool
  clientIdFromQuery :: "jsstring option"
  businessForm :: business_form
  step1Errors :: step_error_state
  locations :: "location_payload list"
  step2Errors :: step_error_state
  facilities :: "facility_payload list"
  step3Errors :: step_error_state
  locationChoices :: "(json option \<times> json option) list"
  pushed :: "jsstring list"

subsection \<open>Field changes and list operations\<close>

text \<open>\<open>errors.fields[k] = msg\<close>, and truthiness of a string or \<open>null\<close>.\<close>

definition set_err :: "jsstring \<Rightarrow> jsstring \<Rightarrow> field_errors \<Rightarrow> field_errors" where
  "set_err k msg errs = AList.update k (Some msg) errs"

definition str_truthy :: "jsstring option \<Rightarrow> bool" where
  "str_truthy v = (case v of None \<Rightarrow> False | Some s \<Rightarrow> s \<noteq> [])"

text \<open>\<open>prev.map((x, i) => i === index ? g(x) : x)\<close> and \<open>prev.filter((_, i) => i !== index)\<close>.\<close>

definition map_at :: "nat \<Rightarrow> ('a \<Rightarrow> 'a) \<Rightarrow> 'a list \<Rightarrow> 'a list" where
  "map_at index g xs = map (\<lambda>(i, x). if i = index then g x else x) (enumerate 0 xs)"

definition remove_at :: "nat \<Rightarrow> 'a list \<Rightarrow> 'a list" where
  "remove_at index xs = map snd (filter (\<lambda>(i, x). i \<noteq> index) (enumerate 0 xs))"

text \<open>\<open>handleBusinessChange\<close> has the same text in the three components.\<close>

definition handleBusinessChange :: "business_field \<Rightarrow> jsstring \<Rightarrow> wizard \<Rightarrow> wizard" where
  "handleBusinessChange field v s =
     s\<lparr> businessForm := set_business field v (businessForm s),
        step1Errors :=
          \<lparr> e_global = None,
            e_fields = AList.update (business_key field) None (e_fields (step1Errors s)) \<rparr> \<rparr>"

text \<open>
  The coordinate stored by \<open>handleLocationChange\<close> of the edit-capable component;
  \<open>toNumber\<close> is the language's \<open>Number\<close> on strings.
\<close>

definition coordinate :: "(jsstring \<Rightarrow> jsnum) \<Rightarrow> location_field \<Rightarrow> jsstring \<Rightarrow> jsnum option" where
  "coordinate toNumber field v =
     (if v = [] then None
      else (let num = toNumber v
            in if isNaN num then None
               else if field = L_latitude \<and> (js_lt num (Fin (- 90)) \<or> js_gt num (Fin 90)) then None
               else if field = L_longitude \<and> (js_lt num (Fin (- 180)) \<or> js_gt num (Fin 180)) then None
               else Some num))"

definition handleLocationChange ::
  "(jsstring \<Rightarrow> jsnum) \<Rightarrow> nat \<Rightarrow> location_field \<Rightarrow> jsstring \<Rightarrow> wizard \<Rightarrow> wizard" where
  "handleLocationChange toNumber index field v s =
     s\<lparr> locations :=
          map_at index
            (\<lambda>loc. if field = L_latitude \<or> field = L_longitude
                    then set_location_number field (coordinate toNumber field v) loc
                    else set_location_text field v loc)
            (locations s),
        step2Errors :=
          \<lparr> e_global = None,
            e_fields = AList.update (index_key index (location_key field)) None
                         (e_fields (step2Errors s)) \<rparr> \<rparr>"

text \<open>The earlier and the three-step component store \<open>Number(value)\<close> as it is.\<close>

definition handleLocationChange_plain ::
  "(jsstring \<Rightarrow> jsnum) \<Rightarrow> nat \<Rightarrow> location_field \<Rightarrow> jsstring \<Rightarrow> wizard \<Rightarrow> wizard" where
  "handleLocationChange_plain toNumber index field v s =
     s\<lparr> locations :=
          map_at index
            (\<lambda>loc. if field = L_latitude \<or> field = L_longitude
                    then set_location_number field (if v = [] then None else Some (toNumber v)) loc
                    else set_location_text field v loc)
            (locations s),
        step2Errors :=
          \<lparr> e_global = None,
            e_fields = AList.update (index_key index (location_key field)) None
                         (e_fields (step2Errors s)) \<rparr> \<rparr>"

definition handleFacilityChange ::
  "(jsstring \<Rightarrow> jsnum) \<Rightarrow> nat \<Rightarrow> facility_field \<Rightarrow> jsstring \<Rightarrow> wizard \<Rightarrow> wizard" where
  "handleFacilityChange toNumber index field v s =
     s\<lparr> facilities :=
          map_at index
            (\<lambda>fac. if field = A_capacity
                    then fac\<lparr>f_capacity := (if v = [] then None else Some (toNumber v))\<rparr>
                    else set_facility_text field v fac)
            (facilities s),
        step3Errors :=
          \<lparr> e_global = None,
            e_fields = AList.update (index_key index (facility_key field)) None
                         (e_fields (step3Errors s)) \<rparr> \<rparr>"

definition addLocation :: "wizard \<Rightarrow> wizard" where
  "addLocation s = s\<lparr> locations := locations s @ [emptyLocation] \<rparr>"

text \<open>\<open>removeLocation\<close> of the two two-step components (same text).\<close>

definition removeLocation :: "nat \<Rightarrow> wizard \<Rightarrow> wizard" where
  "removeLocation index s =
     (if length (locations s) > 1 then s\<lparr> locations := remove_at index (locations s) \<rparr> else s)"

text \<open>\<open>removeLocation\<close> of the three-step component has no test of the length.\<close>

definition removeLocation_onboarding :: "nat \<Rightarrow> wizard \<Rightarrow> wizard" where
  "removeLocation_onboarding index s = s\<lparr> locations := remove_at index (locations s) \<rparr>"

text \<open>
  In the three components the button whose \<open>onClick\<close> calls \<open>removeLocation(index)\<close> is
  rendered under \<open>locations.length > 1 &&\<close>, once per row. A click on it is possible only
  where it is rendered.
\<close>

definition removeButtonRendered :: "nat \<Rightarrow> wizard \<Rightarrow> bool" where
  "removeButtonRendered index s \<longleftrightarrow> length (locations s) > 1 \<and> index < length (locations s)"

definition clickRemove_onboarding :: "nat \<Rightarrow> wizard \<Rightarrow> wizard" where
  "clickRemove_onboarding index s =
     (if removeButtonRendered index s then removeLocation_onboarding index s else s)"

subsection \<open>Validation gates\<close>

definition err_if_blank :: "jsstring \<Rightarrow> jsstring \<Rightarrow> jsstring \<Rightarrow> field_errors \<Rightarrow> field_errors" where
  "err_if_blank v k msg errs = err_if (trim v = []) k msg errs"

text \<open>\<open>!s?.trim()\<close> on an optional string.\<close>

definition blank :: "jsstring option \<Rightarrow> bool" where
  "blank v = (case v of None \<Rightarrow> True | Some s \<Rightarrow> trim s = [])"

text \<open>The end of every gate of Step 1: \<open>if (Object.keys(errors.fields).length > 0) ...\<close>.\<close>

definition finishStep1 :: "field_errors \<Rightarrow> wizard \<Rightarrow> bool \<times> wizard" where
  "finishStep1 errs s =
     (if errs \<noteq> []
      then (False, s\<lparr> step1Errors :=
                        \<lparr> e_global = Some (js ''Please fill in all required fields.''),
                          e_fields = errs \<rparr> \<rparr>)
      else (True, s\<lparr> step1Errors := initialErrorState \<rparr>))"

definition emailErrors :: "jsstring \<Rightarrow> field_errors \<Rightarrow> field_errors" where
  "emailErrors v errs =
     (if trim v = [] then set_err (js ''email'') (js ''Email is required'') errs
      else err_if (\<not> rx_test emailPattern v) (js ''email'')
             (js ''Please enter a valid email address'') errs)"

definition passwordErrors :: "jsstring \<Rightarrow> field_errors \<Rightarrow> field_errors" where
  "passwordErrors v errs =
     (if trim v = [] then set_err (js ''adminPassword'') (js ''Admin password is required'') errs
      else err_if (length (trim v) < 6) (js ''adminPassword'')
             (js ''Password must be at least 6 characters'') errs)"

definition outOfRange :: "jsnum \<Rightarrow> real \<Rightarrow> bool" where
  "outOfRange n bound \<longleftrightarrow> js_lt n (Fin (- bound)) \<or> js_gt n (Fin bound)"

definition formCoordinateErrors ::
  "(jsstring \<Rightarrow> jsnum) \<Rightarrow> jsstring \<Rightarrow> real \<Rightarrow> jsstring \<Rightarrow> jsstring \<Rightarrow> field_errors \<Rightarrow> field_errors" where
  "formCoordinateErrors toNumber v bound k msg errs =
     (if v \<noteq> [] \<and> trim v \<noteq> []
      then (let n = toNumber v in err_if (isNaN n \<or> outOfRange n bound) k msg errs)
      else errs)"

definition validateStep1 :: "(jsstring \<Rightarrow> jsnum) \<Rightarrow> wizard \<Rightarrow> bool \<times> wizard" where
  "validateStep1 toNumber s =
     (let f = businessForm s;
          e1 = err_if_blank (companyName f) (js ''companyName'') (js ''Company name is required'') [];
          e2 = err_if_blank (contactName f) (js ''contactName'') (js ''Contact person is required'') e1;
          e3 = emailErrors (email f) e2;
          e4 = err_if_blank (phone f) (js ''phone'') (js ''Phone is required'') e3;
          e5 = err_if_blank (city f) (js ''city'') (js ''City is required'') e4;
          e6 = err_if_blank (country f) (js ''country'') (js ''Country is required'') e5;
          e7 = formCoordinateErrors toNumber (latitude f) 90 (js ''latitude'')
                 (js ''Latitude must be between -90 and 90'') e6;
          e8 = formCoordinateErrors toNumber (longitude f) 180 (js ''longitude'')
                 (js ''Longitude must be between -180 and 180'') e7;
          e9 = (if \<not> isEditing s then passwordErrors (adminPassword f) e8 else e8)
      in finishStep1 e9 s)"

definition validateStep1_plain :: "wizard \<Rightarrow> bool \<times> wizard" where
  "validateStep1_plain s =
     (let f = businessForm s;
          e1 = err_if_blank (companyName f) (js ''companyName'') (js ''Company name is required'') [];
          e2 = err_if_blank (contactName f) (js ''contactName'') (js ''Contact person is required'') e1;
          e3 = emailErrors (email f) e2;
          e4 = err_if_blank (phone f) (js ''phone'') (js ''Phone is required'') e3;
          e5 = err_if_blank (city f) (js ''city'') (js ''City is required'') e4;
          e6 = err_if_blank (country f) (js ''country'') (js ''Country is required'') e5
      in finishStep1 e6 s)"

text \<open>The three-step component only requires the email to be non-blank.\<close>

definition validateStep1_onboarding :: "wizard \<Rightarrow> bool \<times> wizard" where
  "validateStep1_onboarding s =
     (let f = businessForm s;
          e1 = err_if_blank (companyName f) (js ''companyName'') (js ''Company name is required'') [];
          e2 = err_if_blank (contactName f) (js ''contactName'') (js ''Contact person is required'') e1;
          e3 = err_if_blank (email f) (js ''email'') (js ''Email is required'') e2;
          e4 = err_if_blank (phone f) (js ''phone'') (js ''Phone is required'') e3;
          e5 = err_if_blank (city f) (js ''city'') (js ''City is required'') e4;
          e6 = err_if_blank (country f) (js ''country'') (js ''Country is required'') e5;
          e7 = passwordErrors (adminPassword f) e6
      in finishStep1 e7 s)"

text \<open>The body of \<open>locations.forEach\<close> in the gate of Step 2, edit-capable component.\<close>

definition coordinateInvalid :: "jsnum option \<Rightarrow> real \<Rightarrow> bool" where
  "coordinateInvalid v bound = (case v of None \<Rightarrow> False | Some n \<Rightarrow> outOfRange n bound)"

definition checkLocation :: "nat \<Rightarrow> location_payload \<Rightarrow> field_errors \<Rightarrow> field_errors" where
  "checkLocation index loc errs =
     (let e1 = err_if_blank (l_name loc) (index_key index (js ''name''))
                 (js ''Location name is required'') errs;
          e2 = err_if (blank (l_city loc)) (index_key index (js ''city''))
                 (js ''City is required'') e1;
          e3 = err_if (blank (l_country loc)) (index_key index (js ''country''))
                 (js ''Country is required'') e2;
          e4 = err_if (coordinateInvalid (l_latitude loc) 90) (index_key index (js ''latitude''))
                 (js ''Latitude must be between -90 and 90'') e3
      in err_if (coordinateInvalid (l_longitude loc) 180) (index_key index (js ''longitude''))
           (js ''Longitude must be between -180 and 180'') e4)"

text \<open>The same body in the earlier and in the three-step component: no coordinates.\<close>

definition checkLocation_plain :: "nat \<Rightarrow> location_payload \<Rightarrow> field_errors \<Rightarrow> field_errors" where
  "checkLocation_plain index loc errs =
     (let e1 = err_if_blank (l_name loc) (index_key index (js ''name''))
                 (js ''Location name is required'') errs;
          e2 = err_if (blank (l_city loc)) (index_key index (js ''city''))
                 (js ''City is required'') e1
      in err_if (blank (l_country loc)) (index_key index (js ''country''))
           (js ''Country is required'') e2)"

text \<open>\<open>xs.forEach((x, index) => body)\<close> accumulating into \<open>errors.fields\<close>.\<close>

fun forEachIndexed :: "(nat \<Rightarrow> 'a \<Rightarrow> 'e \<Rightarrow> 'e) \<Rightarrow> nat \<Rightarrow> 'a list \<Rightarrow> 'e \<Rightarrow> 'e" where
  "forEachIndexed body i [] errs = errs"
| "forEachIndexed body i (x # xs) errs = forEachIndexed body (Suc i) xs (body i x errs)"

definition finishStep2 :: "jsstring option \<Rightarrow> field_errors \<Rightarrow> wizard \<Rightarrow> bool \<times> wizard" where
  "finishStep2 g errs s =
     (if errs \<noteq> [] \<or> str_truthy g
      then (False, s\<lparr> step2Errors :=
                        \<lparr> e_global = (if \<not> str_truthy g
                                       then Some (js ''Please complete the required fields for locations.'')
                                       else g),
                          e_fields = errs \<rparr> \<rparr>)
      else (True, s\<lparr> step2Errors := initialErrorState \<rparr>))"

definition noLocationError :: "wizard \<Rightarrow> jsstring option" where
  "noLocationError s =
     (if length (locations s) = 0 then Some (js ''Add at least one location to continue.'')
      else None)"

definition validateStep2 :: "wizard \<Rightarrow> bool \<times> wizard" where
  "validateStep2 s =
     finishStep2 (noLocationError s) (forEachIndexed checkLocation 0 (locations s) []) s"

text \<open>\<open>validateStep2\<close> of the earlier and of the three-step component (same text).\<close>

definition validateStep2_plain :: "wizard \<Rightarrow> bool \<times> wizard" where
  "validateStep2_plain s =
     finishStep2 (noLocationError s) (forEachIndexed checkLocation_plain 0 (locations s) []) s"

subsection \<open>Submissions\<close>

text \<open>
  A call of one of the typed API functions either rejects with an error, of which the
  handlers read \<open>message\<close>, or resolves to a parsed value (\<open>None\<close> is \<open>undefined\<close>).
\<close>

datatype api_result = Rejected jsstring | Resolved "json option"

text \<open>
  The payloads of Step 1, as \<open>JSON.stringify\<close> serialises them: a property whose value is
  \<open>undefined\<close> is left out, and a number that is not finite is written \<open>null\<close>.
\<close>

definition req :: "string \<Rightarrow> jsstring \<Rightarrow> (jsstring \<times> json) list" where
  "req k v = [(js k, JStr v)]"

definition or_undefined :: "string \<Rightarrow> jsstring \<Rightarrow> (jsstring \<times> json) list" where
  "or_undefined k v = (if v \<noteq> [] then [(js k, JStr v)] else [])"

definition or_null :: "string \<Rightarrow> jsstring \<Rightarrow> (jsstring \<times> json) list" where
  "or_null k v = [(js k, if v \<noteq> [] then JStr v else JNull)]"

definition num_json :: "jsnum \<Rightarrow> json" where
  "num_json n = (case n of Fin r \<Rightarrow> JNum r | _ \<Rightarrow> JNull)"

definition updatePayload :: "(jsstring \<Rightarrow> jsnum) \<Rightarrow> business_form \<Rightarrow> json" where
  "updatePayload toNumber f =
     JObj (req ''company_name'' (companyName f) @ or_null ''legal_name'' (legalName f)
       @ or_null ''contact_name'' (contactName f) @ or_null ''email'' (email f)
       @ or_null ''phone'' (phone f) @ or_null ''address'' (address f)
       @ or_null ''city'' (city f) @ or_null ''state'' (state f)
       @ or_null ''country'' (country f) @ or_null ''postal_code'' (postalCode f)
       @ or_null ''tax_id'' (taxId f)
       @ or_null ''company_registration_number'' (registrationNumber f)
       @ or_null ''description'' (description f) @ or_null ''logo_url'' (logoUrl f)
       @ or_null ''cover_image_url'' (coverImageUrl f)
       @ [(js ''latitude'', if latitude f \<noteq> [] then num_json (toNumber (latitude f)) else JNull),
          (js ''longitude'', if longitude f \<noteq> [] then num_json (toNumber (longitude f)) else JNull)])"

definition userPayload :: "business_form \<Rightarrow> json" where
  "userPayload f =
     JObj [(js ''name'',
            JStr (if trim (contactName f) \<noteq> [] then trim (contactName f)
                  else if trim (companyName f) \<noteq> [] then trim (companyName f)
                  else email f)),
           (js ''email'', JStr (email f)),
           (js ''password'', JStr (adminPassword f))]"

definition createPayload :: "(jsstring \<Rightarrow> jsnum) \<Rightarrow> business_form \<Rightarrow> json" where
  "createPayload toNumber f =
     JObj [(js ''user'', userPayload f),
           (js ''client'',
            JObj (req ''company_name'' (companyName f) @ or_undefined ''legal_name'' (legalName f)
              @ req ''contact_name'' (contactName f) @ req ''email'' (email f)
              @ req ''phone'' (phone f) @ or_undefined ''address'' (address f)
              @ req ''city'' (city f) @ or_undefined ''state'' (state f)
              @ req ''country'' (country f) @ or_undefined ''postal_code'' (postalCode f)
              @ or_undefined ''tax_id'' (taxId f)
              @ or_undefined ''company_registration_number'' (registrationNumber f)
              @ or_undefined ''description'' (description f)
              @ or_undefined ''logo_url'' (logoUrl f)
              @ or_undefined ''cover_image_url'' (coverImageUrl f)
              @ (if latitude f \<noteq> [] then [(js ''latitude'', num_json (toNumber (latitude f)))] else [])
              @ (if longitude f \<noteq> [] then [(js ''longitude'', num_json (toNumber (longitude f)))] else [])))]"

definition clientPayload_plain :: "business_form \<Rightarrow> json" where
  "clientPayload_plain f =
     JObj (req ''company_name'' (companyName f) @ or_undefined ''legal_name'' (legalName f)
       @ req ''contact_name'' (contactName f) @ req ''email'' (email f)
       @ req ''phone'' (phone f) @ or_undefined ''address'' (address f)
       @ req ''city'' (city f) @ req ''country'' (country f)
       @ or_undefined ''tax_id'' (taxId f)
       @ or_undefined ''company_registration_number'' (registrationNumber f)
       @ or_undefined ''description'' (description f)
       @ or_undefined ''logo_url'' (logoUrl f))"

definition createPayload_onboarding :: "business_form \<Rightarrow> json" where
  "createPayload_onboarding f =
     JObj [(js ''user'', userPayload f), (js ''client'', clientPayload_plain f)]"

text \<open>
  \<open>result?.user?.id || result?.client?.id || result?.client_id || result?.id\<close>, and the
  same without the first alternative in the earlier component.
\<close>

definition createdClientId :: "json option \<Rightarrow> json option" where
  "createdClientId r =
     js_or (js_or (js_or (js_get_opt (js_get_opt r (js ''user'')) (js ''id''))
                         (js_get_opt (js_get_opt r (js ''client'')) (js ''id'')))
                  (js_get_opt r (js ''client_id'')))
           (js_get_opt r (js ''id''))"

definition createdClientId_plain :: "json option \<Rightarrow> json option" where
  "createdClientId_plain r =
     js_or (js_or (js_get_opt (js_get_opt r (js ''client'')) (js ''id''))
                  (js_get_opt r (js ''client_id'')))
           (js_get_opt r (js ''id''))"

definition opt_truthy :: "json option \<Rightarrow> bool" where
  "opt_truthy v = (case v of None \<Rightarrow> False | Some d \<Rightarrow> truthy d)"

text \<open>The \<open>catch\<close> and \<open>finally\<close> of \<open>handleSubmitStep1\<close>: \<open>err.message || fallback\<close>.\<close>

definition failStep1 :: "jsstring \<Rightarrow> jsstring \<Rightarrow> wizard \<Rightarrow> wizard" where
  "failStep1 msg fallback s =
     s\<lparr> step1Errors := \<lparr> e_global = Some (if msg \<noteq> [] then msg else fallback), e_fields = [] \<rparr>,
        isSubmitting := False \<rparr>"

text \<open>What follows \<open>const result = await createClientWithUserApi(payload)\<close>.\<close>

definition afterCreate :: "json option \<Rightarrow> api_result \<Rightarrow> jsstring \<Rightarrow> wizard \<Rightarrow> wizard" where
  "afterCreate cid r fallback s =
     (case r of
        Rejected msg \<Rightarrow> failStep1 msg fallback s
      | Resolved _ \<Rightarrow>
          if \<not> opt_truthy cid then failStep1 (js ''Client ID missing from response'') fallback s
          else s\<lparr> clientId := cid, currentStep := 2, isSubmitting := False \<rparr>)"

definition resolved_value :: "api_result \<Rightarrow> json option" where
  "resolved_value r = (case r of Rejected _ \<Rightarrow> None | Resolved v \<Rightarrow> v)"

definition handleSubmitStep1 ::
  "(jsstring \<Rightarrow> jsnum) \<Rightarrow> (json \<Rightarrow> api_result) \<Rightarrow> (jsstring \<Rightarrow> json \<Rightarrow> api_result) \<Rightarrow> wizard \<Rightarrow> wizard" where
  "handleSubmitStep1 toNumber createClientWithUserApi updateClientApi s =
     (case validateStep1 toNumber s of
        (valid, s1) \<Rightarrow>
          if \<not> valid then s1
          else
            (let fallback = (if isEditing s then js ''Failed to update business''
                             else js ''Failed to create business'');
                 r = createClientWithUserApi (createPayload toNumber (businessForm s));
                 create = afterCreate (createdClientId (resolved_value r)) r fallback s1
             in case clientIdFromQuery s of
                  None \<Rightarrow> create
                | Some q \<Rightarrow>
                    if isEditing s \<and> q \<noteq> []
                    then (case updateClientApi q (updatePayload toNumber (businessForm s)) of
                            Rejected msg \<Rightarrow> failStep1 msg fallback s1
                          | Resolved _ \<Rightarrow>
                              s1\<lparr> clientId := Some (JStr q), currentStep := 2,
                                  isSubmitting := False \<rparr>)
                    else create))"

definition handleSubmitStep1_plain :: "(json \<Rightarrow> api_result) \<Rightarrow> wizard \<Rightarrow> wizard" where
  "handleSubmitStep1_plain createClientWithUserApi s =
     (case validateStep1_plain s of
        (valid, s1) \<Rightarrow>
          if \<not> valid then s1
          else
            (let r = createClientWithUserApi (clientPayload_plain (businessForm s))
             in afterCreate (createdClientId_plain (resolved_value r)) r
                  (js ''Failed to create business'') s1))"

definition handleSubmitStep1_onboarding :: "(json \<Rightarrow> api_result) \<Rightarrow> wizard \<Rightarrow> wizard" where
  "handleSubmitStep1_onboarding createClientWithUserApi s =
     (case validateStep1_onboarding s of
        (valid, s1) \<Rightarrow>
          if \<not> valid then s1
          else
            (let r = createClientWithUserApi (createPayload_onboarding (businessForm s))
             in afterCreate (createdClientId (resolved_value r)) r
                  (js ''Failed to create client'') s1))"

text \<open>
  \<open>createLocationApi\<close> answers a payload, possibly depending on the payloads sent before.
\<close>

type_synonym location_api = "location_payload list \<Rightarrow> location_payload \<Rightarrow> api_result"

text \<open>
  The loop \<open>for (const loc of locations)\<close> of the edit-capable component. It returns the
  message of the error that ended it, if any, and the payloads passed to
  \<open>createLocationApi\<close>, in order.
\<close>

fun createLocations ::
  "location_api \<Rightarrow> json \<Rightarrow> location_payload list \<Rightarrow> location_payload list \<Rightarrow>
   jsstring option \<times> location_payload list" where
  "createLocations api cid [] calls = (None, calls)"
| "createLocations api cid (loc # rest) calls =
     (if str_truthy (l_id loc) then createLocations api cid rest calls
      else (let payload = loc\<lparr>l_client_id := Some cid\<rparr>
            in case api calls payload of
                 Rejected msg \<Rightarrow> (Some msg, calls @ [payload])
               | Resolved _ \<Rightarrow> createLocations api cid rest (calls @ [payload])))"

text \<open>The loop of the earlier component: every location is sent.\<close>

fun createLocations_plain ::
  "location_api \<Rightarrow> json \<Rightarrow> location_payload list \<Rightarrow> location_payload list \<Rightarrow>
   jsstring option \<times> location_payload list" where
  "createLocations_plain api cid [] calls = (None, calls)"
| "createLocations_plain api cid (loc # rest) calls =
     (let payload = loc\<lparr>l_client_id := Some cid\<rparr>
      in case api calls payload of
           Rejected msg \<Rightarrow> (Some msg, calls @ [payload])
         | Resolved _ \<Rightarrow> createLocations_plain api cid rest (calls @ [payload]))"

text \<open>
  The loop of the three-step component also collects \<open>{ id: result.id, name: result.name }\<close>;
  reading a property of an \<open>undefined\<close> or \<open>null\<close> result throws a TypeError, whose message
  \<open>E\<close> is the engine's.
\<close>

fun createLocations_onboarding ::
  "jsstring \<Rightarrow> location_api \<Rightarrow> json \<Rightarrow> location_payload list \<Rightarrow> location_payload list \<Rightarrow>
   (json option \<times> json option) list \<Rightarrow>
   jsstring option \<times> location_payload list \<times> (json option \<times> json option) list" where
  "createLocations_onboarding E api cid [] calls created = (None, calls, created)"
| "createLocations_onboarding E api cid (loc # rest) calls created =
     (let payload = loc\<lparr>l_client_id := Some cid\<rparr>
      in case api calls payload of
           Rejected msg \<Rightarrow> (Some msg, calls @ [payload], created)
         | Resolved None \<Rightarrow> (Some E, calls @ [payload], created)
         | Resolved (Some JNull) \<Rightarrow> (Some E, calls @ [payload], created)
         | Resolved (Some d) \<Rightarrow>
             createLocations_onboarding E api cid rest (calls @ [payload])
               (created @ [(js_get d (js ''id''), js_get d (js ''name''))]))"

text \<open>The guard at the head of \<open>handleSubmitStep2\<close>, with the component's message.\<close>

definition blockStep2 :: "jsstring \<Rightarrow> wizard \<Rightarrow> wizard" where
  "blockStep2 msg s =
     s\<lparr> step2Errors := \<lparr> e_global = Some msg, e_fields = [] \<rparr>, currentStep := 1 \<rparr>"

definition failStep2 :: "jsstring \<Rightarrow> jsstring \<Rightarrow> wizard \<Rightarrow> wizard" where
  "failStep2 msg fallback s =
     s\<lparr> step2Errors := \<lparr> e_global = Some (if msg \<noteq> [] then msg else fallback), e_fields = [] \<rparr>,
        isSubmitting := False \<rparr>"

text \<open>
  The value of \<open>clientId\<close> where the guard \<open>if (!clientId)\<close> has been passed; the
  \<open>null\<close> branch is never used.
\<close>

definition clientIdValue :: "wizard \<Rightarrow> json" where
  "clientIdValue s = (case clientId s of None \<Rightarrow> JNull | Some cid \<Rightarrow> cid)"

text \<open>
  \<open>handleSubmitStep2\<close> returns the new state and the payloads it passed to
  \<open>createLocationApi\<close>.
\<close>

definition handleSubmitStep2 :: "location_api \<Rightarrow> wizard \<Rightarrow> wizard \<times> location_payload list" where
  "handleSubmitStep2 api s =
     (if \<not> opt_truthy (clientId s)
      then (blockStep2 (js ''Business has not been created yet. Please complete Step 1 first.'') s, [])
      else
        (case validateStep2 s of
           (valid, s1) \<Rightarrow>
             if \<not> valid then (s1, [])
             else
               (case createLocations api (clientIdValue s) (locations s) [] of
                  (None, calls) \<Rightarrow>
                    (s1\<lparr> pushed := pushed s1 @ [js ''/dashboard''], isSubmitting := False \<rparr>, calls)
                | (Some msg, calls) \<Rightarrow>
                    (failStep2 msg (js ''Failed to save locations'') s1, calls))))"

definition handleSubmitStep2_plain :: "location_api \<Rightarrow> wizard \<Rightarrow> wizard \<times> location_payload list" where
  "handleSubmitStep2_plain api s =
     (if \<not> opt_truthy (clientId s)
      then (blockStep2 (js ''Business has not been created yet. Please complete Step 1 first.'') s, [])
      else
        (case validateStep2_plain s of
           (valid, s1) \<Rightarrow>
             if \<not> valid then (s1, [])
             else
               (case createLocations_plain api (clientIdValue s) (locations s) [] of
                  (None, calls) \<Rightarrow>
                    (s1\<lparr> pushed := pushed s1 @ [js ''/dashboard''], isSubmitting := False \<rparr>, calls)
                | (Some msg, calls) \<Rightarrow>
                    (failStep2 msg (js ''Failed to create locations'') s1, calls))))"

text \<open>
  After its loop the three-step component fills the location choices and the facility
  rows that have no location yet, and goes to Step 3.
\<close>

definition prefillFacilities ::
  "(json option \<times> json option) list \<Rightarrow> wizard \<Rightarrow> wizard" where
  "prefillFacilities created s =
     (case created of
        [] \<Rightarrow> s
      | first # _ \<Rightarrow>
          s\<lparr> locationChoices := created,
             facilities :=
               map (\<lambda>fac. if \<not> opt_truthy (f_location_id fac)
                           then fac\<lparr>f_location_id := fst first\<rparr> else fac)
                 (facilities s) \<rparr>)"

definition handleSubmitStep2_onboarding ::
  "jsstring \<Rightarrow> location_api \<Rightarrow> wizard \<Rightarrow> wizard \<times> location_payload list" where
  "handleSubmitStep2_onboarding E api s =
     (if \<not> opt_truthy (clientId s)
      then (blockStep2 (js ''Client has not been created yet. Please complete Step 1 first.'') s, [])
      else
        (case validateStep2_plain s of
           (valid, s1) \<Rightarrow>
             if \<not> valid then (s1, [])
             else
               (case createLocations_onboarding E api (clientIdValue s) (locations s) [] [] of
                  (None, calls, created) \<Rightarrow>
                    ((prefillFacilities created s1)\<lparr> currentStep := 3, isSubmitting := False \<rparr>,
                     calls)
                | (Some msg, calls, created) \<Rightarrow>
                    (failStep2 msg (js ''Failed to create locations'') s1, calls))))"

subsection \<open>Initial state\<close>

definition emptyBusinessForm :: business_form where
  "emptyBusinessForm =
     \<lparr> companyName = [], legalName = [], contactName = [], email = [], phone = [],
       address = [], city = [], state = [], country = [], postalCode = [], taxId = [],
       registrationNumber = [], description = [], logoUrl = [], coverImageUrl = [],
       latitude = [], longitude = [], adminPassword = [] \<rparr>"

definition emptyFacility :: facility_payload where
  "emptyFacility =
     \<lparr> f_id = None, f_location_id = Some (JStr []), f_name = [], f_type = js ''other'',
       f_status = js ''active'', f_capacity = None, f_metadata = None \<rparr>"

text \<open>The state of a component at its first render, without a \<open>clientId\<close> query parameter.\<close>

definition initialWizard :: wizard where
  "initialWizard =
     \<lparr> currentStep = 1, isSubmitting = False, clientId = None, isEditing = False,
       clientIdFromQuery = None, businessForm = emptyBusinessForm,
       step1Errors = initialErrorState, locations = [emptyLocation],
       step2Errors = initialErrorState, facilities = [emptyFacility],
       step3Errors = initialErrorState, locationChoices = [], pushed = [] \<rparr>"


section \<open>Notions used in the statements\<close>

text \<open>The entry of a field in the Step 1 errors that a gate leaves behind.\<close>

definition fieldError1 :: "bool \<times> wizard \<Rightarrow> jsstring \<Rightarrow> jsstring option option" where
  "fieldError1 r k = map_of (e_fields (step1Errors (snd r))) k"

text \<open>The number that a string of decimal digits denotes (used to invert \<open>show_nat\<close>).\<close>

definition digits_value :: "jsstring \<Rightarrow> nat" where
  "digits_value ds = foldl (\<lambda>a c. 10 * a + (unat c - 48)) 0 ds"

text \<open>The entry of a key in the Step 2 errors that a gate leaves behind.\<close>

definition fieldError2 :: "bool \<times> wizard \<Rightarrow> jsstring \<Rightarrow> jsstring option option" where
  "fieldError2 r k = map_of (e_fields (step2Errors (snd r))) k"

text \<open>A location that the gate of the edit-capable component has nothing to say about.\<close>

definition locationValid :: "location_payload \<Rightarrow> bool" where
  "locationValid loc \<longleftrightarrow>
     trim (l_name loc) \<noteq> [] \<and> \<not> blank (l_city loc) \<and> \<not> blank (l_country loc)
     \<and> \<not> coordinateInvalid (l_latitude loc) 90 \<and> \<not> coordinateInvalid (l_longitude loc) 180"

text \<open>
  The payloads that the loop of the edit-capable component is to send: the locations
  without a truthy \<open>id\<close>, in order, each with \<open>client_id\<close> set.
\<close>

definition newLocationPayloads :: "json \<Rightarrow> location_payload list \<Rightarrow> location_payload list" where
  "newLocationPayloads cid locs =
     map (\<lambda>loc. loc\<lparr>l_client_id := Some cid\<rparr>) (filter (\<lambda>loc. \<not> str_truthy (l_id loc)) locs)"

text \<open>
  What the caller of \<open>apiFetch\<close> put into \<open>options.headers\<close>: a header of the given name
  under any spelling, and a header of that name under a spelling other than the given one.
\<close>

definition suppliesHeader :: "request_init \<Rightarrow> jsstring \<Rightarrow> bool" where
  "suppliesHeader options name \<longleftrightarrow>
     headerName name \<in> set (map headerName (map fst (ri_headers options)))"

definition suppliesOtherSpelling :: "request_init \<Rightarrow> jsstring \<Rightarrow> bool" where
  "suppliesOtherSpelling options name \<longleftrightarrow>
     headerName name \<in> set (map headerName (removeAll name (map fst (ri_headers options))))"

text \<open>The locations with \<open>client_id\<close> set, as the loops of the wizards build their payloads.\<close>

definition withClientId :: "json \<Rightarrow> location_payload list \<Rightarrow> location_payload list" where
  "withClientId cid locs = map (\<lambda>loc. loc\<lparr>l_client_id := Some cid\<rparr>) locs"

text \<open>
  What \<open>createLocationApi\<close> answers to payload number \<open>i\<close> of a list of payloads when
  the payloads before it have been sent, in order.
\<close>

definition answer :: "location_api \<Rightarrow> location_payload list \<Rightarrow> nat \<Rightarrow> api_result" where
  "answer api ps i = api (take i ps) (ps ! i)"

fun isResolved :: "api_result \<Rightarrow> bool" where
  "isResolved (Resolved v) = True"
| "isResolved (Rejected msg) = False"

text \<open>
  An answer from which the three-step component can read \<open>id\<close> and \<open>name\<close>: a resolved
  value that is neither \<open>undefined\<close> nor \<open>null\<close>. Otherwise its loop ends with the message
  of the rejection, or with the TypeError's message \<open>E\<close>.
\<close>

fun isReadable :: "api_result \<Rightarrow> bool" where
  "isReadable (Resolved (Some d)) = (d \<noteq> JNull)"
| "isReadable (Resolved None) = False"
| "isReadable (Rejected msg) = False"

fun failureMessage :: "jsstring \<Rightarrow> api_result \<Rightarrow> jsstring" where
  "failureMessage E (Rejected msg) = msg"
| "failureMessage E (Resolved v) = E"

section \<open>Concrete inputs\<close>

text \<open>Inputs at which the theorems below are instantiated.\<close>

definition ex_S :: "json \<Rightarrow> jsstring" where
  "ex_S v = js ''[object Object]''"

definition ex_base :: jsstring where
  "ex_base = js ''http://localhost:3001''"

definition ex_window :: window where
  "ex_window = Some (map_of [(ACCESS_TOKEN_KEY, js ''old''), (REFRESH_TOKEN_KEY, js ''r1'')])"

definition ex_options :: request_init where
  "ex_options = \<lparr> ri_method = None, ri_headers = [], ri_body = NoBody \<rparr>"

definition ex_unauthorized :: response where
  "ex_unauthorized =
     \<lparr> rs_status = 401, rs_json = Some (JObj [(js ''message'', JStr (js ''Unauthorized''))]) \<rparr>"

definition net_refresh_down :: network where
  "net_refresh_down h rq = (if h = [] then FetchResponse ex_unauthorized else FetchRejected)"

definition net_refresh_denied :: network where
  "net_refresh_denied h rq =
     (if h = [] then FetchResponse ex_unauthorized
      else FetchResponse \<lparr> rs_status = 403, rs_json = None \<rparr>)"

definition net_refresh_empty :: network where
  "net_refresh_empty h rq =
     (if h = [] then FetchResponse ex_unauthorized
      else FetchResponse \<lparr> rs_status = 200, rs_json = Some (JObj []) \<rparr>)"

definition ex_refreshed :: response where
  "ex_refreshed =
     \<lparr> rs_status = 200,
       rs_json = Some (JObj [(js ''access_token'', JStr (js ''new'')),
                             (js ''refresh_token'', JStr (js ''r2''))]) \<rparr>"

definition net_retry_down :: network where
  "net_retry_down h rq =
     (if h = [] then FetchResponse ex_unauthorized
      else if length h = 1 then FetchResponse ex_refreshed
      else FetchRejected)"

definition ex_no_token :: window where
  "ex_no_token = Some Map.empty"

definition ex_options_auth :: request_init where
  "ex_options_auth =
     \<lparr> ri_method = None, ri_headers = [(js ''Authorization'', js ''Bearer stale'')],
       ri_body = NoBody \<rparr>"

definition ex_options_lower :: request_init where
  "ex_options_lower =
     \<lparr> ri_method = None, ri_headers = [(js ''authorization'', js ''Bearer stale'')],
       ri_body = NoBody \<rparr>"

definition net_ok :: network where
  "net_ok h rq = FetchResponse \<lparr> rs_status = 200, rs_json = Some (JObj []) \<rparr>"

definition ex_rejected_form :: wizard where
  "ex_rejected_form =
     initialWizard
       \<lparr> step1Errors :=
           \<lparr> e_global = Some (js ''Please fill in all required fields.''),
             e_fields = [(js ''companyName'', Some (js ''Company name is required'')),
                         (js ''email'', Some (js ''Email is required''))] \<rparr> \<rparr>"

definition ex_acme :: business_form where
  "ex_acme =
     emptyBusinessForm
       \<lparr> companyName := js ''Acme'', contactName := js ''Jo'', email := js ''jo@acme.com'',
         phone := js ''+1'', city := js ''NYC'', country := js ''US'',
         adminPassword := js ''secret1'' \<rparr>"

definition ex_toNumber :: "jsstring \<Rightarrow> jsnum" where
  "ex_toNumber v = (if v = js ''95'' then Fin 95 else NaN)"

definition ex_bad_email :: wizard where
  "ex_bad_email = initialWizard \<lparr> businessForm := ex_acme \<lparr> email := js ''not-an-email'' \<rparr> \<rparr>"

definition ex_short_password :: wizard where
  "ex_short_password = initialWizard \<lparr> businessForm := ex_acme \<lparr> adminPassword := js ''12345'' \<rparr> \<rparr>"

definition ex_acme_wizard :: wizard where
  "ex_acme_wizard = initialWizard \<lparr> businessForm := ex_acme \<rparr>"

definition ex_location :: location_payload where
  "ex_location =
     emptyLocation
       \<lparr> l_name := js ''Main hall'', l_city := Some (js ''Portland''),
         l_country := Some (js ''US''), l_latitude := Some (Fin 45.5),
         l_longitude := Some (Fin (- 122.6)) \<rparr>"

definition ex_one_location :: wizard where
  "ex_one_location = initialWizard \<lparr> locations := [ex_location] \<rparr>"

definition ex_lat95 :: wizard where
  "ex_lat95 = initialWizard \<lparr> locations := [ex_location \<lparr> l_latitude := Some (Fin 95) \<rparr>] \<rparr>"

definition ex_lng200 :: wizard where
  "ex_lng200 = initialWizard \<lparr> locations := [ex_location \<lparr> l_longitude := Some (Fin 200) \<rparr>] \<rparr>"

definition ex_blank_name :: wizard where
  "ex_blank_name = initialWizard \<lparr> locations := [ex_location \<lparr> l_name := js '' '' \<rparr>] \<rparr>"

definition ex_existing :: location_payload where
  "ex_existing = ex_location \<lparr> l_id := Some (js ''loc-1''), l_client_id := Some (JStr (js ''u1'')) \<rparr>"

definition ex_annex :: location_payload where
  "ex_annex = ex_location \<lparr> l_name := js ''Annex'' \<rparr>"

definition ex_editing :: wizard where
  "ex_editing =
     initialWizard
       \<lparr> currentStep := 2, clientId := Some (JStr (js ''u1'')), isEditing := True,
         clientIdFromQuery := Some (js ''u1''), locations := [ex_existing, ex_annex] \<rparr>"

definition ex_two_new :: wizard where
  "ex_two_new =
     initialWizard
       \<lparr> currentStep := 2, clientId := Some (JStr (js ''u1'')),
         locations := [ex_location, ex_annex] \<rparr>"

definition api_ok :: location_api where
  "api_ok h p = Resolved (Some (JObj [(js ''id'', JStr (js ''loc-2'')), (js ''name'', JStr (l_name p))]))"

definition api_down :: location_api where
  "api_down h p = Rejected (js ''Service unavailable'')"

definition ex_depot :: location_payload where
  "ex_depot = ex_location \<lparr> l_name := js ''Depot'' \<rparr>"

definition ex_editing_three :: wizard where
  "ex_editing_three =
     initialWizard
       \<lparr> currentStep := 2, clientId := Some (JStr (js ''u1'')), isEditing := True,
         clientIdFromQuery := Some (js ''u1''),
         locations := [ex_existing, ex_annex, ex_location, ex_depot] \<rparr>"

definition ex_three_new :: wizard where
  "ex_three_new =
     initialWizard
       \<lparr> currentStep := 2, clientId := Some (JStr (js ''u1'')),
         locations := [ex_location, ex_annex, ex_depot] \<rparr>"

definition ex_unanchored :: wizard where
  "ex_unanchored = initialWizard \<lparr> currentStep := 2, locations := [ex_location, ex_annex] \<rparr>"

definition api_second_down :: location_api where
  "api_second_down h p =
     (if length h = 1 then Rejected (js ''Service unavailable'') else api_ok h p)"

definition ex_created :: json where
  "ex_created =
     JObj [(js ''user'', JObj [(js ''id'', JStr (js ''u1''))]),
           (js ''client'', JObj [(js ''id'', JStr (js ''c9''))])]"

definition ex_create_api :: "json \<Rightarrow> api_result" where
  "ex_create_api payload = Resolved (Some ex_created)"

definition ex_update_api :: "jsstring \<Rightarrow> json \<Rightarrow> api_result" where
  "ex_update_api ident payload = Resolved (Some (JObj [(js ''id'', JStr ident)]))"

definition ex_edit_acme :: wizard where
  "ex_edit_acme = ex_acme_wizard \<lparr> isEditing := True, clientIdFromQuery := Some (js ''u1'') \<rparr>"

definition ex_after_step1 :: wizard where
  "ex_after_step1 =
     (handleSubmitStep1 ex_toNumber ex_create_api ex_update_api ex_acme_wizard)
       \<lparr> locations := [ex_location] \<rparr>"

section \<open>Properties of the API client\<close>

lemma apiFetch_first:
  "doRequest base net w path options (initialHeaders options) [] =
     (net [] (originalRequest base w path options),
      attachAuthHeader w (initialHeaders options),
      [(w, originalRequest base w path options)])"
  by (simp add: doRequest_def originalRequest_def Let_def)

lemma apiFetch_second:
  "doRequest base net w' path options (attachAuthHeader w (initialHeaders options)) tr =
     (net (map snd tr) (retriedRequest base w w' path options),
      attachAuthHeader w' (attachAuthHeader w (initialHeaders options)),
      tr @ [(w', retriedRequest base w w' path options)])"
  by (simp add: doRequest_def retriedRequest_def Let_def)

lemma clear_access: "getAccessToken (clearAuthTokens w) = None"
  by (simp add: getAccessToken_def clearAuthTokens_def ACCESS_TOKEN_KEY_def REFRESH_TOKEN_KEY_def js_def split: option.splits)

lemma clear_refresh: "getRefreshToken (clearAuthTokens w) = None"
  by (simp add: getRefreshToken_def clearAuthTokens_def split: option.splits)

lemma deliver_401: "rs_status res = 401 \<Longrightarrow> deliver S res = Inl (HttpError (errorMessage S res))"
  by (simp add: deliver_def ok_def)

text \<open>
  Claim C2. A call eligible for refresh (path neither \<open>/auth/login\<close> nor
  \<open>/auth/refresh\<close>, first response 401, a non-empty refresh token stored) whose refresh
  call fails, because \<open>fetch\<close> rejects, because the refresh response is not ok, or
  because reading its JSON body throws, ends with both tokens removed from storage, with
  exactly the original and the refresh request issued (no retry), and with the error built
  from the original 401 response.
\<close>

theorem refresh_failure_clears_tokens:
  assumes "path \<noteq> js ''/auth/login''" and "path \<noteq> js ''/auth/refresh''"
    and "net [] (originalRequest base w path options) = FetchResponse res"
    and "rs_status res = 401"
    and "getRefreshToken w = Some rt" and "rt \<noteq> []"
    and "net [originalRequest base w path options] (refreshRequest base rt) = FetchRejected
         \<or> (\<exists>rres. net [originalRequest base w path options] (refreshRequest base rt)
                      = FetchResponse rres \<and> (\<not> ok rres \<or> rs_json rres = None))"
  shows "getAccessToken (final_storage (apiFetch S base net w path options)) = None
       \<and> getRefreshToken (final_storage (apiFetch S base net w path options)) = None
       \<and> map snd (issued (apiFetch S base net w path options))
           = [originalRequest base w path options, refreshRequest base rt]
       \<and> result (apiFetch S base net w path options) = Inl (HttpError (errorMessage S res))"
  using assms
  by (auto simp add: apiFetch_def apiFetch_first Let_def clear_access clear_refresh deliver_401)

theorem refresh_failure_clears_tokens_witness:
  "getRefreshToken ex_window = Some (js ''r1'')
   \<and> net_refresh_down [originalRequest ex_base ex_window (js ''/bookings'') ex_options]
        (refreshRequest ex_base (js ''r1'')) = FetchRejected
   \<and> getAccessToken (final_storage (apiFetch ex_S ex_base net_refresh_down ex_window (js ''/bookings'') ex_options)) = None
   \<and> getRefreshToken (final_storage (apiFetch ex_S ex_base net_refresh_down ex_window (js ''/bookings'') ex_options)) = None
   \<and> map snd (issued (apiFetch ex_S ex_base net_refresh_down ex_window (js ''/bookings'') ex_options))
       = [originalRequest ex_base ex_window (js ''/bookings'') ex_options,
          refreshRequest ex_base (js ''r1'')]
   \<and> result (apiFetch ex_S ex_base net_refresh_down ex_window (js ''/bookings'') ex_options)
       = Inl (HttpError (js ''Unauthorized''))
   \<and> net_refresh_denied [originalRequest ex_base ex_window (js ''/bookings'') ex_options]
        (refreshRequest ex_base (js ''r1'')) = FetchResponse \<lparr> rs_status = 403, rs_json = None \<rparr>
   \<and> \<not> ok \<lparr> rs_status = 403, rs_json = None \<rparr>
   \<and> getAccessToken (final_storage (apiFetch ex_S ex_base net_refresh_denied ex_window (js ''/bookings'') ex_options)) = None
   \<and> getRefreshToken (final_storage (apiFetch ex_S ex_base net_refresh_denied ex_window (js ''/bookings'') ex_options)) = None
   \<and> result (apiFetch ex_S ex_base net_refresh_denied ex_window (js ''/bookings'') ex_options)
       = Inl (HttpError (js ''Unauthorized''))"
  using refresh_failure_clears_tokens [of "js ''/bookings''" net_refresh_down ex_base ex_window
      ex_options ex_unauthorized "js ''r1''" ex_S]
    refresh_failure_clears_tokens [of "js ''/bookings''" net_refresh_denied ex_base ex_window
      ex_options ex_unauthorized "js ''r1''" ex_S]
  by (simp add: net_refresh_down_def net_refresh_denied_def ex_window_def ex_unauthorized_def
      getRefreshToken_def ACCESS_TOKEN_KEY_def REFRESH_TOKEN_KEY_def js_def errorMessage_def
      toStr_def ok_def)

lemma deliver_not_ok_401: "rs_status res = 401 \<Longrightarrow> \<not> ok res"
  by (simp add: ok_def)

text \<open>
  Claim C10. When the refresh call returns an ok response whose JSON body has no
  \<open>access_token\<close> property, the storage is left as it was, only the original and the
  refresh request are issued, and the error built from the original 401 response is thrown.
\<close>

theorem refresh_without_access_token:
  assumes "path \<noteq> js ''/auth/login''" and "path \<noteq> js ''/auth/refresh''"
    and "net [] (originalRequest base w path options) = FetchResponse res"
    and "rs_status res = 401"
    and "getRefreshToken w = Some rt" and "rt \<noteq> []"
    and "net [originalRequest base w path options] (refreshRequest base rt) = FetchResponse rres"
    and "ok rres" and "rs_json rres = Some d" and "js_get d (js ''access_token'') = None"
  shows "final_storage (apiFetch S base net w path options) = w
       \<and> map snd (issued (apiFetch S base net w path options))
           = [originalRequest base w path options, refreshRequest base rt]
       \<and> result (apiFetch S base net w path options) = Inl (HttpError (errorMessage S res))"
  using assms
  by (simp add: apiFetch_def apiFetch_first Let_def deliver_401)

theorem refresh_without_access_token_witness:
  "getRefreshToken ex_window = Some (js ''r1'')
   \<and> final_storage (apiFetch ex_S ex_base net_refresh_empty ex_window (js ''/bookings'') ex_options)
       = ex_window
   \<and> map snd (issued (apiFetch ex_S ex_base net_refresh_empty ex_window (js ''/bookings'') ex_options))
       = [originalRequest ex_base ex_window (js ''/bookings'') ex_options,
          refreshRequest ex_base (js ''r1'')]
   \<and> result (apiFetch ex_S ex_base net_refresh_empty ex_window (js ''/bookings'') ex_options)
       = Inl (HttpError (js ''Unauthorized''))"
  using refresh_without_access_token [of "js ''/bookings''" net_refresh_empty ex_base ex_window
      ex_options ex_unauthorized "js ''r1''" "\<lparr> rs_status = 200, rs_json = Some (JObj []) \<rparr>"
      "JObj []" ex_S]
  by (simp add: net_refresh_empty_def ex_window_def ex_unauthorized_def getRefreshToken_def
      ACCESS_TOKEN_KEY_def REFRESH_TOKEN_KEY_def js_def errorMessage_def toStr_def ok_def)

lemma set_access:
  "w \<noteq> None \<Longrightarrow> getAccessToken (setAuthTokens S w (JStr tok) r) = Some tok"
  by (auto simp add: getAccessToken_def setAuthTokens_def toStr_def Let_def
      ACCESS_TOKEN_KEY_def REFRESH_TOKEN_KEY_def js_def split: option.splits)

lemma refresh_token_window: "getRefreshToken w = Some rt \<Longrightarrow> w \<noteq> None"
  by (cases w) (simp_all add: getRefreshToken_def)

lemma attach_bearer:
  "getAccessToken w = Some tok \<Longrightarrow> tok \<noteq> [] \<Longrightarrow>
   map_of (attachAuthHeader w headers) (js ''Authorization'') = Some (js ''Bearer '' @ tok)"
  by (simp add: attachAuthHeader_def update_conv')

lemma attach_none:
  "getAccessToken w = None \<Longrightarrow> map_of (attachAuthHeader w headers) (js ''Authorization'') = None"
  by (simp add: attachAuthHeader_def delete_conv')

text \<open>
  After a successful refresh the original request is issued once more, carrying the new
  token; when that \<open>fetch\<close> resolves, the caller sees what its response delivers.
\<close>

lemma retry_after_refresh:
  assumes "path \<noteq> js ''/auth/login''" and "path \<noteq> js ''/auth/refresh''"
    and "net [] (originalRequest base w path options) = FetchResponse res"
    and "rs_status res = 401"
    and "getRefreshToken w = Some rt" and "rt \<noteq> []"
    and "net [originalRequest base w path options] (refreshRequest base rt) = FetchResponse rres"
    and "ok rres" and "rs_json rres = Some d"
    and "js_get d (js ''access_token'') = Some (JStr tok)" and "tok \<noteq> []"
    and "w' = setAuthTokens S w (JStr tok) (js_get d (js ''refresh_token''))"
    and "net [originalRequest base w path options, refreshRequest base rt]
           (retriedRequest base w w' path options) = FetchResponse res2"
  shows "map snd (issued (apiFetch S base net w path options))
           = [originalRequest base w path options, refreshRequest base rt,
              retriedRequest base w w' path options]
       \<and> map_of (rq_headers (retriedRequest base w w' path options)) (js ''Authorization'')
           = Some (js ''Bearer '' @ tok)
       \<and> result (apiFetch S base net w path options) = deliver S res2
       \<and> getAccessToken (final_storage (apiFetch S base net w path options)) = Some tok"
proof -
  have w: "w \<noteq> None" using assms(5) by (rule refresh_token_window)
  have tok: "getAccessToken w' = Some tok" using w assms(12) by (simp add: set_access)
  have hdr: "map_of (rq_headers (retriedRequest base w w' path options)) (js ''Authorization'')
               = Some (js ''Bearer '' @ tok)"
    using tok assms(11) by (simp add: retriedRequest_def mkRequest_def attach_bearer)
  show ?thesis
    using assms tok hdr
    by (simp add: apiFetch_def apiFetch_first apiFetch_second Let_def)
qed

text \<open>
  The retry is inside the \<open>try\<close> block of the refresh: when its \<open>fetch\<close> rejects, the
  \<open>catch\<close> clears the tokens just stored and the caller gets the error of the first,
  401 response.
\<close>

lemma retry_rejected_generic:
  assumes "path \<noteq> js ''/auth/login''" and "path \<noteq> js ''/auth/refresh''"
    and "net [] (originalRequest base w path options) = FetchResponse res"
    and "rs_status res = 401"
    and "getRefreshToken w = Some rt" and "rt \<noteq> []"
    and "net [originalRequest base w path options] (refreshRequest base rt) = FetchResponse rres"
    and "ok rres" and "rs_json rres = Some d"
    and "js_get d (js ''access_token'') = Some (JStr tok)" and "tok \<noteq> []"
    and "w' = setAuthTokens S w (JStr tok) (js_get d (js ''refresh_token''))"
    and "net [originalRequest base w path options, refreshRequest base rt]
           (retriedRequest base w w' path options) = FetchRejected"
  shows "result (apiFetch S base net w path options) = Inl (HttpError (errorMessage S res))
       \<and> final_storage (apiFetch S base net w path options) = clearAuthTokens w'"
  using assms
  by (simp add: apiFetch_def apiFetch_first apiFetch_second Let_def deliver_401)

text \<open>
  Claim C1. The claim says that after a successful refresh the caller observes only the
  outcome of the re-issued request. At the input below the first response is 401, the
  refresh succeeds with the new token \<open>new\<close>, and the re-issued \<open>fetch\<close> rejects: three
  requests are issued, the last one is the rejected one, and yet the caller receives the
  error of the intermediate 401 response (\<open>Unauthorized\<close>), with both tokens cleared.
\<close>

theorem retry_network_failure_surfaces_401:
  "map (rq_url \<circ> snd) (issued (apiFetch ex_S ex_base net_retry_down ex_window (js ''/bookings'') ex_options))
     = [js ''http://localhost:3001/bookings'', js ''http://localhost:3001/auth/refresh'',
        js ''http://localhost:3001/bookings'']
   \<and> net_retry_down
        (map snd (butlast (issued (apiFetch ex_S ex_base net_retry_down ex_window (js ''/bookings'') ex_options))))
        (snd (last (issued (apiFetch ex_S ex_base net_retry_down ex_window (js ''/bookings'') ex_options))))
       = FetchRejected
   \<and> result (apiFetch ex_S ex_base net_retry_down ex_window (js ''/bookings'') ex_options)
       = Inl (HttpError (js ''Unauthorized''))
   \<and> getAccessToken (final_storage (apiFetch ex_S ex_base net_retry_down ex_window (js ''/bookings'') ex_options)) = None
   \<and> getRefreshToken (final_storage (apiFetch ex_S ex_base net_retry_down ex_window (js ''/bookings'') ex_options)) = None"
  by (simp add: apiFetch_def doRequest_def mkRequest_def refreshRequest_def initialHeaders_def
      attachAuthHeader_def getAccessToken_def getRefreshToken_def setAuthTokens_def
      clearAuthTokens_def deliver_def errorMessage_def toStr_def ok_def Let_def
      net_retry_down_def ex_window_def ex_unauthorized_def ex_refreshed_def ex_options_def
      ex_base_def ACCESS_TOKEN_KEY_def REFRESH_TOKEN_KEY_def js_def)

lemma refresh_no_auth: "map_of (rq_headers (refreshRequest base rt)) (js ''Authorization'') = None"
  by (simp add: refreshRequest_def js_def)

lemma original_no_auth:
  "getAccessToken w = None \<Longrightarrow>
   map_of (rq_headers (originalRequest base w path options)) (js ''Authorization'') = None"
  by (simp add: originalRequest_def mkRequest_def attach_none)

lemma retried_no_auth:
  "getAccessToken w' = None \<Longrightarrow>
   map_of (rq_headers (retriedRequest base w w' path options)) (js ''Authorization'') = None"
  by (simp add: retriedRequest_def mkRequest_def attach_none)

lemma apiFetch_issued_cases:
  assumes "(v, rq) \<in> set (issued (apiFetch S base net w path options))"
  shows "(v = w \<and> rq = originalRequest base w path options)
       \<or> (\<exists>rt. v = w \<and> rq = refreshRequest base rt)
       \<or> rq = retriedRequest base w v path options"
  using assms
  by (auto simp add: apiFetch_def apiFetch_first apiFetch_second Let_def
      split: fetch_result.splits if_splits option.splits)

lemma initialHeaders_auth:
  "map_of (initialHeaders options) (js ''Authorization'') = map_of (ri_headers options) (js ''Authorization'')"
  by (simp add: initialHeaders_def Let_def update_conv' js_def)

lemma apiFetch_basic_issued:
  assumes "(v, rq) \<in> set (issued (apiFetch_basic S base net w path options))"
    and "getAccessToken v = None"
  shows "map_of (rq_headers rq) (js ''Authorization'') = map_of (ri_headers options) (js ''Authorization'')"
  using assms
  by (auto simp add: apiFetch_basic_def Let_def mkRequest_def initialHeaders_auth getToken_def
      getAccessToken_def ACCESS_TOKEN_KEY_def
      split: fetch_result.splits if_splits option.splits)

lemma content_type_name:
  "headerName (js ''Content-Type'') \<noteq> headerName (js ''Authorization'')"
  by (simp add: headerName_def js_def)

lemma keys_delete: "fst ` set (AList.delete k al) = fst ` set al - {k}"
  by (induct al) auto

lemma carries_iff:
  "carriesHeader rq name \<longleftrightarrow> headerName name
      \<in> headerName ` (fst ` set (rq_headers rq))"
  by (simp add: carriesHeader_def image_image)

lemma supplies_names:
  "suppliesHeader options name \<longleftrightarrow> headerName name
      \<in> headerName ` (fst ` set (ri_headers options))"
  by (simp add: suppliesHeader_def image_image)

lemma other_spelling_names:
  "suppliesOtherSpelling options name
     \<longleftrightarrow> headerName name
         \<in> headerName ` (fst ` set (ri_headers options) - {name})"
  by (simp add: suppliesOtherSpelling_def)

lemma keys_attach_none:
  "getAccessToken v = None \<Longrightarrow>
   fst ` set (attachAuthHeader v h) = fst ` set h - {js ''Authorization''}"
  by (simp add: attachAuthHeader_def keys_delete)

lemma keys_attach:
  "fst ` set (attachAuthHeader v h) - {js ''Authorization''} = fst ` set h - {js ''Authorization''}"
  by (auto simp add: attachAuthHeader_def keys_delete dom_update split: option.splits)

lemma keys_initial:
  "fst ` set (initialHeaders options) = fst ` set (ri_headers options)
   \<or> fst ` set (initialHeaders options) = insert (js ''Content-Type'') (fst ` set (ri_headers options))"
  by (simp add: initialHeaders_def Let_def dom_update)

lemma names_initial_other:
  "headerName (js ''Authorization'')
      \<in> headerName ` (fst ` set (initialHeaders options) - {js ''Authorization''})
   \<longleftrightarrow> headerName (js ''Authorization'')
      \<in> headerName ` (fst ` set (ri_headers options) - {js ''Authorization''})"
proof (rule disjE [OF keys_initial [of options]])
  assume "fst ` set (initialHeaders options) = fst ` set (ri_headers options)"
  then show ?thesis by (simp only:)
next
  assume k: "fst ` set (initialHeaders options)
               = insert (js ''Content-Type'') (fst ` set (ri_headers options))"
  have "insert (js ''Content-Type'') (fst ` set (ri_headers options)) - {js ''Authorization''}
          = insert (js ''Content-Type'') (fst ` set (ri_headers options) - {js ''Authorization''})"
    by (auto simp add: js_def)
  then show ?thesis using content_type_name by (simp only: k image_insert insert_iff) metis
qed

lemma names_initial:
  "headerName (js ''Authorization'') \<in> headerName ` (fst ` set (initialHeaders options))
   \<longleftrightarrow> headerName (js ''Authorization'')
       \<in> headerName ` (fst ` set (ri_headers options))"
proof (rule disjE [OF keys_initial [of options]])
  assume "fst ` set (initialHeaders options) = fst ` set (ri_headers options)"
  then show ?thesis by (simp only:)
next
  assume k: "fst ` set (initialHeaders options)
               = insert (js ''Content-Type'') (fst ` set (ri_headers options))"
  show ?thesis using content_type_name by (simp only: k image_insert insert_iff) metis
qed

lemma original_carries:
  "getAccessToken w = None \<Longrightarrow>
   carriesHeader (originalRequest base w path options) (js ''Authorization'')
     \<longleftrightarrow> suppliesOtherSpelling options (js ''Authorization'')"
  by (simp add: carries_iff other_spelling_names originalRequest_def mkRequest_def
      keys_attach_none names_initial_other del: image_image)

lemma retried_carries:
  "getAccessToken w' = None \<Longrightarrow>
   carriesHeader (retriedRequest base w w' path options) (js ''Authorization'')
     \<longleftrightarrow> suppliesOtherSpelling options (js ''Authorization'')"
proof -
  assume n: "getAccessToken w' = None"
  have "fst ` set (attachAuthHeader w' (attachAuthHeader w (initialHeaders options)))
          = fst ` set (initialHeaders options) - {js ''Authorization''}"
    using keys_attach_none [OF n, of "attachAuthHeader w (initialHeaders options)"]
      keys_attach [of w "initialHeaders options"]
    by (simp only:)
  then show ?thesis
    by (simp add: carries_iff other_spelling_names retriedRequest_def mkRequest_def
        names_initial_other)
qed

lemma refresh_carries:
  "\<not> carriesHeader (refreshRequest base rt) (js ''Authorization'')"
  using content_type_name by (simp add: carriesHeader_def refreshRequest_def)

lemma apiFetch_issues_original:
  "(w, originalRequest base w path options) \<in> set (issued (apiFetch S base net w path options))"
  by (auto simp add: apiFetch_def apiFetch_first apiFetch_second Let_def originalRequest_def
      split: fetch_result.splits if_splits option.splits)

lemma apiFetch_basic_carries:
  assumes "(v, rq) \<in> set (issued (apiFetch_basic S base net w path options))"
    and "getAccessToken v = None"
  shows "carriesHeader rq (js ''Authorization'') \<longleftrightarrow> suppliesHeader options (js ''Authorization'')"
proof -
  have "rq = mkRequest base path options (initialHeaders options)"
    using assms
    by (auto simp add: apiFetch_basic_def Let_def getToken_def
        getAccessToken_def ACCESS_TOKEN_KEY_def
        split: fetch_result.splits if_splits option.splits)
  then show ?thesis
    by (simp add: carries_iff supplies_names mkRequest_def names_initial)
qed

lemma ex_header_names:
  "headerName (js ''authorization'') = headerName (js ''Authorization'')"
  "headerName (js ''Content-Type'') \<noteq> headerName (js ''Authorization'')"
  "js ''authorization'' \<noteq> js ''Authorization''"
  "js ''Content-Type'' \<noteq> js ''Authorization''"
  by (simp_all add: headerName_def asciiLower_def js_def)

text \<open>
  Claim C8, as amended. The refreshing \<open>apiFetch\<close> always issues the original request.
  Every request it issues while the storage holds no access token has no key spelled
  \<open>Authorization\<close> among its headers, even if the caller supplied one; and such a request
  goes out with an Authorization header (under any spelling, as \<open>fetch\<close> reads names) only
  if the caller supplied that header under another spelling, such as \<open>authorization\<close>,
  which the case-sensitive \<open>delete\<close> leaves in place: then every request but the refresh
  call carries it. The older \<open>apiFetch\<close> of \<open>src/lib/api.ts\<close> adds no header of its own
  in that situation and leaves the caller's headers as they are: its request carries an
  Authorization header exactly when the caller supplied one, under any spelling.
\<close>

theorem no_token_no_authorization_header:
  "(w, originalRequest base w path options) \<in> set (issued (apiFetch S base net w path options))
   \<and> (\<forall>(v, rq) \<in> set (issued (apiFetch S base net w path options)).
        getAccessToken v = None \<longrightarrow>
          map_of (rq_headers rq) (js ''Authorization'') = None
          \<and> (carriesHeader rq (js ''Authorization'')
               \<longrightarrow> suppliesOtherSpelling options (js ''Authorization''))
          \<and> (suppliesOtherSpelling options (js ''Authorization'')
               \<longrightarrow> carriesHeader rq (js ''Authorization'')
                  \<or> (\<exists>rt. rq = refreshRequest base rt)))
   \<and> (\<forall>(v, rq) \<in> set (issued (apiFetch_basic S base net w path options)).
        getAccessToken v = None \<longrightarrow>
          map_of (rq_headers rq) (js ''Authorization'')
            = map_of (ri_headers options) (js ''Authorization'')
          \<and> (carriesHeader rq (js ''Authorization'')
               \<longleftrightarrow> suppliesHeader options (js ''Authorization'')))"
proof (intro conjI ballI)
  show "(w, originalRequest base w path options)
          \<in> set (issued (apiFetch S base net w path options))"
    by (rule apiFetch_issues_original)
next
  fix x assume x: "x \<in> set (issued (apiFetch S base net w path options))"
  obtain v rq where vrq: "x = (v, rq)" by (cases x)
  have cases: "(v = w \<and> rq = originalRequest base w path options)
       \<or> (\<exists>rt. v = w \<and> rq = refreshRequest base rt)
       \<or> rq = retriedRequest base w v path options"
    using x vrq apiFetch_issued_cases [of v rq S base net w path options] by auto
  have "getAccessToken v = None \<longrightarrow>
          map_of (rq_headers rq) (js ''Authorization'') = None
          \<and> (carriesHeader rq (js ''Authorization'')
               \<longrightarrow> suppliesOtherSpelling options (js ''Authorization''))
          \<and> (suppliesOtherSpelling options (js ''Authorization'')
               \<longrightarrow> carriesHeader rq (js ''Authorization'')
                  \<or> (\<exists>rt. rq = refreshRequest base rt))"
  proof
    assume n: "getAccessToken v = None"
    from cases show "map_of (rq_headers rq) (js ''Authorization'') = None
          \<and> (carriesHeader rq (js ''Authorization'')
               \<longrightarrow> suppliesOtherSpelling options (js ''Authorization''))
          \<and> (suppliesOtherSpelling options (js ''Authorization'')
               \<longrightarrow> carriesHeader rq (js ''Authorization'')
                  \<or> (\<exists>rt. rq = refreshRequest base rt))"
    proof (elim disjE conjE exE)
      assume "v = w" and "rq = originalRequest base w path options"
      then show ?thesis using n by (simp add: original_no_auth original_carries)
    next
      fix rt assume "rq = refreshRequest base rt"
      then show ?thesis by (auto simp add: refresh_no_auth refresh_carries)
    next
      assume "rq = retriedRequest base w v path options"
      then show ?thesis using n by (simp add: retried_no_auth retried_carries)
    qed
  qed
  then show "case x of (v, rq) \<Rightarrow>
        getAccessToken v = None \<longrightarrow>
          map_of (rq_headers rq) (js ''Authorization'') = None
          \<and> (carriesHeader rq (js ''Authorization'')
               \<longrightarrow> suppliesOtherSpelling options (js ''Authorization''))
          \<and> (suppliesOtherSpelling options (js ''Authorization'')
               \<longrightarrow> carriesHeader rq (js ''Authorization'')
                  \<or> (\<exists>rt. rq = refreshRequest base rt))"
    using vrq by simp
next
  fix x assume x: "x \<in> set (issued (apiFetch_basic S base net w path options))"
  obtain v rq where vrq: "x = (v, rq)" by (cases x)
  have "getAccessToken v = None \<longrightarrow>
          map_of (rq_headers rq) (js ''Authorization'')
            = map_of (ri_headers options) (js ''Authorization'')
          \<and> (carriesHeader rq (js ''Authorization'')
               \<longleftrightarrow> suppliesHeader options (js ''Authorization''))"
    using x vrq apiFetch_basic_issued [of v rq S base net w path options]
      apiFetch_basic_carries [of v rq S base net w path options]
    by simp
  then show "case x of (v, rq) \<Rightarrow>
        getAccessToken v = None \<longrightarrow>
          map_of (rq_headers rq) (js ''Authorization'')
            = map_of (ri_headers options) (js ''Authorization'')
          \<and> (carriesHeader rq (js ''Authorization'')
               \<longleftrightarrow> suppliesHeader options (js ''Authorization''))"
    using vrq by simp
qed

theorem no_token_no_authorization_header_witness:
  "getAccessToken ex_no_token = None
   \<and> issued (apiFetch ex_S ex_base net_ok ex_no_token (js ''/bookings'') ex_options_auth)
     = [(ex_no_token, originalRequest ex_base ex_no_token (js ''/bookings'') ex_options_auth)]
   \<and> ri_headers ex_options_auth = [(js ''Authorization'', js ''Bearer stale'')]
   \<and> rq_headers (originalRequest ex_base ex_no_token (js ''/bookings'') ex_options_auth)
       = [(js ''Content-Type'', js ''application/json'')]
   \<and> map_of (rq_headers (originalRequest ex_base ex_no_token (js ''/bookings'') ex_options_auth))
        (js ''Authorization'') = None
   \<and> \<not> suppliesOtherSpelling ex_options_auth (js ''Authorization'')
   \<and> \<not> carriesHeader (originalRequest ex_base ex_no_token (js ''/bookings'') ex_options_auth)
          (js ''Authorization'')
   \<and> issued (apiFetch ex_S ex_base net_ok ex_no_token (js ''/bookings'') ex_options_lower)
     = [(ex_no_token, originalRequest ex_base ex_no_token (js ''/bookings'') ex_options_lower)]
   \<and> ri_headers ex_options_lower = [(js ''authorization'', js ''Bearer stale'')]
   \<and> rq_headers (originalRequest ex_base ex_no_token (js ''/bookings'') ex_options_lower)
       = [(js ''authorization'', js ''Bearer stale''), (js ''Content-Type'', js ''application/json'')]
   \<and> map_of (rq_headers (originalRequest ex_base ex_no_token (js ''/bookings'') ex_options_lower))
        (js ''Authorization'') = None
   \<and> suppliesOtherSpelling ex_options_lower (js ''Authorization'')
   \<and> carriesHeader (originalRequest ex_base ex_no_token (js ''/bookings'') ex_options_lower)
        (js ''Authorization'')
   \<and> issued (apiFetch_basic ex_S ex_base net_ok ex_no_token (js ''/bookings'') ex_options_auth)
     = [(ex_no_token, mkRequest ex_base (js ''/bookings'') ex_options_auth
         (initialHeaders ex_options_auth))]
   \<and> map_of (rq_headers (mkRequest ex_base (js ''/bookings'') ex_options_auth
       (initialHeaders ex_options_auth)))
        (js ''Authorization'') = Some (js ''Bearer stale'')
   \<and> suppliesHeader ex_options_auth (js ''Authorization'')
   \<and> carriesHeader (mkRequest ex_base (js ''/bookings'') ex_options_auth
       (initialHeaders ex_options_auth))
        (js ''Authorization'')"
proof -
  have n: "getAccessToken ex_no_token = None"
    by (simp add: ex_no_token_def getAccessToken_def)
  have i1: "issued (apiFetch ex_S ex_base net_ok ex_no_token (js ''/bookings'') ex_options_auth)
     = [(ex_no_token, originalRequest ex_base ex_no_token (js ''/bookings'') ex_options_auth)]"
    by (simp add: apiFetch_def doRequest_def originalRequest_def net_ok_def Let_def)
  have i2: "issued (apiFetch ex_S ex_base net_ok ex_no_token (js ''/bookings'') ex_options_lower)
     = [(ex_no_token, originalRequest ex_base ex_no_token (js ''/bookings'') ex_options_lower)]"
    by (simp add: apiFetch_def doRequest_def originalRequest_def net_ok_def Let_def)
  have i3: "issued (apiFetch_basic ex_S ex_base net_ok ex_no_token (js ''/bookings'') ex_options_auth)
     = [(ex_no_token, mkRequest ex_base (js ''/bookings'') ex_options_auth
         (initialHeaders ex_options_auth))]"
    by (simp add: apiFetch_basic_def getToken_def net_ok_def Let_def ex_no_token_def)
  have h1: "ri_headers ex_options_auth = [(js ''Authorization'', js ''Bearer stale'')]"
    "ri_headers ex_options_lower = [(js ''authorization'', js ''Bearer stale'')]"
    by (simp_all add: ex_options_auth_def ex_options_lower_def)
  have h2: "rq_headers (originalRequest ex_base ex_no_token (js ''/bookings'') ex_options_auth)
       = [(js ''Content-Type'', js ''application/json'')]"
    "rq_headers (originalRequest ex_base ex_no_token (js ''/bookings'') ex_options_lower)
       = [(js ''authorization'', js ''Bearer stale''), (js ''Content-Type'', js ''application/json'')]"
    using n ex_header_names(3,4)
    by (simp_all add: originalRequest_def mkRequest_def attachAuthHeader_def initialHeaders_def
        ex_options_auth_def ex_options_lower_def js_def)
  have s: "\<not> suppliesOtherSpelling ex_options_auth (js ''Authorization'')"
    "suppliesOtherSpelling ex_options_lower (js ''Authorization'')"
    "suppliesHeader ex_options_auth (js ''Authorization'')"
    using ex_header_names
    by (simp_all add: suppliesOtherSpelling_def suppliesHeader_def h1)
  have ne: "\<not> (\<exists>rt. originalRequest ex_base ex_no_token (js ''/bookings'') ex_options_lower
                     = refreshRequest ex_base rt)"
  proof
    assume "\<exists>rt. originalRequest ex_base ex_no_token (js ''/bookings'') ex_options_lower
                     = refreshRequest ex_base rt"
    then obtain rt where "originalRequest ex_base ex_no_token (js ''/bookings'') ex_options_lower
                     = refreshRequest ex_base rt" ..
    then have "rq_headers (originalRequest ex_base ex_no_token (js ''/bookings'') ex_options_lower)
                 = rq_headers (refreshRequest ex_base rt)"
      by (simp only:)
    then show False by (simp add: h2(2) refreshRequest_def)
  qed
  have a: "map_of (rq_headers (originalRequest ex_base ex_no_token (js ''/bookings'') ex_options_auth))
        (js ''Authorization'') = None
     \<and> \<not> carriesHeader (originalRequest ex_base ex_no_token (js ''/bookings'') ex_options_auth)
          (js ''Authorization'')"
    using no_token_no_authorization_header [of ex_no_token ex_base "js ''/bookings''"
        ex_options_auth ex_S net_ok] n s(1)
    by (simp add: i1 i3)
  have b: "map_of (rq_headers (originalRequest ex_base ex_no_token (js ''/bookings'') ex_options_lower))
        (js ''Authorization'') = None
     \<and> carriesHeader (originalRequest ex_base ex_no_token (js ''/bookings'') ex_options_lower)
          (js ''Authorization'')"
    using no_token_no_authorization_header [of ex_no_token ex_base "js ''/bookings''"
        ex_options_lower ex_S net_ok] n s(2) ne
    by (simp add: i2)
  have c: "map_of (rq_headers (mkRequest ex_base (js ''/bookings'') ex_options_auth
      (initialHeaders ex_options_auth)))
        (js ''Authorization'') = Some (js ''Bearer stale'')
     \<and> carriesHeader (mkRequest ex_base (js ''/bookings'') ex_options_auth
         (initialHeaders ex_options_auth))
        (js ''Authorization'')"
    using no_token_no_authorization_header [of ex_no_token ex_base "js ''/bookings''"
        ex_options_auth ex_S net_ok] n s(3)
    by (simp add: i1 i3 h1)
  show ?thesis using n i1 i2 i3 h1 h2 s a b c by simp
qed

text \<open>
  Claim C8 as stated fails in both clients. With no token stored, the older client sends
  the caller's \<open>Authorization\<close> header; and the refreshing client, given the caller's
  header \<open>authorization: Bearer stale\<close>, deletes nothing and sends that header.
\<close>

theorem caller_authorization_reaches_request:
  "\<not> (\<forall>(v, rq) \<in> set (issued (apiFetch_basic ex_S ex_base net_ok ex_no_token (js ''/bookings'') ex_options_auth)).
        getAccessToken v = None \<longrightarrow> map_of (rq_headers rq) (js ''Authorization'') = None)
   \<and> \<not> (\<forall>(v, rq) \<in> set (issued (apiFetch ex_S ex_base net_ok ex_no_token (js ''/bookings'')
       ex_options_lower)).
        getAccessToken v = None \<longrightarrow> \<not> carriesHeader rq (js ''Authorization''))"
  using ex_header_names
  by (simp add: apiFetch_def doRequest_def attachAuthHeader_def carriesHeader_def
      apiFetch_basic_def getToken_def net_ok_def Let_def ex_options_lower_def
      ex_no_token_def getAccessToken_def ex_options_auth_def mkRequest_def initialHeaders_def js_def)

section \<open>Properties of the wizards\<close>

text \<open>
  The pattern on a few strings: one \<open>@\<close>, a dot inside the domain part, no white space.
\<close>

lemma emailPattern_examples:
  "rx_test emailPattern (js ''a@b.c'')"
  "rx_test emailPattern (js ''first.last@mail.example.org'')"
  "\<not> rx_test emailPattern (js ''a@b'')"
  "\<not> rx_test emailPattern (js ''@b.c'')"
  "\<not> rx_test emailPattern (js ''a@.c'')"
  "\<not> rx_test emailPattern (js ''a@b.'')"
  "\<not> rx_test emailPattern (js ''a@b@c.d'')"
  "\<not> rx_test emailPattern (js ''a b@c.d'')"
  "\<not> rx_test emailPattern (js '''')"
  by (simp_all add: rx_test_def emailPattern_def OneOrMore_def notSpaceNorAt_def is_ws_def js_def)

text \<open>
  \<open>handleLocationChange\<close> of the edit-capable component never stores a coordinate that
  its Step 2 gate would reject: what it cannot accept it stores as \<open>undefined\<close>.
\<close>

lemma coordinate_in_range:
  "coordinate toNumber L_latitude v = Some n \<Longrightarrow> \<not> outOfRange n 90"
  "coordinate toNumber L_longitude v = Some n \<Longrightarrow> \<not> outOfRange n 180"
  by (auto simp add: coordinate_def outOfRange_def Let_def split: if_splits)

lemma remove_at_enum:
  "map snd (filter (\<lambda>(j, x). j \<noteq> n + i) (enumerate n xs)) = take i xs @ drop (Suc i) xs"
proof (induction xs arbitrary: n i)
  case Nil
  then show ?case by simp
next
  case (Cons x xs)
  show ?case
  proof (cases i)
    case 0
    have "filter (\<lambda>(j, x). j \<noteq> n) (enumerate (Suc n) xs) = enumerate (Suc n) xs"
      by (rule filter_True) (auto simp add: in_set_enumerate_eq)
    then show ?thesis using 0 by simp
  next
    case (Suc k)
    have "map snd (filter (\<lambda>(j, x). j \<noteq> Suc n + k) (enumerate (Suc n) xs))
            = take k xs @ drop (Suc k) xs"
      by (rule Cons.IH)
    then show ?thesis using Suc by simp
  qed
qed

lemma remove_at_take_drop: "remove_at i xs = take i xs @ drop (Suc i) xs"
  using remove_at_enum [of 0 i xs] by (simp add: remove_at_def)

lemma length_remove_at: "length xs - 1 \<le> length (remove_at i xs)"
  by (simp add: remove_at_take_drop)

lemma length_map_at: "length (map_at i g xs) = length xs"
  by (simp add: map_at_def)

text \<open>
  Claim C6, as amended. In the two two-step components \<open>removeLocation\<close> leaves a list
  of exactly one location as it is. The three-step component's \<open>removeLocation\<close> has no
  such test; there a click on the remove button, which is rendered only while there is
  more than one location, leaves a one-entry list as it is. Removing, adding and changing
  a location keep a non-empty list non-empty.
\<close>

theorem removeLocation_keeps_one_row:
  "(length (locations s) = 1 \<longrightarrow>
      removeLocation index s = s \<and> clickRemove_onboarding index s = s)
   \<and> (1 \<le> length (locations s) \<longrightarrow>
      1 \<le> length (locations (removeLocation index s))
      \<and> 1 \<le> length (locations (clickRemove_onboarding index s))
      \<and> 1 \<le> length (locations (addLocation s))
      \<and> 1 \<le> length (locations (handleLocationChange toNumber index field v s))
      \<and> 1 \<le> length (locations (handleLocationChange_plain toNumber index field v s)))"
proof -
  have "1 \<le> length (remove_at index (locations s))" if "1 < length (locations s)"
    using that length_remove_at [of "locations s" index] by arith
  then show ?thesis
    by (auto simp add: removeLocation_def clickRemove_onboarding_def removeButtonRendered_def
        removeLocation_onboarding_def addLocation_def handleLocationChange_def
        handleLocationChange_plain_def length_map_at)
qed

theorem removeLocation_keeps_one_row_witness:
  "length (locations initialWizard) = 1
   \<and> removeLocation 0 initialWizard = initialWizard
   \<and> clickRemove_onboarding 0 initialWizard = initialWizard
   \<and> 1 \<le> length (locations (removeLocation 0 (addLocation initialWizard)))"
  using removeLocation_keeps_one_row [of initialWizard 0]
    removeLocation_keeps_one_row [of "addLocation initialWizard" 0]
  by (simp add: initialWizard_def addLocation_def)

text \<open>
  Claim C6 as stated fails for the function \<open>removeLocation\<close> of the three-step
  component: invoked with index 0 on the initial one-entry list, it empties the list.
\<close>

theorem removeLocation_onboarding_empties_list:
  "length (locations initialWizard) = 1
   \<and> locations (removeLocation_onboarding 0 initialWizard) = []"
  by (simp add: initialWizard_def removeLocation_onboarding_def remove_at_def)

lemma cleared_entry:
  "map_of (AList.update k None errs) k = Some None
   \<and> (\<forall>k'. k' \<noteq> k \<longrightarrow> map_of (AList.update k None errs) k' = map_of errs k')"
  by (simp add: update_conv')

text \<open>
  Claim C9, as amended. \<open>handleBusinessChange\<close>, \<open>handleLocationChange\<close> (both versions)
  and \<open>handleFacilityChange\<close> set the error entry of the changed field to \<open>null\<close>, leave
  every other entry of that step's field errors as it was, reset that step's global error
  to \<open>null\<close>, and leave the error states of the other steps untouched.
\<close>

theorem field_change_clears_field_error_and_global:
  "(let s' = handleBusinessChange bfield v s; k = business_key bfield
    in map_of (e_fields (step1Errors s')) k = Some None
       \<and> (\<forall>k'. k' \<noteq> k \<longrightarrow>
             map_of (e_fields (step1Errors s')) k' = map_of (e_fields (step1Errors s)) k')
       \<and> e_global (step1Errors s') = None
       \<and> step2Errors s' = step2Errors s \<and> step3Errors s' = step3Errors s)
   \<and> (let s' = handleLocationChange toNumber index lfield v s;
           k = index_key index (location_key lfield)
       in map_of (e_fields (step2Errors s')) k = Some None
          \<and> (\<forall>k'. k' \<noteq> k \<longrightarrow>
                map_of (e_fields (step2Errors s')) k' = map_of (e_fields (step2Errors s)) k')
          \<and> e_global (step2Errors s') = None
          \<and> step1Errors s' = step1Errors s \<and> step3Errors s' = step3Errors s)
   \<and> (let s' = handleLocationChange_plain toNumber index lfield v s;
           k = index_key index (location_key lfield)
       in map_of (e_fields (step2Errors s')) k = Some None
          \<and> (\<forall>k'. k' \<noteq> k \<longrightarrow>
                map_of (e_fields (step2Errors s')) k' = map_of (e_fields (step2Errors s)) k')
          \<and> e_global (step2Errors s') = None
          \<and> step1Errors s' = step1Errors s \<and> step3Errors s' = step3Errors s)
   \<and> (let s' = handleFacilityChange toNumber index afield v s;
           k = index_key index (facility_key afield)
       in map_of (e_fields (step3Errors s')) k = Some None
          \<and> (\<forall>k'. k' \<noteq> k \<longrightarrow>
                map_of (e_fields (step3Errors s')) k' = map_of (e_fields (step3Errors s)) k')
          \<and> e_global (step3Errors s') = None
          \<and> step1Errors s' = step1Errors s \<and> step2Errors s' = step2Errors s)"
  by (simp add: Let_def handleBusinessChange_def handleLocationChange_def
      handleLocationChange_plain_def handleFacilityChange_def update_conv')

theorem field_change_clears_field_error_and_global_witness:
  "js ''companyName'' \<noteq> business_key F_email
   \<and> map_of (e_fields (step1Errors (handleBusinessChange F_email (js ''jo@acme.com'') ex_rejected_form)))
        (js ''email'') = Some None
   \<and> map_of (e_fields (step1Errors (handleBusinessChange F_email (js ''jo@acme.com'') ex_rejected_form)))
        (js ''companyName'') = Some (Some (js ''Company name is required''))
   \<and> e_global (step1Errors (handleBusinessChange F_email (js ''jo@acme.com'') ex_rejected_form)) = None"
  using field_change_clears_field_error_and_global
    [where s = ex_rejected_form and bfield = F_email and v = "js ''jo@acme.com''"]
  by (simp add: Let_def ex_rejected_form_def js_def)

text \<open>
  Claim C9 as stated fails: a field change does not leave the step-global error
  unchanged, it resets it.
\<close>

theorem field_change_resets_global_error:
  "e_global (step1Errors ex_rejected_form) = Some (js ''Please fill in all required fields.'')
   \<and> e_global (step1Errors (handleBusinessChange F_email (js ''jo@acme.com'') ex_rejected_form)) = None"
  by (simp add: ex_rejected_form_def handleBusinessChange_def)

lemma email_ok: "rx_test emailPattern (js ''jo@acme.com'')"
  by (simp add: rx_test_def emailPattern_def OneOrMore_def notSpaceNorAt_def is_ws_def js_def)

lemma email_bad: "\<not> rx_test emailPattern (js ''not-an-email'')"
  by (simp add: rx_test_def emailPattern_def OneOrMore_def notSpaceNorAt_def is_ws_def js_def)

lemma trim_ex: "trim (js ''Acme'') = js ''Acme''" "trim (js ''+1'') = js ''+1''"
  by (simp_all add: trim_def is_ws_def js_def)

lemma map_of_set_err:
  "map_of (set_err k m e) k' = (if k' = k then Some (Some m) else map_of e k')"
  by (simp add: set_err_def update_conv')

lemma map_of_err_if:
  "map_of (err_if c k m e) k' = (if c \<and> k' = k then Some (Some m) else map_of e k')"
  by (simp add: err_if_def update_conv')

lemma map_of_err_if_blank:
  "map_of (err_if_blank v k m e) k' = (if trim v = [] \<and> k' = k then Some (Some m) else map_of e k')"
  by (simp add: err_if_blank_def map_of_err_if)

lemma map_of_emailErrors:
  "map_of (emailErrors v e) k' =
     (if k' = js ''email'' \<and> (trim v = [] \<or> \<not> rx_test emailPattern v)
      then Some (Some (if trim v = [] then js ''Email is required''
                       else js ''Please enter a valid email address''))
      else map_of e k')"
  by (simp add: emailErrors_def map_of_err_if map_of_set_err)

lemma map_of_passwordErrors:
  "map_of (passwordErrors v e) k' =
     (if k' = js ''adminPassword'' \<and> (trim v = [] \<or> length (trim v) < 6)
      then Some (Some (if trim v = [] then js ''Admin password is required''
                       else js ''Password must be at least 6 characters''))
      else map_of e k')"
  by (simp add: passwordErrors_def map_of_err_if map_of_set_err)

lemma map_of_formCoordinateErrors:
  "k' \<noteq> k \<Longrightarrow> map_of (formCoordinateErrors toNumber v b k m e) k' = map_of e k'"
  by (simp add: formCoordinateErrors_def Let_def map_of_err_if)

lemma map_of_nonempty: "map_of e k = Some v \<Longrightarrow> e \<noteq> []"
  by auto

lemma length_trim: "length (trim v) \<le> length v"
proof -
  have "length (trim v) \<le> length (dropWhile is_ws v)"
    unfolding trim_def using length_dropWhile_le [of is_ws "rev (dropWhile is_ws v)"] by simp
  also have "\<dots> \<le> length v" by (rule length_dropWhile_le)
  finally show ?thesis .
qed

lemma trim_empty: "trim [] = []"
  by (simp add: trim_def)

lemma fst_finishStep1: "fst (finishStep1 e s) = (e = [])"
  by (simp add: finishStep1_def)

lemma fields_finishStep1: "e \<noteq> [] \<Longrightarrow> e_fields (step1Errors (snd (finishStep1 e s))) = e"
  by (simp add: finishStep1_def)

lemma step1_keys:
  "js ''companyName'' \<noteq> js ''contactName''" "js ''companyName'' \<noteq> js ''email''"
  "js ''companyName'' \<noteq> js ''phone''" "js ''companyName'' \<noteq> js ''city''"
  "js ''companyName'' \<noteq> js ''country''" "js ''companyName'' \<noteq> js ''latitude''"
  "js ''companyName'' \<noteq> js ''longitude''" "js ''companyName'' \<noteq> js ''adminPassword''"
  "js ''email'' \<noteq> js ''phone''" "js ''email'' \<noteq> js ''city''"
  "js ''email'' \<noteq> js ''country''" "js ''email'' \<noteq> js ''latitude''"
  "js ''email'' \<noteq> js ''longitude''" "js ''email'' \<noteq> js ''adminPassword''"
  by (simp_all add: js_def)

lemma rejected1:
  assumes "map_of e k = Some v"
  shows "\<not> fst (finishStep1 e s) \<and> fieldError1 (finishStep1 e s) k = Some v"
  using assms map_of_nonempty [OF assms]
  by (simp add: fst_finishStep1 fields_finishStep1 fieldError1_def)

lemmas step1_maps = map_of_err_if_blank map_of_emailErrors map_of_passwordErrors
  map_of_formCoordinateErrors step1_keys

lemma company_required:
  assumes "companyName (businessForm s) = []"
  shows "\<not> fst (validateStep1 toNumber s)
       \<and> fieldError1 (validateStep1 toNumber s) (js ''companyName'') = Some (Some (js ''Company name is required''))"
    and "\<not> fst (validateStep1_plain s)
       \<and> fieldError1 (validateStep1_plain s) (js ''companyName'') = Some (Some (js ''Company name is required''))"
    and "\<not> fst (validateStep1_onboarding s)
       \<and> fieldError1 (validateStep1_onboarding s) (js ''companyName'') = Some (Some (js ''Company name is required''))"
  unfolding validateStep1_def validateStep1_plain_def validateStep1_onboarding_def Let_def
  by (rule rejected1, simp add: step1_maps assms trim_empty)+

lemma email_shape_required:
  assumes "\<not> rx_test emailPattern (email (businessForm s))"
  shows "\<not> fst (validateStep1 toNumber s)
       \<and> fieldError1 (validateStep1 toNumber s) (js ''email'')
           = Some (Some (if trim (email (businessForm s)) = [] then js ''Email is required''
                         else js ''Please enter a valid email address''))"
    and "\<not> fst (validateStep1_plain s)
       \<and> fieldError1 (validateStep1_plain s) (js ''email'')
           = Some (Some (if trim (email (businessForm s)) = [] then js ''Email is required''
                         else js ''Please enter a valid email address''))"
  unfolding validateStep1_def validateStep1_plain_def Let_def
  by (rule rejected1, simp add: step1_maps assms)+

lemma short_trim: "length v < 6 \<Longrightarrow> trim v = [] \<or> length (trim v) < 6"
  using length_trim [of v] by arith

lemma password_required:
  assumes "length (adminPassword (businessForm s)) < 6" and "\<not> isEditing s"
  shows "\<not> fst (validateStep1 toNumber s)
       \<and> fieldError1 (validateStep1 toNumber s) (js ''adminPassword'')
           = Some (Some (if trim (adminPassword (businessForm s)) = []
                         then js ''Admin password is required''
                         else js ''Password must be at least 6 characters''))"
  unfolding validateStep1_def Let_def
  using short_trim [OF assms(1)] assms(2)
  by (intro rejected1) (simp add: step1_maps)

lemma password_required_onboarding:
  assumes "length (adminPassword (businessForm s)) < 6"
  shows "\<not> fst (validateStep1_onboarding s)
       \<and> fieldError1 (validateStep1_onboarding s) (js ''adminPassword'')
           = Some (Some (if trim (adminPassword (businessForm s)) = []
                         then js ''Admin password is required''
                         else js ''Password must be at least 6 characters''))"
  unfolding validateStep1_onboarding_def Let_def
  using short_trim [OF assms]
  by (intro rejected1) (simp add: step1_maps)

lemma ex_acme_fields:
  "trim (companyName ex_acme) \<noteq> []" "trim (contactName ex_acme) \<noteq> []"
  "trim (email ex_acme) \<noteq> []" "rx_test emailPattern (email ex_acme)"
  "trim (phone ex_acme) \<noteq> []" "trim (city ex_acme) \<noteq> []" "trim (country ex_acme) \<noteq> []"
  "latitude ex_acme = []" "longitude ex_acme = []"
  "trim (adminPassword ex_acme) \<noteq> []" "\<not> length (trim (adminPassword ex_acme)) < 6"
  by (simp_all add: ex_acme_def emptyBusinessForm_def trim_def is_ws_def js_def
      rx_test_def emailPattern_def OneOrMore_def notSpaceNorAt_def)

lemma acme_accepted:
  assumes "businessForm s = ex_acme"
  shows "fst (validateStep1 toNumber s)" "fst (validateStep1_plain s)"
    "fst (validateStep1_onboarding s)"
  by (simp_all add: validateStep1_def validateStep1_plain_def validateStep1_onboarding_def
      Let_def assms ex_acme_fields err_if_blank_def err_if_def emailErrors_def
      passwordErrors_def formCoordinateErrors_def fst_finishStep1)

text \<open>
  Claim C4, as amended. With an empty company name the Step 1 gate of each of the three
  components returns false and records \<open>Company name is required\<close>. With an email that
  does not match the pattern, the gates of the two two-step components return false and
  record an email error. With an admin password of fewer than 6 characters, the gate of
  the edit-capable component in create mode and the gate of the three-step component
  return false and record a password error. The form \<open>Acme / Jo / jo@acme.com / +1 / NYC /
  US / secret1\<close> passes the three gates.
\<close>

theorem step1_gate:
  "(companyName (businessForm s) = [] \<longrightarrow>
      (\<not> fst (validateStep1 toNumber s)
       \<and> fieldError1 (validateStep1 toNumber s) (js ''companyName'')
           = Some (Some (js ''Company name is required'')))
    \<and> (\<not> fst (validateStep1_plain s)
       \<and> fieldError1 (validateStep1_plain s) (js ''companyName'')
           = Some (Some (js ''Company name is required'')))
    \<and> (\<not> fst (validateStep1_onboarding s)
       \<and> fieldError1 (validateStep1_onboarding s) (js ''companyName'')
           = Some (Some (js ''Company name is required''))))
   \<and> (\<not> rx_test emailPattern (email (businessForm s)) \<longrightarrow>
      (\<not> fst (validateStep1 toNumber s)
       \<and> fieldError1 (validateStep1 toNumber s) (js ''email'')
           = Some (Some (if trim (email (businessForm s)) = [] then js ''Email is required''
                         else js ''Please enter a valid email address'')))
    \<and> (\<not> fst (validateStep1_plain s)
       \<and> fieldError1 (validateStep1_plain s) (js ''email'')
           = Some (Some (if trim (email (businessForm s)) = [] then js ''Email is required''
                         else js ''Please enter a valid email address''))))
   \<and> (length (adminPassword (businessForm s)) < 6 \<longrightarrow>
      (\<not> isEditing s \<longrightarrow>
         \<not> fst (validateStep1 toNumber s)
       \<and> fieldError1 (validateStep1 toNumber s) (js ''adminPassword'')
           = Some (Some (if trim (adminPassword (businessForm s)) = []
                         then js ''Admin password is required''
                         else js ''Password must be at least 6 characters'')))
    \<and> (\<not> fst (validateStep1_onboarding s)
       \<and> fieldError1 (validateStep1_onboarding s) (js ''adminPassword'')
           = Some (Some (if trim (adminPassword (businessForm s)) = []
                         then js ''Admin password is required''
                         else js ''Password must be at least 6 characters''))))
   \<and> (businessForm s = ex_acme \<longrightarrow>
      fst (validateStep1 toNumber s) \<and> fst (validateStep1_plain s)
      \<and> fst (validateStep1_onboarding s))"
  using company_required [where s = s] email_shape_required [where s = s]
    password_required [of s toNumber] password_required_onboarding [of s]
    acme_accepted [where s = s]
  by blast

theorem step1_gate_witness:
  "companyName (businessForm initialWizard) = []
   \<and> \<not> fst (validateStep1 ex_toNumber initialWizard)
   \<and> fieldError1 (validateStep1 ex_toNumber initialWizard) (js ''companyName'')
       = Some (Some (js ''Company name is required''))
   \<and> \<not> rx_test emailPattern (email (businessForm ex_bad_email))
   \<and> \<not> fst (validateStep1 ex_toNumber ex_bad_email)
   \<and> fieldError1 (validateStep1 ex_toNumber ex_bad_email) (js ''email'')
       = Some (Some (js ''Please enter a valid email address''))
   \<and> \<not> isEditing ex_short_password
   \<and> length (adminPassword (businessForm ex_short_password)) < 6
   \<and> \<not> fst (validateStep1 ex_toNumber ex_short_password)
   \<and> fieldError1 (validateStep1 ex_toNumber ex_short_password) (js ''adminPassword'')
       = Some (Some (js ''Password must be at least 6 characters''))
   \<and> businessForm ex_acme_wizard = ex_acme
   \<and> fst (validateStep1 ex_toNumber ex_acme_wizard)
   \<and> fst (validateStep1_plain ex_acme_wizard)
   \<and> fst (validateStep1_onboarding ex_acme_wizard)"
  using step1_gate [of initialWizard ex_toNumber] step1_gate [of ex_bad_email ex_toNumber]
    step1_gate [of ex_short_password ex_toNumber] step1_gate [of ex_acme_wizard ex_toNumber]
  by (simp add: initialWizard_def emptyBusinessForm_def ex_bad_email_def ex_short_password_def
      ex_acme_wizard_def ex_acme_def trim_def is_ws_def js_def
      rx_test_def emailPattern_def OneOrMore_def notSpaceNorAt_def)

text \<open>
  Claim C4 as stated fails for the three-step component, whose gate only requires the
  email to be non-blank: the form above with the email \<open>not-an-email\<close> passes it and no
  error is recorded.
\<close>

theorem onboarding_gate_accepts_malformed_email:
  "\<not> rx_test emailPattern (email (businessForm ex_bad_email))
   \<and> fst (validateStep1_onboarding ex_bad_email)
   \<and> step1Errors (snd (validateStep1_onboarding ex_bad_email)) = initialErrorState"
  by (simp add: validateStep1_onboarding_def Let_def err_if_blank_def err_if_def
      passwordErrors_def finishStep1_def
      initialWizard_def emptyBusinessForm_def ex_bad_email_def ex_acme_def trim_def is_ws_def
      js_def rx_test_def emailPattern_def OneOrMore_def notSpaceNorAt_def)

lemma digit_unit: "d < 10 \<Longrightarrow> unat (digit_char d) = 48 + d"
  unfolding digit_char_def by (subst unat_of_nat) simp

lemma digit_not_dot: "d < 10 \<Longrightarrow> digit_char d \<noteq> 0x2E"
proof
  assume d: "d < 10" and eq: "digit_char d = 0x2E"
  have "unat (digit_char d) = unat (0x2E :: jschar)" using eq by simp
  then show False using digit_unit [OF d] by simp
qed

lemma show_nat_no_dot: "c \<in> set (show_nat n) \<Longrightarrow> c \<noteq> 0x2E"
proof (induction n arbitrary: c rule: show_nat.induct)
  case (1 n)
  show ?case
  proof (cases "n < 10")
    case True
    then show ?thesis using "1.prems" digit_not_dot [of n] by (simp add: show_nat.simps)
  next
    case False
    have m: "n mod 10 < 10" by simp
    from "1.prems" False have "c \<in> set (show_nat (n div 10)) \<or> c = digit_char (n mod 10)"
      by (subst (asm) show_nat.simps) auto
    then show ?thesis using "1.IH" [OF False] digit_not_dot [OF m] by auto
  qed
qed

lemma digits_value_show_nat: "digits_value (show_nat n) = n"
proof (induction n rule: show_nat.induct)
  case (1 n)
  show ?case
  proof (cases "n < 10")
    case True
    then show ?thesis by (simp add: show_nat.simps digits_value_def digit_unit)
  next
    case False
    have m: "n mod 10 < 10" by simp
    have "digits_value (show_nat n) = 10 * digits_value (show_nat (n div 10)) + n mod 10"
      using False by (subst show_nat.simps) (simp add: digits_value_def digit_unit [OF m])
    then show ?thesis using "1.IH" [OF False] by simp
  qed
qed

lemma show_nat_inj:
  assumes "show_nat i = show_nat j"
  shows "i = j"
proof -
  have "digits_value (show_nat i) = digits_value (show_nat j)"
    by (simp only: assms)
  then show ?thesis by (simp only: digits_value_show_nat)
qed

lemma js_dot: "js ''.'' = [0x2E]"
  by (simp add: js_def)

lemma index_key_prefix: "takeWhile (\<lambda>c. c \<noteq> 0x2E) (index_key i f) = show_nat i"
proof -
  have "takeWhile (\<lambda>c. c \<noteq> 0x2E) (show_nat i @ ([0x2E] @ f))
          = show_nat i @ takeWhile (\<lambda>c. c \<noteq> 0x2E) ([0x2E] @ f)"
    by (rule takeWhile_append2) (rule show_nat_no_dot)
  then show ?thesis unfolding index_key_def js_dot by simp
qed

lemma index_key_eq_iff: "index_key i f = index_key j g \<longleftrightarrow> i = j \<and> f = g"
proof
  assume eq: "index_key i f = index_key j g"
  have "takeWhile (\<lambda>c. c \<noteq> 0x2E) (index_key i f) = takeWhile (\<lambda>c. c \<noteq> 0x2E) (index_key j g)"
    by (simp only: eq)
  then have "show_nat i = show_nat j"
    by (simp only: index_key_prefix)
  then have "i = j" by (rule show_nat_inj)
  then show "i = j \<and> f = g" using eq by (simp add: index_key_def)
qed simp

lemma location_keys:
  "js ''latitude'' \<noteq> js ''name''" "js ''latitude'' \<noteq> js ''city''"
  "js ''latitude'' \<noteq> js ''country''" "js ''latitude'' \<noteq> js ''longitude''"
  "js ''longitude'' \<noteq> js ''name''" "js ''longitude'' \<noteq> js ''city''"
  "js ''longitude'' \<noteq> js ''country''" "js ''longitude'' \<noteq> js ''latitude''"
  by (simp_all add: js_def)

lemma checkLocation_latitude:
  "map_of (checkLocation j loc e) (index_key i (js ''latitude'')) =
     (if j = i \<and> coordinateInvalid (l_latitude loc) 90
      then Some (Some (js ''Latitude must be between -90 and 90''))
      else map_of e (index_key i (js ''latitude'')))"
  by (simp add: checkLocation_def Let_def map_of_err_if map_of_err_if_blank index_key_eq_iff
      location_keys)

lemma checkLocation_longitude:
  "map_of (checkLocation j loc e) (index_key i (js ''longitude'')) =
     (if j = i \<and> coordinateInvalid (l_longitude loc) 180
      then Some (Some (js ''Longitude must be between -180 and 180''))
      else map_of e (index_key i (js ''longitude'')))"
  by (simp add: checkLocation_def Let_def map_of_err_if map_of_err_if_blank index_key_eq_iff
      location_keys)

lemma forEach_latitude:
  "map_of (forEachIndexed checkLocation n xs e) (index_key i (js ''latitude'')) =
     (if n \<le> i \<and> i < n + length xs \<and> coordinateInvalid (l_latitude (xs ! (i - n))) 90
      then Some (Some (js ''Latitude must be between -90 and 90''))
      else map_of e (index_key i (js ''latitude'')))"
proof (induction xs arbitrary: n e)
  case Nil
  then show ?case by auto
next
  case (Cons x xs)
  have nth: "Suc n \<le> i \<Longrightarrow> (x # xs) ! (i - n) = xs ! (i - Suc n)"
    by (simp add: nth_Cons')
  show ?case
    using Cons.IH [of "Suc n" "checkLocation n x e"] nth
    by (cases "i = n") (auto simp add: checkLocation_latitude)
qed

lemma forEach_longitude:
  "map_of (forEachIndexed checkLocation n xs e) (index_key i (js ''longitude'')) =
     (if n \<le> i \<and> i < n + length xs \<and> coordinateInvalid (l_longitude (xs ! (i - n))) 180
      then Some (Some (js ''Longitude must be between -180 and 180''))
      else map_of e (index_key i (js ''longitude'')))"
proof (induction xs arbitrary: n e)
  case Nil
  then show ?case by auto
next
  case (Cons x xs)
  have nth: "Suc n \<le> i \<Longrightarrow> (x # xs) ! (i - n) = xs ! (i - Suc n)"
    by (simp add: nth_Cons')
  show ?case
    using Cons.IH [of "Suc n" "checkLocation n x e"] nth
    by (cases "i = n") (auto simp add: checkLocation_longitude)
qed

lemma rejected2:
  assumes "map_of e k = Some v"
  shows "\<not> fst (finishStep2 g e s) \<and> fieldError2 (finishStep2 g e s) k = Some v"
  using assms map_of_nonempty [OF assms]
  by (simp add: finishStep2_def fieldError2_def)

lemma latitude_rejected:
  assumes "i < length (locations s)" and "l_latitude (locations s ! i) = Some v"
    and "outOfRange v 90"
  shows "\<not> fst (validateStep2 s)
       \<and> fieldError2 (validateStep2 s) (index_key i (js ''latitude''))
           = Some (Some (js ''Latitude must be between -90 and 90''))"
  unfolding validateStep2_def
  by (rule rejected2) (simp add: forEach_latitude assms coordinateInvalid_def)

lemma longitude_rejected:
  assumes "i < length (locations s)" and "l_longitude (locations s ! i) = Some v"
    and "outOfRange v 180"
  shows "\<not> fst (validateStep2 s)
       \<and> fieldError2 (validateStep2 s) (index_key i (js ''longitude''))
           = Some (Some (js ''Longitude must be between -180 and 180''))"
  unfolding validateStep2_def
  by (rule rejected2) (simp add: forEach_longitude assms coordinateInvalid_def)

lemma forEach_valid:
  "(\<And>x. x \<in> set xs \<Longrightarrow> locationValid x) \<Longrightarrow>
   forEachIndexed checkLocation n xs e = e \<and> forEachIndexed checkLocation_plain n xs e = e"
  by (induction xs arbitrary: n)
    (simp_all add: locationValid_def checkLocation_def checkLocation_plain_def Let_def
      err_if_def err_if_blank_def)

lemma valid_accepted:
  assumes "locations s \<noteq> []" and "\<And>x. x \<in> set (locations s) \<Longrightarrow> locationValid x"
  shows "fst (validateStep2 s)" "fst (validateStep2_plain s)"
  using assms(1) forEach_valid [of "locations s" 0 "[]", OF assms(2)]
  by (simp_all add: validateStep2_def validateStep2_plain_def finishStep2_def
      noLocationError_def str_truthy_def)

text \<open>
  Claim C5, as amended. The Step 2 gate of the edit-capable component returns false and
  records the latitude (longitude) error of row \<open>i\<close> whenever the latitude (longitude) of
  that row is set and compares below \<open>-90\<close> (\<open>-180\<close>) or above \<open>90\<close> (\<open>180\<close>). A non-empty
  list of locations with latitude 45.5, longitude -122.6 and name, city and country that
  are not blank (non-empty after trimming) passes the gate of each component. The gates
  of the earlier and of the three-step component do not look at coordinates.
\<close>

theorem step2_gate:
  "(i < length (locations s) \<and> l_latitude (locations s ! i) = Some v \<and> outOfRange v 90 \<longrightarrow>
      \<not> fst (validateStep2 s)
      \<and> fieldError2 (validateStep2 s) (index_key i (js ''latitude''))
          = Some (Some (js ''Latitude must be between -90 and 90'')))
   \<and> (i < length (locations s) \<and> l_longitude (locations s ! i) = Some v \<and> outOfRange v 180 \<longrightarrow>
      \<not> fst (validateStep2 s)
      \<and> fieldError2 (validateStep2 s) (index_key i (js ''longitude''))
          = Some (Some (js ''Longitude must be between -180 and 180'')))
   \<and> (locations s \<noteq> []
       \<and> (\<forall>loc \<in> set (locations s).
            l_latitude loc = Some (Fin 45.5) \<and> l_longitude loc = Some (Fin (- 122.6))
            \<and> trim (l_name loc) \<noteq> [] \<and> \<not> blank (l_city loc) \<and> \<not> blank (l_country loc)) \<longrightarrow>
      fst (validateStep2 s) \<and> fst (validateStep2_plain s))"
proof (intro conjI impI)
  assume h: "locations s \<noteq> []
       \<and> (\<forall>loc \<in> set (locations s).
            l_latitude loc = Some (Fin 45.5) \<and> l_longitude loc = Some (Fin (- 122.6))
            \<and> trim (l_name loc) \<noteq> [] \<and> \<not> blank (l_city loc) \<and> \<not> blank (l_country loc))"
  then have v: "\<And>x. x \<in> set (locations s) \<Longrightarrow> locationValid x"
    by (simp add: locationValid_def coordinateInvalid_def outOfRange_def js_gt_def)
  from h show "fst (validateStep2 s)" by (intro valid_accepted(1) v) simp_all
  from h show "fst (validateStep2_plain s)" by (intro valid_accepted(2) v) simp_all
next
  assume "i < length (locations s) \<and> l_latitude (locations s ! i) = Some v \<and> outOfRange v 90"
  then show "\<not> fst (validateStep2 s)"
    and "fieldError2 (validateStep2 s) (index_key i (js ''latitude''))
          = Some (Some (js ''Latitude must be between -90 and 90''))"
    using latitude_rejected [of i s v] by simp_all
next
  assume "i < length (locations s) \<and> l_longitude (locations s ! i) = Some v \<and> outOfRange v 180"
  then show "\<not> fst (validateStep2 s)"
    and "fieldError2 (validateStep2 s) (index_key i (js ''longitude''))
          = Some (Some (js ''Longitude must be between -180 and 180''))"
    using longitude_rejected [of i s v] by simp_all
qed

theorem step2_gate_witness:
  "l_latitude (locations ex_lat95 ! 0) = Some (Fin 95) \<and> outOfRange (Fin 95) 90
   \<and> \<not> fst (validateStep2 ex_lat95)
   \<and> fieldError2 (validateStep2 ex_lat95) (index_key 0 (js ''latitude''))
       = Some (Some (js ''Latitude must be between -90 and 90''))
   \<and> l_longitude (locations ex_lng200 ! 0) = Some (Fin 200) \<and> outOfRange (Fin 200) 180
   \<and> \<not> fst (validateStep2 ex_lng200)
   \<and> fieldError2 (validateStep2 ex_lng200) (index_key 0 (js ''longitude''))
       = Some (Some (js ''Longitude must be between -180 and 180''))
   \<and> locations ex_one_location = [ex_location]
   \<and> l_latitude ex_location = Some (Fin 45.5) \<and> l_longitude ex_location = Some (Fin (- 122.6))
   \<and> fst (validateStep2 ex_one_location) \<and> fst (validateStep2_plain ex_one_location)"
  using step2_gate [of 0 ex_lat95 "Fin 95"] step2_gate [of 0 ex_lng200 "Fin 200"]
    step2_gate [where s = ex_one_location]
  by (simp add: ex_lat95_def ex_lng200_def ex_one_location_def ex_location_def emptyLocation_def
      initialWizard_def outOfRange_def js_gt_def blank_def trim_def is_ws_def js_def)

text \<open>
  Claim C5 as stated fails for the gate shared by the earlier two-step and the three-step
  component: it accepts a location with latitude 95. And a name of one space, which is
  non-empty, makes the gate of the edit-capable component reject a location with latitude
  45.5 and longitude -122.6.
\<close>

theorem plain_gate_accepts_latitude_95:
  "l_latitude (locations ex_lat95 ! 0) = Some (Fin 95) \<and> outOfRange (Fin 95) 90
   \<and> fst (validateStep2_plain ex_lat95)
   \<and> step2Errors (snd (validateStep2_plain ex_lat95)) = initialErrorState
   \<and> l_name (locations ex_blank_name ! 0) \<noteq> []
   \<and> l_latitude (locations ex_blank_name ! 0) = Some (Fin 45.5)
   \<and> l_longitude (locations ex_blank_name ! 0) = Some (Fin (- 122.6))
   \<and> \<not> fst (validateStep2 ex_blank_name)"
  by (simp add: validateStep2_plain_def validateStep2_def finishStep2_def noLocationError_def
      checkLocation_plain_def checkLocation_def coordinateInvalid_def Let_def
      err_if_def err_if_blank_def str_truthy_def
      ex_lat95_def ex_blank_name_def ex_location_def emptyLocation_def
      initialWizard_def outOfRange_def js_gt_def blank_def trim_def is_ws_def js_def)

lemma createLocations_calls:
  "\<exists>n. snd (createLocations api cid locs calls) = calls @ take n (newLocationPayloads cid locs)"
proof (induction locs arbitrary: calls)
  case Nil
  then show ?case by simp
next
  case (Cons loc rest)
  show ?case
  proof (cases "str_truthy (l_id loc)")
    case True
    then show ?thesis using Cons.IH [of calls] by (simp add: newLocationPayloads_def)
  next
    case False
    let ?p = "loc\<lparr>l_client_id := Some cid\<rparr>"
    show ?thesis
    proof (cases "api calls ?p")
      case (Rejected msg)
      have "snd (createLocations api cid (loc # rest) calls)
              = calls @ take 1 (newLocationPayloads cid (loc # rest))"
        using False Rejected by (simp add: newLocationPayloads_def)
      then show ?thesis by blast
    next
      case (Resolved v)
      obtain n where "snd (createLocations api cid rest (calls @ [?p]))
                        = (calls @ [?p]) @ take n (newLocationPayloads cid rest)"
        using Cons.IH [of "calls @ [?p]"] by blast
      then have "snd (createLocations api cid (loc # rest) calls)
              = calls @ take (Suc n) (newLocationPayloads cid (loc # rest))"
        using False Resolved by (simp add: newLocationPayloads_def)
      then show ?thesis by blast
    qed
  qed
qed

lemma createLocations_complete:
  "fst (createLocations api cid locs calls) = None \<Longrightarrow>
   snd (createLocations api cid locs calls) = calls @ newLocationPayloads cid locs"
proof (induction locs arbitrary: calls)
  case Nil
  then show ?case by (simp add: newLocationPayloads_def)
next
  case (Cons loc rest)
  then show ?case
    by (cases "api calls (loc\<lparr>l_client_id := Some cid\<rparr>)")
       (auto simp add: newLocationPayloads_def Let_def split: if_splits)
qed

lemma createLocations_no_rejection:
  "(\<And>h p msg. api h p \<noteq> Rejected msg) \<Longrightarrow> fst (createLocations api cid locs calls) = None"
proof (induction locs arbitrary: calls)
  case Nil
  then show ?case by simp
next
  case (Cons loc rest)
  then show ?case
    by (cases "api calls (loc\<lparr>l_client_id := Some cid\<rparr>)") (auto simp add: Let_def)
qed

lemma newLocationPayloads_no_id:
  "p \<in> set (newLocationPayloads cid locs) \<Longrightarrow> \<not> str_truthy (l_id p)"
  by (auto simp add: newLocationPayloads_def)

lemma submitted_calls:
  "snd (handleSubmitStep2 api s) = []
   \<or> snd (handleSubmitStep2 api s) = snd (createLocations api (clientIdValue s) (locations s) [])"
  by (simp add: handleSubmitStep2_def split: prod.splits option.splits)

lemma submitted_all:
  assumes "opt_truthy (clientId s)" and "fst (validateStep2 s)"
  shows "snd (handleSubmitStep2 api s) = snd (createLocations api (clientIdValue s) (locations s) [])"
  using assms
  by (auto simp add: handleSubmitStep2_def split: prod.splits option.splits)

text \<open>
  The calls issued by the loop of the edit-capable component, and by \<open>handleSubmitStep2\<close>
  around it, are an initial part of the payloads of the locations without an \<open>id\<close>.
\<close>

lemma existing_locations_prefix:
  "(\<exists>n. snd (createLocations api cid locs []) = take n (newLocationPayloads cid locs))
   \<and> (\<forall>p \<in> set (snd (createLocations api cid locs [])). \<not> str_truthy (l_id p))
   \<and> (fst (createLocations api cid locs []) = None \<longrightarrow>
        snd (createLocations api cid locs []) = newLocationPayloads cid locs)
   \<and> (\<exists>n. snd (handleSubmitStep2 api s)
             = take n (newLocationPayloads (clientIdValue s) (locations s)))
   \<and> (\<forall>p \<in> set (snd (handleSubmitStep2 api s)). \<not> str_truthy (l_id p))
   \<and> (opt_truthy (clientId s) \<and> fst (validateStep2 s) \<and> (\<forall>h p msg. api h p \<noteq> Rejected msg) \<longrightarrow>
        snd (handleSubmitStep2 api s) = newLocationPayloads (clientIdValue s) (locations s))"
proof -
  have loop: "\<exists>n. snd (createLocations api c ls []) = take n (newLocationPayloads c ls)" for c ls
    using createLocations_calls [of api c ls "[]"] by simp
  have noid: "\<forall>p \<in> set (snd (createLocations api c ls [])). \<not> str_truthy (l_id p)" for c ls
  proof -
    obtain n where "snd (createLocations api c ls []) = take n (newLocationPayloads c ls)"
      using loop by blast
    then show ?thesis by (auto dest: in_set_takeD newLocationPayloads_no_id)
  qed
  have full: "fst (createLocations api c ls []) = None \<longrightarrow>
        snd (createLocations api c ls []) = newLocationPayloads c ls" for c ls
    using createLocations_complete [of api c ls "[]"] by simp
  have h1: "\<exists>n. snd (handleSubmitStep2 api s)
             = take n (newLocationPayloads (clientIdValue s) (locations s))"
  proof (cases "snd (handleSubmitStep2 api s) = []")
    case True
    then have "snd (handleSubmitStep2 api s)
             = take 0 (newLocationPayloads (clientIdValue s) (locations s))" by simp
    then show ?thesis by blast
  next
    case False
    then show ?thesis using submitted_calls [of api s] loop by auto
  qed
  have h2: "\<forall>p \<in> set (snd (handleSubmitStep2 api s)). \<not> str_truthy (l_id p)"
    using submitted_calls [of api s] noid by auto
  have h3: "opt_truthy (clientId s) \<and> fst (validateStep2 s) \<and> (\<forall>h p msg. api h p \<noteq> Rejected msg) \<longrightarrow>
        snd (handleSubmitStep2 api s) = newLocationPayloads (clientIdValue s) (locations s)"
    using submitted_all [of s api] full createLocations_no_rejection [of api] by auto
  show ?thesis using loop noid full h1 h2 h3 by blast
qed

lemmas ex_wizard_defs = ex_editing_def ex_two_new_def ex_existing_def ex_annex_def ex_location_def
  emptyLocation_def initialWizard_def api_ok_def api_down_def

lemmas step2_eval = handleSubmitStep2_def validateStep2_def finishStep2_def noLocationError_def
  checkLocation_def coordinateInvalid_def outOfRange_def js_gt_def Let_def err_if_def
  err_if_blank_def str_truthy_def opt_truthy_def clientIdValue_def blank_def trim_def is_ws_def
  js_def

lemma isResolved_iff: "isResolved r \<longleftrightarrow> (\<exists>v. r = Resolved v)"
  by (cases r) simp_all

lemma plain_all:
  "(\<And>i. i < length locs \<Longrightarrow>
       isResolved (api (calls @ take i (withClientId cid locs))
             (withClientId cid locs ! i))) \<Longrightarrow>
   createLocations_plain api cid locs calls = (None, calls @ withClientId cid locs)"
proof (induction locs arbitrary: calls)
  case Nil
  then show ?case by (simp add: withClientId_def)
next
  case (Cons loc rest)
  let ?p = "loc\<lparr>l_client_id := Some cid\<rparr>"
  have ps: "withClientId cid (loc # rest) = ?p # withClientId cid rest"
    by (simp add: withClientId_def)
  have "isResolved (api calls ?p)"
    using Cons.prems [of 0] by (simp add: ps)
  then obtain v where v: "api calls ?p = Resolved v"
    by (auto simp add: isResolved_iff)
  have "createLocations_plain api cid rest (calls @ [?p])
          = (None, (calls @ [?p]) @ withClientId cid rest)"
  proof (rule Cons.IH)
    fix i assume "i < length rest"
    then show "isResolved (api ((calls @ [?p]) @ take i (withClientId cid rest))
                 (withClientId cid rest ! i))"
      using Cons.prems [of "Suc i"] by (simp add: ps)
  qed
  then show ?case using v by (simp add: ps Let_def)
qed

lemma plain_first_failure:
  "k < length locs \<Longrightarrow>
   (\<And>i. i < k \<Longrightarrow>
       isResolved (api (calls @ take i (withClientId cid locs))
             (withClientId cid locs ! i))) \<Longrightarrow>
   api (calls @ take k (withClientId cid locs))
         (withClientId cid locs ! k) = Rejected msg \<Longrightarrow>
   createLocations_plain api cid locs calls
     = (Some msg, calls @ take (Suc k) (withClientId cid locs))"
proof (induction locs arbitrary: calls k)
  case Nil
  then show ?case by simp
next
  case (Cons loc rest)
  let ?p = "loc\<lparr>l_client_id := Some cid\<rparr>"
  have ps: "withClientId cid (loc # rest) = ?p # withClientId cid rest"
    by (simp add: withClientId_def)
  show ?case
  proof (cases k)
    case 0
    then have "api calls ?p = Rejected msg" using Cons.prems(3) by (simp add: ps)
    then show ?thesis using 0 by (simp add: ps Let_def)
  next
    case (Suc j)
    have "isResolved (api calls ?p)"
      using Cons.prems(2) [of 0] Suc by (simp add: ps)
    then obtain v where v: "api calls ?p = Resolved v"
      by (auto simp add: isResolved_iff)
    have "createLocations_plain api cid rest (calls @ [?p])
            = (Some msg, (calls @ [?p]) @ take (Suc j) (withClientId cid rest))"
    proof (rule Cons.IH)
      show "j < length rest" using Cons.prems(1) Suc by simp
    next
      fix i assume "i < j"
      then show "isResolved (api ((calls @ [?p]) @ take i (withClientId cid rest))
                   (withClientId cid rest ! i))"
        using Cons.prems(2) [of "Suc i"] Suc by (simp add: ps)
    next
      show "api ((calls @ [?p]) @ take j (withClientId cid rest)) (withClientId cid rest ! j)
              = Rejected msg"
        using Cons.prems(3) Suc by (simp add: ps)
    qed
    then show ?thesis using v Suc by (simp add: ps Let_def)
  qed
qed

lemma createLocations_filter:
  "createLocations api cid locs calls
     = createLocations_plain api cid (filter (\<lambda>loc. \<not> str_truthy (l_id loc)) locs) calls"
proof (induction locs arbitrary: calls)
  case Nil
  then show ?case by simp
next
  case (Cons loc rest)
  show ?case
    by (cases "api calls (loc\<lparr>l_client_id := Some cid\<rparr>)")
       (simp_all add: Let_def Cons.IH)
qed

lemma newLocationPayloads_filter:
  "newLocationPayloads cid locs = withClientId cid (filter (\<lambda>loc. \<not> str_truthy (l_id loc)) locs)"
  by (simp add: newLocationPayloads_def withClientId_def)

lemma length_withClientId: "length (withClientId cid locs) = length locs"
  by (simp add: withClientId_def)

lemma length_newLocationPayloads:
  "length (newLocationPayloads cid locs) = length (filter (\<lambda>loc. \<not> str_truthy (l_id loc)) locs)"
  by (simp add: newLocationPayloads_def)

lemma loop_plain_exact:
  "(\<forall>i < length (withClientId cid locs).
        isResolved (answer api (withClientId cid locs) i)) \<longrightarrow>
     createLocations_plain api cid locs [] = (None, withClientId cid locs)"
  "k < length (withClientId cid locs)
     \<and> (\<forall>i < k. isResolved (answer api (withClientId cid locs) i))
     \<and> answer api (withClientId cid locs) k = Rejected msg \<longrightarrow>
     createLocations_plain api cid locs [] = (Some msg, take (Suc k) (withClientId cid locs))"
  using plain_all [of locs api "[]" cid] plain_first_failure [of k locs api "[]" cid msg]
  by (auto simp add: answer_def length_withClientId)

lemma loop_exact:
  "(\<forall>i < length (newLocationPayloads cid locs).
        isResolved (answer api (newLocationPayloads cid locs) i)) \<longrightarrow>
     createLocations api cid locs [] = (None, newLocationPayloads cid locs)"
  "k < length (newLocationPayloads cid locs)
     \<and> (\<forall>i < k. isResolved (answer api (newLocationPayloads cid locs) i))
     \<and> answer api (newLocationPayloads cid locs) k = Rejected msg \<longrightarrow>
     createLocations api cid locs [] = (Some msg, take (Suc k) (newLocationPayloads cid locs))"
  using loop_plain_exact(1) [where cid = cid and api = api
      and locs = "filter (\<lambda>loc. \<not> str_truthy (l_id loc)) locs"]
    loop_plain_exact(2) [where cid = cid and api = api and k = k and msg = msg
      and locs = "filter (\<lambda>loc. \<not> str_truthy (l_id loc)) locs"]
  by (simp_all add: createLocations_filter newLocationPayloads_filter)

lemma isReadable_iff: "isReadable r \<longleftrightarrow> (\<exists>d. r = Resolved (Some d) \<and> d \<noteq> JNull)"
  by (cases r rule: isReadable.cases) simp_all

lemma onboarding_step_readable:
  assumes "api calls (loc\<lparr>l_client_id := Some cid\<rparr>) = Resolved (Some d)" and "d \<noteq> JNull"
  shows "createLocations_onboarding E api cid (loc # rest) calls created
           = createLocations_onboarding E api cid rest (calls @ [loc\<lparr>l_client_id := Some cid\<rparr>])
               (created @ [(js_get d (js ''id''), js_get d (js ''name''))])"
  using assms by (cases d) (simp_all add: Let_def)

lemma onboarding_step_unreadable:
  assumes "\<not> isReadable (api calls (loc\<lparr>l_client_id := Some cid\<rparr>))"
  shows "createLocations_onboarding E api cid (loc # rest) calls created
           = (Some (failureMessage E (api calls (loc\<lparr>l_client_id := Some cid\<rparr>))),
              calls @ [loc\<lparr>l_client_id := Some cid\<rparr>], created)"
proof (cases "api calls (loc\<lparr>l_client_id := Some cid\<rparr>)")
  case (Rejected msg)
  then show ?thesis by (simp add: Let_def)
next
  case (Resolved v)
  show ?thesis
  proof (cases v)
    case None
    then show ?thesis using Resolved by (simp add: Let_def)
  next
    case (Some d)
    then have "d = JNull" using assms Resolved by simp
    then show ?thesis using Resolved Some by (simp add: Let_def)
  qed
qed

lemma onboarding_all:
  "(\<And>i. i < length locs \<Longrightarrow>
       isReadable (api (calls @ take i (withClientId cid locs))
             (withClientId cid locs ! i))) \<Longrightarrow>
   fst (createLocations_onboarding E api cid locs calls created) = None
   \<and> fst (snd (createLocations_onboarding E api cid locs calls created))
       = calls @ withClientId cid locs"
proof (induction locs arbitrary: calls created)
  case Nil
  then show ?case by (simp add: withClientId_def)
next
  case (Cons loc rest)
  let ?p = "loc\<lparr>l_client_id := Some cid\<rparr>"
  have ps: "withClientId cid (loc # rest) = ?p # withClientId cid rest"
    by (simp add: withClientId_def)
  have "isReadable (api calls ?p)"
    using Cons.prems [of 0] by (simp add: ps)
  then obtain d where d: "api calls ?p = Resolved (Some d)" "d \<noteq> JNull"
    by (auto simp add: isReadable_iff)
  have "fst (createLocations_onboarding E api cid rest (calls @ [?p])
               (created @ [(js_get d (js ''id''), js_get d (js ''name''))])) = None
        \<and> fst (snd (createLocations_onboarding E api cid rest (calls @ [?p])
               (created @ [(js_get d (js ''id''), js_get d (js ''name''))])))
           = (calls @ [?p]) @ withClientId cid rest"
  proof (rule Cons.IH)
    fix i assume "i < length rest"
    then show "isReadable (api ((calls @ [?p]) @ take i (withClientId cid rest))
                 (withClientId cid rest ! i))"
      using Cons.prems [of "Suc i"] by (simp add: ps)
  qed
  moreover have "createLocations_onboarding E api cid (loc # rest) calls created
           = createLocations_onboarding E api cid rest (calls @ [?p])
               (created @ [(js_get d (js ''id''), js_get d (js ''name''))])"
    using d by (rule onboarding_step_readable)
  ultimately show ?case by (simp add: ps del: createLocations_onboarding.simps)
qed

lemma onboarding_first_failure:
  "k < length locs \<Longrightarrow>
   (\<And>i. i < k \<Longrightarrow>
       isReadable (api (calls @ take i (withClientId cid locs))
             (withClientId cid locs ! i))) \<Longrightarrow>
   \<not> isReadable (api (calls @ take k (withClientId cid locs))
         (withClientId cid locs ! k)) \<Longrightarrow>
   fst (createLocations_onboarding E api cid locs calls created)
     = Some (failureMessage E (api (calls @ take k (withClientId cid locs))
           (withClientId cid locs ! k)))
   \<and> fst (snd (createLocations_onboarding E api cid locs calls created))
       = calls @ take (Suc k) (withClientId cid locs)"
proof (induction locs arbitrary: calls created k)
  case Nil
  then show ?case by simp
next
  case (Cons loc rest)
  let ?p = "loc\<lparr>l_client_id := Some cid\<rparr>"
  have ps: "withClientId cid (loc # rest) = ?p # withClientId cid rest"
    by (simp add: withClientId_def)
  show ?case
  proof (cases k)
    case 0
    then have "\<not> isReadable (api calls ?p)" using Cons.prems(3) by (simp add: ps)
    then have "createLocations_onboarding E api cid (loc # rest) calls created
           = (Some (failureMessage E (api calls ?p)), calls @ [?p], created)"
      by (rule onboarding_step_unreadable)
    then show ?thesis using 0 by (simp add: ps del: createLocations_onboarding.simps)
  next
    case (Suc j)
    have "isReadable (api calls ?p)"
      using Cons.prems(2) [of 0] Suc by (simp add: ps)
    then obtain d where d: "api calls ?p = Resolved (Some d)" "d \<noteq> JNull"
      by (auto simp add: isReadable_iff)
    let ?created = "created @ [(js_get d (js ''id''), js_get d (js ''name''))]"
    have "fst (createLocations_onboarding E api cid rest (calls @ [?p]) ?created)
            = Some (failureMessage E (api ((calls @ [?p]) @ take j (withClientId cid rest))
                      (withClientId cid rest ! j)))
          \<and> fst (snd (createLocations_onboarding E api cid rest (calls @ [?p]) ?created))
            = (calls @ [?p]) @ take (Suc j) (withClientId cid rest)"
    proof (rule Cons.IH)
      show "j < length rest" using Cons.prems(1) Suc by simp
    next
      fix i assume "i < j"
      then show "isReadable (api ((calls @ [?p]) @ take i (withClientId cid rest))
                   (withClientId cid rest ! i))"
        using Cons.prems(2) [of "Suc i"] Suc by (simp add: ps)
    next
      show "\<not> isReadable (api ((calls @ [?p]) @ take j (withClientId cid rest))
                   (withClientId cid rest ! j))"
        using Cons.prems(3) Suc by (simp add: ps)
    qed
    moreover have "createLocations_onboarding E api cid (loc # rest) calls created
           = createLocations_onboarding E api cid rest (calls @ [?p]) ?created"
      using d by (rule onboarding_step_readable)
    ultimately show ?thesis using Suc by (simp add: ps del: createLocations_onboarding.simps)
  qed
qed

lemma loop_onboarding_exact:
  "(\<forall>i < length (withClientId cid locs).
        isReadable (answer api (withClientId cid locs) i)) \<longrightarrow>
     fst (createLocations_onboarding E api cid locs [] []) = None
     \<and> fst (snd (createLocations_onboarding E api cid locs [] [])) = withClientId cid locs"
  "k < length (withClientId cid locs)
     \<and> (\<forall>i < k. isReadable (answer api (withClientId cid locs) i))
     \<and> \<not> isReadable (answer api (withClientId cid locs) k) \<longrightarrow>
     fst (createLocations_onboarding E api cid locs [] [])
       = Some (failureMessage E (answer api (withClientId cid locs) k))
     \<and> fst (snd (createLocations_onboarding E api cid locs [] []))
       = take (Suc k) (withClientId cid locs)"
  using onboarding_all [of locs api "[]" cid E "[]"]
    onboarding_first_failure [of k locs api "[]" cid E "[]"]
  by (auto simp add: answer_def length_withClientId)

lemma gate_keeps:
  "pushed (snd (validateStep2 s)) = pushed s" "currentStep (snd (validateStep2 s)) = currentStep s"
  "pushed (snd (validateStep2_plain s)) = pushed s"
  "currentStep (snd (validateStep2_plain s)) = currentStep s"
  by (simp_all add: validateStep2_def validateStep2_plain_def finishStep2_def)

lemma clientIdValue_Some: "clientId s = Some cid \<Longrightarrow> clientIdValue s = cid"
  by (simp add: clientIdValue_def)

lemma step2_sent_all:
  assumes "clientId s = Some cid" and "truthy cid" and "fst (validateStep2 s)"
    and "\<forall>i < length (newLocationPayloads cid (locations s)).
           isResolved (answer api (newLocationPayloads cid (locations s)) i)"
  shows "snd (handleSubmitStep2 api s) = newLocationPayloads cid (locations s)
       \<and> pushed (fst (handleSubmitStep2 api s)) = pushed s @ [js ''/dashboard'']"
proof -
  obtain s1 where s1: "validateStep2 s = (True, s1)"
    using assms(3) by (cases "validateStep2 s") simp
  have p: "pushed s1 = pushed s" using gate_keeps(1) [of s] s1 by simp
  have loop: "createLocations api cid (locations s) [] = (None, newLocationPayloads cid (locations s))"
    using loop_exact(1) [of cid "locations s" api] assms(4) by simp
  show ?thesis
    using assms(1,2) s1 p loop
    by (simp add: handleSubmitStep2_def opt_truthy_def clientIdValue_Some)
qed

lemma step2_sent_until:
  assumes "clientId s = Some cid" and "truthy cid" and "fst (validateStep2 s)"
    and "k < length (newLocationPayloads cid (locations s))"
    and "\<forall>i < k. isResolved (answer api (newLocationPayloads cid (locations s)) i)"
    and "answer api (newLocationPayloads cid (locations s)) k = Rejected msg"
  shows "snd (handleSubmitStep2 api s) = take (Suc k) (newLocationPayloads cid (locations s))
       \<and> e_global (step2Errors (fst (handleSubmitStep2 api s)))
           = Some (if msg \<noteq> [] then msg else js ''Failed to save locations'')
       \<and> pushed (fst (handleSubmitStep2 api s)) = pushed s"
proof -
  obtain s1 where s1: "validateStep2 s = (True, s1)"
    using assms(3) by (cases "validateStep2 s") simp
  have p: "pushed s1 = pushed s" using gate_keeps(1) [of s] s1 by simp
  have loop: "createLocations api cid (locations s) []
                = (Some msg, take (Suc k) (newLocationPayloads cid (locations s)))"
    using loop_exact(2) [of k cid "locations s" api msg] assms(4,5,6) by simp
  show ?thesis
    using assms(1,2) s1 p loop
    by (simp add: handleSubmitStep2_def opt_truthy_def clientIdValue_Some failStep2_def)
qed

lemma step2_plain_sent_all:
  assumes "clientId s = Some cid" and "truthy cid" and "fst (validateStep2_plain s)"
    and "\<forall>i < length (withClientId cid (locations s)).
           isResolved (answer api (withClientId cid (locations s)) i)"
  shows "snd (handleSubmitStep2_plain api s) = withClientId cid (locations s)
       \<and> pushed (fst (handleSubmitStep2_plain api s)) = pushed s @ [js ''/dashboard'']"
proof -
  obtain s1 where s1: "validateStep2_plain s = (True, s1)"
    using assms(3) by (cases "validateStep2_plain s") simp
  have p: "pushed s1 = pushed s" using gate_keeps(3) [of s] s1 by simp
  have loop: "createLocations_plain api cid (locations s) [] = (None, withClientId cid (locations s))"
    using loop_plain_exact(1) [of cid "locations s" api] assms(4) by simp
  show ?thesis
    using assms(1,2) s1 p loop
    by (simp add: handleSubmitStep2_plain_def opt_truthy_def clientIdValue_Some)
qed

lemma step2_plain_sent_until:
  assumes "clientId s = Some cid" and "truthy cid" and "fst (validateStep2_plain s)"
    and "k < length (withClientId cid (locations s))"
    and "\<forall>i < k. isResolved (answer api (withClientId cid (locations s)) i)"
    and "answer api (withClientId cid (locations s)) k = Rejected msg"
  shows "snd (handleSubmitStep2_plain api s) = take (Suc k) (withClientId cid (locations s))
       \<and> e_global (step2Errors (fst (handleSubmitStep2_plain api s)))
           = Some (if msg \<noteq> [] then msg else js ''Failed to create locations'')
       \<and> pushed (fst (handleSubmitStep2_plain api s)) = pushed s"
proof -
  obtain s1 where s1: "validateStep2_plain s = (True, s1)"
    using assms(3) by (cases "validateStep2_plain s") simp
  have p: "pushed s1 = pushed s" using gate_keeps(3) [of s] s1 by simp
  have loop: "createLocations_plain api cid (locations s) []
                = (Some msg, take (Suc k) (withClientId cid (locations s)))"
    using loop_plain_exact(2) [of k cid "locations s" api msg] assms(4,5,6) by simp
  show ?thesis
    using assms(1,2) s1 p loop
    by (simp add: handleSubmitStep2_plain_def opt_truthy_def clientIdValue_Some failStep2_def)
qed

lemma step2_onboarding_sent_all:
  assumes "clientId s = Some cid" and "truthy cid" and "fst (validateStep2_plain s)"
    and "\<forall>i < length (withClientId cid (locations s)).
           isReadable (answer api (withClientId cid (locations s)) i)"
  shows "snd (handleSubmitStep2_onboarding E api s) = withClientId cid (locations s)
       \<and> currentStep (fst (handleSubmitStep2_onboarding E api s)) = 3"
proof -
  obtain s1 where s1: "validateStep2_plain s = (True, s1)"
    using assms(3) by (cases "validateStep2_plain s") simp
  obtain err calls created where r:
    "createLocations_onboarding E api cid (locations s) [] [] = (err, calls, created)"
    by (cases "createLocations_onboarding E api cid (locations s) [] []") auto
  have "err = None \<and> calls = withClientId cid (locations s)"
    using loop_onboarding_exact(1) [of cid "locations s" api E] assms(4) r by simp
  then show ?thesis
    using assms(1,2) s1 r
    by (simp add: handleSubmitStep2_onboarding_def opt_truthy_def clientIdValue_Some)
qed

lemma step2_onboarding_sent_until:
  assumes "clientId s = Some cid" and "truthy cid" and "fst (validateStep2_plain s)"
    and "k < length (withClientId cid (locations s))"
    and "\<forall>i < k. isReadable (answer api (withClientId cid (locations s)) i)"
    and "\<not> isReadable (answer api (withClientId cid (locations s)) k)"
    and "msg = failureMessage E (answer api (withClientId cid (locations s)) k)"
  shows "snd (handleSubmitStep2_onboarding E api s) = take (Suc k) (withClientId cid (locations s))
       \<and> e_global (step2Errors (fst (handleSubmitStep2_onboarding E api s)))
           = Some (if msg \<noteq> [] then msg else js ''Failed to create locations'')
       \<and> currentStep (fst (handleSubmitStep2_onboarding E api s)) = currentStep s"
proof -
  obtain s1 where s1: "validateStep2_plain s = (True, s1)"
    using assms(3) by (cases "validateStep2_plain s") simp
  have c: "currentStep s1 = currentStep s" using gate_keeps(4) [of s] s1 by simp
  obtain err calls created where r:
    "createLocations_onboarding E api cid (locations s) [] [] = (err, calls, created)"
    by (cases "createLocations_onboarding E api cid (locations s) [] []") auto
  have "err = Some msg \<and> calls = take (Suc k) (withClientId cid (locations s))"
    using loop_onboarding_exact(2) [of k cid "locations s" api E] assms(4,5,6,7) r by simp
  then show ?thesis
    using assms(1,2) s1 r c
    by (simp add: handleSubmitStep2_onboarding_def opt_truthy_def clientIdValue_Some failStep2_def)
qed

lemma ex_locations_valid:
  "locationValid ex_location" "locationValid ex_annex" "locationValid ex_depot"
  "locationValid ex_existing"
  by (simp_all add: locationValid_def ex_location_def ex_annex_def ex_depot_def ex_existing_def
      emptyLocation_def blank_def coordinateInvalid_def outOfRange_def js_gt_def trim_def
      is_ws_def js_def)

lemma ex_no_ids:
  "str_truthy (l_id ex_existing)" "\<not> str_truthy (l_id ex_annex)"
  "\<not> str_truthy (l_id ex_location)" "\<not> str_truthy (l_id ex_depot)"
  by (simp_all add: str_truthy_def ex_location_def ex_annex_def ex_depot_def ex_existing_def
      emptyLocation_def js_def)

lemma ex_states:
  "locations ex_editing_three = [ex_existing, ex_annex, ex_location, ex_depot]"
  "clientId ex_editing_three = Some (JStr (js ''u1''))"
  "locations ex_three_new = [ex_location, ex_annex, ex_depot]"
  "clientId ex_three_new = Some (JStr (js ''u1''))"
  "currentStep ex_three_new = 2"
  "locations ex_editing = [ex_existing, ex_annex]"
  "clientId ex_editing = Some (JStr (js ''u1''))"
  "clientId ex_unanchored = None" "currentStep ex_unanchored = 2"
  "pushed ex_three_new = []" "pushed ex_editing_three = []" "pushed ex_editing = []"
  "truthy (JStr (js ''u1''))" "js ''Service unavailable'' \<noteq> []"
  by (simp_all add: ex_editing_three_def ex_three_new_def ex_editing_def ex_unanchored_def
      initialWizard_def js_def)

lemma ex_gates:
  "fst (validateStep2 ex_editing_three)" "fst (validateStep2 ex_editing)"
  "fst (validateStep2 ex_three_new)" "fst (validateStep2_plain ex_three_new)"
  by (rule valid_accepted, simp add: ex_states, auto simp add: ex_states ex_locations_valid)+

lemma ex_answers:
  "isResolved (api_ok h p)" "isReadable (api_ok h p)"
  "isResolved (api_second_down [] p)" "isReadable (api_second_down [] p)"
  "api_second_down [c] p = Rejected (js ''Service unavailable'')"
  by (simp_all add: api_ok_def api_second_down_def)

text \<open>
  Claim C7, as amended. In the submission loop of the edit-capable component, and in
  \<open>handleSubmitStep2\<close> around it, no \<open>createLocationApi\<close> call is issued for a location
  with a non-empty \<open>id\<close>. The locations without an \<open>id\<close> are sent in list order, each with
  \<open>client_id\<close> attached, one call each. When every call resolves, the calls issued are
  exactly these payloads, and the handler goes to the dashboard. When call number \<open>k\<close> is
  the first to be rejected, the calls issued are exactly the payloads up to and including
  number \<open>k\<close>: the rejection ends the loop, the locations after it get no call, the
  handler shows the message of the rejection (or \<open>Failed to save locations\<close>) and does not
  leave the page.
\<close>

theorem existing_locations_skipped:
  "(\<exists>n. snd (createLocations api cid locs []) = take n (newLocationPayloads cid locs))
   \<and> (\<forall>p \<in> set (snd (createLocations api cid locs [])). \<not> str_truthy (l_id p))
   \<and> (fst (createLocations api cid locs []) = None \<longrightarrow>
        snd (createLocations api cid locs []) = newLocationPayloads cid locs)
   \<and> (\<exists>n. snd (handleSubmitStep2 api s)
             = take n (newLocationPayloads (clientIdValue s) (locations s)))
   \<and> (\<forall>p \<in> set (snd (handleSubmitStep2 api s)). \<not> str_truthy (l_id p))
   \<and> (opt_truthy (clientId s) \<and> fst (validateStep2 s) \<and> (\<forall>h p msg. api h p \<noteq> Rejected msg) \<longrightarrow>
        snd (handleSubmitStep2 api s) = newLocationPayloads (clientIdValue s) (locations s))
   \<and> ((\<forall>i < length (newLocationPayloads cid locs).
         isResolved (answer api (newLocationPayloads cid locs) i)) \<longrightarrow>
        createLocations api cid locs [] = (None, newLocationPayloads cid locs))
   \<and> (k < length (newLocationPayloads cid locs)
        \<and> (\<forall>i < k. isResolved (answer api (newLocationPayloads cid locs) i))
        \<and> answer api (newLocationPayloads cid locs) k = Rejected msg \<longrightarrow>
        createLocations api cid locs [] = (Some msg, take (Suc k) (newLocationPayloads cid locs)))
   \<and> (clientId s = Some cid \<and> truthy cid \<and> fst (validateStep2 s)
        \<and> (\<forall>i < length (newLocationPayloads cid (locations s)).
              isResolved (answer api (newLocationPayloads cid (locations s)) i)) \<longrightarrow>
        snd (handleSubmitStep2 api s) = newLocationPayloads cid (locations s)
        \<and> pushed (fst (handleSubmitStep2 api s)) = pushed s @ [js ''/dashboard''])
   \<and> (clientId s = Some cid \<and> truthy cid \<and> fst (validateStep2 s)
        \<and> k < length (newLocationPayloads cid (locations s))
        \<and> (\<forall>i < k. isResolved (answer api (newLocationPayloads cid (locations s)) i))
        \<and> answer api (newLocationPayloads cid (locations s)) k = Rejected msg \<longrightarrow>
        snd (handleSubmitStep2 api s) = take (Suc k) (newLocationPayloads cid (locations s))
        \<and> e_global (step2Errors (fst (handleSubmitStep2 api s)))
            = Some (if msg \<noteq> [] then msg else js ''Failed to save locations'')
        \<and> pushed (fst (handleSubmitStep2 api s)) = pushed s)"
proof -
  note old = existing_locations_prefix [of api cid locs s]
  note n1 = loop_exact(1) [of cid locs api]
  note n2 = loop_exact(2) [of k cid locs api msg]
  have n3: "(clientId s = Some cid \<and> truthy cid \<and> fst (validateStep2 s)
        \<and> (\<forall>i < length (newLocationPayloads cid (locations s)).
              isResolved (answer api (newLocationPayloads cid (locations s)) i)) \<longrightarrow>
        snd (handleSubmitStep2 api s) = newLocationPayloads cid (locations s)
        \<and> pushed (fst (handleSubmitStep2 api s)) = pushed s @ [js ''/dashboard''])"
    using step2_sent_all [of s cid api] by simp
  have n4: "(clientId s = Some cid \<and> truthy cid \<and> fst (validateStep2 s)
        \<and> k < length (newLocationPayloads cid (locations s))
        \<and> (\<forall>i < k. isResolved (answer api (newLocationPayloads cid (locations s)) i))
        \<and> answer api (newLocationPayloads cid (locations s)) k = Rejected msg \<longrightarrow>
        snd (handleSubmitStep2 api s) = take (Suc k) (newLocationPayloads cid (locations s))
        \<and> e_global (step2Errors (fst (handleSubmitStep2 api s)))
            = Some (if msg \<noteq> [] then msg else js ''Failed to save locations'')
        \<and> pushed (fst (handleSubmitStep2 api s)) = pushed s)"
    using step2_sent_until [of s cid k api msg] by simp
  show ?thesis
    using old n1 n2 n3 n4 by (elim conjE, intro conjI) assumption+
qed

theorem existing_locations_skipped_witness:
  "str_truthy (l_id ex_existing) \<and> \<not> str_truthy (l_id ex_annex)
   \<and> locations ex_editing = [ex_existing, ex_annex]
   \<and> opt_truthy (clientId ex_editing) \<and> fst (validateStep2 ex_editing)
   \<and> fst (createLocations api_ok (JStr (js ''u1'')) (locations ex_editing) []) = None
   \<and> snd (createLocations api_ok (JStr (js ''u1'')) (locations ex_editing) [])
       = [ex_annex \<lparr> l_client_id := Some (JStr (js ''u1'')) \<rparr>]
   \<and> snd (handleSubmitStep2 api_ok ex_editing)
       = [ex_annex \<lparr> l_client_id := Some (JStr (js ''u1'')) \<rparr>]
   \<and> pushed (fst (handleSubmitStep2 api_ok ex_editing)) = [js ''/dashboard'']
   \<and> locations ex_editing_three = [ex_existing, ex_annex, ex_location, ex_depot]
   \<and> newLocationPayloads (JStr (js ''u1'')) (locations ex_editing_three)
           = [ex_annex \<lparr> l_client_id := Some (JStr (js ''u1'')) \<rparr>,
              ex_location \<lparr> l_client_id := Some (JStr (js ''u1'')) \<rparr>,
              ex_depot \<lparr> l_client_id := Some (JStr (js ''u1'')) \<rparr>]
   \<and> isResolved (answer api_second_down (newLocationPayloads (JStr (js ''u1''))
       (locations ex_editing_three)) 0)
   \<and> answer api_second_down (newLocationPayloads (JStr (js ''u1'')) (locations ex_editing_three)) 1
       = Rejected (js ''Service unavailable'')
   \<and> createLocations api_second_down (JStr (js ''u1'')) (locations ex_editing_three) []
       = (Some (js ''Service unavailable''),
           [ex_annex \<lparr> l_client_id := Some (JStr (js ''u1'')) \<rparr>,
            ex_location \<lparr> l_client_id := Some (JStr (js ''u1'')) \<rparr>])
   \<and> snd (handleSubmitStep2 api_second_down ex_editing_three)
       = [ex_annex \<lparr> l_client_id := Some (JStr (js ''u1'')) \<rparr>,
          ex_location \<lparr> l_client_id := Some (JStr (js ''u1'')) \<rparr>]
   \<and> e_global (step2Errors (fst (handleSubmitStep2 api_second_down ex_editing_three)))
       = Some (js ''Service unavailable'')
   \<and> pushed (fst (handleSubmitStep2 api_second_down ex_editing_three)) = []"
proof -
  let ?u = "JStr (js ''u1'')"
  have ps2: "newLocationPayloads ?u (locations ex_editing)
      = [ex_annex \<lparr> l_client_id := Some (JStr (js ''u1'')) \<rparr>]"
    by (simp add: newLocationPayloads_def ex_states ex_no_ids)
  have ps3: "newLocationPayloads ?u (locations ex_editing_three)
      = [ex_annex \<lparr> l_client_id := Some (JStr (js ''u1'')) \<rparr>,
         ex_location \<lparr> l_client_id := Some (JStr (js ''u1'')) \<rparr>,
         ex_depot \<lparr> l_client_id := Some (JStr (js ''u1'')) \<rparr>]"
    by (simp add: newLocationPayloads_def ex_states ex_no_ids)
  have ok: "\<forall>i < length (newLocationPayloads ?u (locations ex_editing)).
              isResolved (answer api_ok (newLocationPayloads ?u (locations ex_editing)) i)"
    by (simp add: answer_def ex_answers)
  have a0: "\<forall>i < 1. isResolved (answer api_second_down
              (newLocationPayloads ?u (locations ex_editing_three)) i)"
    by (simp add: ps3 answer_def ex_answers)
  have a1: "answer api_second_down (newLocationPayloads ?u (locations ex_editing_three)) 1
              = Rejected (js ''Service unavailable'')"
    by (simp add: ps3 answer_def ex_answers)
  note sent = existing_locations_skipped [where api = api_ok and cid = ?u
      and locs = "locations ex_editing" and s = ex_editing and k = 0
      and msg = "js ''Service unavailable''"]
  note cut = existing_locations_skipped [where api = api_second_down and cid = ?u
      and locs = "locations ex_editing_three" and s = ex_editing_three and k = 1
      and msg = "js ''Service unavailable''"]
  have A: "createLocations api_ok ?u (locations ex_editing) []
      = (None, [ex_annex \<lparr> l_client_id := Some (JStr (js ''u1'')) \<rparr>])
         \<and> snd (handleSubmitStep2 api_ok ex_editing)
             = [ex_annex \<lparr> l_client_id := Some (JStr (js ''u1'')) \<rparr>]
         \<and> pushed (fst (handleSubmitStep2 api_ok ex_editing)) = [js ''/dashboard'']"
    using sent ok ex_gates(2) ex_states(7,12,13) by (simp add: ps2)
  have B: "createLocations api_second_down ?u (locations ex_editing_three) []
             = (Some (js ''Service unavailable''),
                 [ex_annex \<lparr> l_client_id := Some (JStr (js ''u1'')) \<rparr>,
                  ex_location \<lparr> l_client_id := Some (JStr (js ''u1'')) \<rparr>])
         \<and> snd (handleSubmitStep2 api_second_down ex_editing_three)
             = [ex_annex \<lparr> l_client_id := Some (JStr (js ''u1'')) \<rparr>,
                ex_location \<lparr> l_client_id := Some (JStr (js ''u1'')) \<rparr>]
         \<and> e_global (step2Errors (fst (handleSubmitStep2 api_second_down ex_editing_three)))
             = Some (js ''Service unavailable'')
         \<and> pushed (fst (handleSubmitStep2 api_second_down ex_editing_three)) = []"
    using cut a0 a1 ex_gates(1) ex_states(2,11,13,14) by (simp add: ps3)
  show ?thesis
    using A B ps3 a0 a1 ex_no_ids(1,2) ex_states(1,6,7,13) ex_gates(2)
    by (simp add: opt_truthy_def)
qed

text \<open>
  Claim C7 as stated fails when a call is rejected: of two locations without an \<open>id\<close>,
  only the first is passed to \<open>createLocationApi\<close>; the second gets no call.
\<close>

theorem rejected_call_ends_loop:
  "\<not> str_truthy (l_id ex_location) \<and> \<not> str_truthy (l_id ex_annex)
   \<and> locations ex_two_new = [ex_location, ex_annex]
   \<and> opt_truthy (clientId ex_two_new) \<and> fst (validateStep2 ex_two_new)
   \<and> snd (handleSubmitStep2 api_down ex_two_new)
       = [ex_location \<lparr> l_client_id := Some (JStr (js ''u1'')) \<rparr>]"
  by (simp add: ex_wizard_defs step2_eval)

lemma step1_create:
  assumes "fst (validateStep1 toNumber s)"
    and "\<not> (isEditing s \<and> str_truthy (clientIdFromQuery s))"
    and "createApi (createPayload toNumber (businessForm s)) = Resolved r"
    and "createdClientId r = Some cid" and "truthy cid"
  shows "clientId (handleSubmitStep1 toNumber createApi updateApi s) = Some cid
       \<and> currentStep (handleSubmitStep1 toNumber createApi updateApi s) = 2"
  using assms
  by (cases "validateStep1 toNumber s")
     (auto simp add: handleSubmitStep1_def Let_def afterCreate_def resolved_value_def
        opt_truthy_def str_truthy_def split: option.splits)

lemma step1_update:
  assumes "fst (validateStep1 toNumber s)"
    and "isEditing s" and "clientIdFromQuery s = Some q" and "q \<noteq> []"
    and "updateApi q (updatePayload toNumber (businessForm s)) = Resolved r"
  shows "clientId (handleSubmitStep1 toNumber createApi updateApi s) = Some (JStr q)
       \<and> currentStep (handleSubmitStep1 toNumber createApi updateApi s) = 2"
  using assms
  by (cases "validateStep1 toNumber s")
     (auto simp add: handleSubmitStep1_def Let_def)

lemma step1_create_plain:
  assumes "fst (validateStep1_plain s)"
    and "createApi (clientPayload_plain (businessForm s)) = Resolved r"
    and "createdClientId_plain r = Some cid" and "truthy cid"
  shows "clientId (handleSubmitStep1_plain createApi s) = Some cid
       \<and> currentStep (handleSubmitStep1_plain createApi s) = 2"
  using assms
  by (cases "validateStep1_plain s")
     (auto simp add: handleSubmitStep1_plain_def Let_def afterCreate_def resolved_value_def
        opt_truthy_def)

lemma step1_create_onboarding:
  assumes "fst (validateStep1_onboarding s)"
    and "createApi (createPayload_onboarding (businessForm s)) = Resolved r"
    and "createdClientId r = Some cid" and "truthy cid"
  shows "clientId (handleSubmitStep1_onboarding createApi s) = Some cid
       \<and> currentStep (handleSubmitStep1_onboarding createApi s) = 2"
  using assms
  by (cases "validateStep1_onboarding s")
     (auto simp add: handleSubmitStep1_onboarding_def Let_def afterCreate_def resolved_value_def
        opt_truthy_def)

lemma createLocations_client_id:
  "p \<in> set (snd (createLocations api cid locs calls)) \<Longrightarrow>
   p \<in> set calls \<or> l_client_id p = Some cid"
proof (induction locs arbitrary: calls)
  case Nil
  then show ?case by simp
next
  case (Cons loc rest)
  let ?q = "loc\<lparr>l_client_id := Some cid\<rparr>"
  have q: "l_client_id ?q = Some cid" by simp
  show ?case
  proof (cases "api calls ?q")
    case (Rejected msg)
    then show ?thesis using Cons.prems Cons.IH [of calls] q
      by (auto simp add: Let_def split: if_splits)
  next
    case (Resolved v)
    then show ?thesis using Cons.prems Cons.IH [of "calls @ [?q]"] Cons.IH [of calls] q
      by (auto simp add: Let_def split: if_splits)
  qed
qed

lemma createLocations_plain_client_id:
  "p \<in> set (snd (createLocations_plain api cid locs calls)) \<Longrightarrow>
   p \<in> set calls \<or> l_client_id p = Some cid"
proof (induction locs arbitrary: calls)
  case Nil
  then show ?case by simp
next
  case (Cons loc rest)
  let ?q = "loc\<lparr>l_client_id := Some cid\<rparr>"
  have q: "l_client_id ?q = Some cid" by simp
  show ?case
  proof (cases "api calls ?q")
    case (Rejected msg)
    then show ?thesis using Cons.prems  q
      by (auto simp add: Let_def split: if_splits)
  next
    case (Resolved v)
    then show ?thesis using Cons.prems Cons.IH [of "calls @ [?q]"]  q
      by (auto simp add: Let_def split: if_splits)
  qed
qed

lemma createLocations_onboarding_client_id:
  "p \<in> set (fst (snd (createLocations_onboarding E api cid locs calls created))) \<Longrightarrow>
   p \<in> set calls \<or> l_client_id p = Some cid"
proof (induction locs arbitrary: calls created)
  case Nil
  then show ?case by simp
next
  case (Cons loc rest)
  let ?q = "loc\<lparr>l_client_id := Some cid\<rparr>"
  let ?run = "createLocations_onboarding E api cid (loc # rest) calls created"
  have q: "l_client_id ?q = Some cid" by simp
  have "fst (snd ?run) = calls @ [?q]
        \<or> (\<exists>c. ?run = createLocations_onboarding E api cid rest (calls @ [?q]) c)"
  proof (cases "api calls ?q")
    case (Rejected msg)
    then show ?thesis by (simp add: Let_def)
  next
    case (Resolved v)
    show ?thesis
    proof (cases v)
      case None
      then show ?thesis using Resolved by (simp add: Let_def)
    next
      case (Some d)
      then show ?thesis using Resolved by (cases d) (auto simp add: Let_def)
    qed
  qed
  then show ?case
  proof
    assume "fst (snd ?run) = calls @ [?q]"
    then show ?thesis using Cons.prems q by auto
  next
    assume "\<exists>c. ?run = createLocations_onboarding E api cid rest (calls @ [?q]) c"
    then obtain c where "?run = createLocations_onboarding E api cid rest (calls @ [?q]) c"
      by blast
    then have "p \<in> set (calls @ [?q]) \<or> l_client_id p = Some cid"
      using Cons.prems Cons.IH [of "calls @ [?q]" c] by simp
    then show ?thesis using q by auto
  qed
qed

lemma clientId_value: "opt_truthy (clientId s) \<Longrightarrow> clientId s = Some (clientIdValue s)"
  by (simp add: opt_truthy_def clientIdValue_def split: option.splits)

lemma step2_client_id:
  assumes "p \<in> set (snd (handleSubmitStep2 api s))"
  shows "l_client_id p = clientId s"
proof (cases "opt_truthy (clientId s)")
  case True
  have "p \<in> set (snd (createLocations api (clientIdValue s) (locations s) []))"
    using assms True by (auto simp add: handleSubmitStep2_def split: prod.splits option.splits if_splits)
  then show ?thesis
    using createLocations_client_id [of p api "clientIdValue s" "locations s" "[]"]
      clientId_value [OF True] by simp
next
  case False
  then show ?thesis using assms by (simp add: handleSubmitStep2_def)
qed

lemma step2_client_id_plain:
  assumes "p \<in> set (snd (handleSubmitStep2_plain api s))"
  shows "l_client_id p = clientId s"
proof (cases "opt_truthy (clientId s)")
  case True
  have "p \<in> set (snd (createLocations_plain api (clientIdValue s) (locations s) []))"
    using assms True by (auto simp add: handleSubmitStep2_plain_def split: prod.splits option.splits if_splits)
  then show ?thesis
    using createLocations_plain_client_id [of p api "clientIdValue s" "locations s" "[]"]
      clientId_value [OF True] by simp
next
  case False
  then show ?thesis using assms by (simp add: handleSubmitStep2_plain_def)
qed

lemma step2_client_id_onboarding:
  assumes "p \<in> set (snd (handleSubmitStep2_onboarding E api s))"
  shows "l_client_id p = clientId s"
proof (cases "opt_truthy (clientId s)")
  case True
  have "p \<in> set (fst (snd (createLocations_onboarding E api (clientIdValue s) (locations s) [] [])))"
    using assms True
    by (auto simp add: handleSubmitStep2_onboarding_def split: prod.splits option.splits if_splits)
  then show ?thesis
    using createLocations_onboarding_client_id [of p E api "clientIdValue s" "locations s" "[]" "[]"]
      clientId_value [OF True] by simp
next
  case False
  then show ?thesis using assms by (simp add: handleSubmitStep2_onboarding_def)
qed

lemma step2_blocked:
  assumes "clientId s = None"
  shows "snd (handleSubmitStep2 api s) = []
       \<and> e_global (step2Errors (fst (handleSubmitStep2 api s)))
           = Some (js ''Business has not been created yet. Please complete Step 1 first.'')
       \<and> currentStep (fst (handleSubmitStep2 api s)) = 1"
    and "snd (handleSubmitStep2_plain api s) = []
       \<and> e_global (step2Errors (fst (handleSubmitStep2_plain api s)))
           = Some (js ''Business has not been created yet. Please complete Step 1 first.'')
       \<and> currentStep (fst (handleSubmitStep2_plain api s)) = 1"
    and "snd (handleSubmitStep2_onboarding E api s) = []
       \<and> e_global (step2Errors (fst (handleSubmitStep2_onboarding E api s)))
           = Some (js ''Client has not been created yet. Please complete Step 1 first.'')
       \<and> currentStep (fst (handleSubmitStep2_onboarding E api s)) = 1"
  using assms
  by (simp_all add: handleSubmitStep2_def handleSubmitStep2_plain_def
      handleSubmitStep2_onboarding_def opt_truthy_def blockStep2_def)

text \<open>
  Step 1 sets \<open>clientId\<close> and goes to Step 2; every payload of Step 2 has that
  \<open>client_id\<close>; without a \<open>clientId\<close>, Step 2 issues no call and goes back to Step 1.
\<close>

lemma client_id_attached:
  "(fst (validateStep1 toNumber s) \<and> \<not> (isEditing s \<and> str_truthy (clientIdFromQuery s))
      \<and> createApi (createPayload toNumber (businessForm s)) = Resolved r
      \<and> createdClientId r = Some cid \<and> truthy cid \<longrightarrow>
      clientId (handleSubmitStep1 toNumber createApi updateApi s) = Some cid
      \<and> currentStep (handleSubmitStep1 toNumber createApi updateApi s) = 2)
   \<and> (fst (validateStep1 toNumber s) \<and> isEditing s \<and> clientIdFromQuery s = Some q \<and> q \<noteq> []
      \<and> updateApi q (updatePayload toNumber (businessForm s)) = Resolved r \<longrightarrow>
      clientId (handleSubmitStep1 toNumber createApi updateApi s) = Some (JStr q)
      \<and> currentStep (handleSubmitStep1 toNumber createApi updateApi s) = 2)
   \<and> (fst (validateStep1_plain s)
      \<and> createApi (clientPayload_plain (businessForm s)) = Resolved r
      \<and> createdClientId_plain r = Some cid \<and> truthy cid \<longrightarrow>
      clientId (handleSubmitStep1_plain createApi s) = Some cid
      \<and> currentStep (handleSubmitStep1_plain createApi s) = 2)
   \<and> (fst (validateStep1_onboarding s)
      \<and> createApi (createPayload_onboarding (businessForm s)) = Resolved r
      \<and> createdClientId r = Some cid \<and> truthy cid \<longrightarrow>
      clientId (handleSubmitStep1_onboarding createApi s) = Some cid
      \<and> currentStep (handleSubmitStep1_onboarding createApi s) = 2)
   \<and> (\<forall>p \<in> set (snd (handleSubmitStep2 api s)). l_client_id p = clientId s)
   \<and> (\<forall>p \<in> set (snd (handleSubmitStep2_plain api s)). l_client_id p = clientId s)
   \<and> (\<forall>p \<in> set (snd (handleSubmitStep2_onboarding E api s)). l_client_id p = clientId s)
   \<and> (clientId s = None \<longrightarrow>
        (snd (handleSubmitStep2 api s) = []
         \<and> e_global (step2Errors (fst (handleSubmitStep2 api s)))
             = Some (js ''Business has not been created yet. Please complete Step 1 first.'')
         \<and> currentStep (fst (handleSubmitStep2 api s)) = 1)
      \<and> (snd (handleSubmitStep2_plain api s) = []
         \<and> e_global (step2Errors (fst (handleSubmitStep2_plain api s)))
             = Some (js ''Business has not been created yet. Please complete Step 1 first.'')
         \<and> currentStep (fst (handleSubmitStep2_plain api s)) = 1)
      \<and> (snd (handleSubmitStep2_onboarding E api s) = []
         \<and> e_global (step2Errors (fst (handleSubmitStep2_onboarding E api s)))
             = Some (js ''Client has not been created yet. Please complete Step 1 first.'')
         \<and> currentStep (fst (handleSubmitStep2_onboarding E api s)) = 1))"
proof (intro conjI impI ballI)
  assume h: "fst (validateStep1 toNumber s) \<and> \<not> (isEditing s \<and> str_truthy (clientIdFromQuery s))
      \<and> createApi (createPayload toNumber (businessForm s)) = Resolved r
      \<and> createdClientId r = Some cid \<and> truthy cid"
  then show "clientId (handleSubmitStep1 toNumber createApi updateApi s) = Some cid"
    and "currentStep (handleSubmitStep1 toNumber createApi updateApi s) = 2"
    using step1_create [of toNumber s createApi r cid updateApi] by simp_all
next
  assume h: "fst (validateStep1 toNumber s) \<and> isEditing s \<and> clientIdFromQuery s = Some q \<and> q \<noteq> []
      \<and> updateApi q (updatePayload toNumber (businessForm s)) = Resolved r"
  then show "clientId (handleSubmitStep1 toNumber createApi updateApi s) = Some (JStr q)"
    and "currentStep (handleSubmitStep1 toNumber createApi updateApi s) = 2"
    using step1_update [of toNumber s q updateApi r createApi] by simp_all
next
  assume h: "fst (validateStep1_plain s)
      \<and> createApi (clientPayload_plain (businessForm s)) = Resolved r
      \<and> createdClientId_plain r = Some cid \<and> truthy cid"
  then show "clientId (handleSubmitStep1_plain createApi s) = Some cid"
    and "currentStep (handleSubmitStep1_plain createApi s) = 2"
    using step1_create_plain [of s createApi r cid] by simp_all
next
  assume h: "fst (validateStep1_onboarding s)
      \<and> createApi (createPayload_onboarding (businessForm s)) = Resolved r
      \<and> createdClientId r = Some cid \<and> truthy cid"
  then show "clientId (handleSubmitStep1_onboarding createApi s) = Some cid"
    and "currentStep (handleSubmitStep1_onboarding createApi s) = 2"
    using step1_create_onboarding [of s createApi r cid] by simp_all
next
  fix p assume "p \<in> set (snd (handleSubmitStep2 api s))"
  then show "l_client_id p = clientId s" by (rule step2_client_id)
next
  fix p assume "p \<in> set (snd (handleSubmitStep2_plain api s))"
  then show "l_client_id p = clientId s" by (rule step2_client_id_plain)
next
  fix p assume "p \<in> set (snd (handleSubmitStep2_onboarding E api s))"
  then show "l_client_id p = clientId s" by (rule step2_client_id_onboarding)
next
  assume n: "clientId s = None"
  note b = step2_blocked [OF n, where api = api]
  show "snd (handleSubmitStep2 api s) = []"
    and "e_global (step2Errors (fst (handleSubmitStep2 api s)))
           = Some (js ''Business has not been created yet. Please complete Step 1 first.'')"
    and "currentStep (fst (handleSubmitStep2 api s)) = 1"
    and "snd (handleSubmitStep2_plain api s) = []"
    and "e_global (step2Errors (fst (handleSubmitStep2_plain api s)))
           = Some (js ''Business has not been created yet. Please complete Step 1 first.'')"
    and "currentStep (fst (handleSubmitStep2_plain api s)) = 1"
    and "snd (handleSubmitStep2_onboarding E api s) = []"
    and "e_global (step2Errors (fst (handleSubmitStep2_onboarding E api s)))
           = Some (js ''Client has not been created yet. Please complete Step 1 first.'')"
    and "currentStep (fst (handleSubmitStep2_onboarding E api s)) = 1"
    using b by simp_all
qed

lemma ex_ids:
  "createdClientId (Some ex_created) = Some (JStr (js ''u1''))"
  "createdClientId_plain (Some ex_created) = Some (JStr (js ''c9''))"
  by (simp_all add: createdClientId_def createdClientId_plain_def js_or_def js_get_opt_def
      ex_created_def js_def)

lemma ex_acme_valid:
  "businessForm ex_acme_wizard = ex_acme" "businessForm ex_edit_acme = ex_acme"
  "\<not> isEditing ex_acme_wizard" "isEditing ex_edit_acme"
  "clientIdFromQuery ex_edit_acme = Some (js ''u1'')" "js ''u1'' \<noteq> []"
  "clientId initialWizard = None"
  by (simp_all add: ex_acme_wizard_def ex_edit_acme_def initialWizard_def js_def)

lemma ex_after_step1_state:
  "clientId ex_after_step1 = Some (JStr (js ''u1''))" "locations ex_after_step1 = [ex_location]"
  using step1_create [of ex_toNumber ex_acme_wizard ex_create_api "Some ex_created"
      "JStr (js ''u1'')" ex_update_api]
    acme_accepted(1) [of ex_acme_wizard ex_toNumber]
  by (simp_all add: ex_after_step1_def ex_ids ex_acme_valid ex_create_api_def js_def)

lemma ex_step2_calls:
  "snd (handleSubmitStep2 api_ok ex_after_step1) = [ex_location \<lparr> l_client_id := Some (JStr (js ''u1'')) \<rparr>]"
  by (simp add: handleSubmitStep2_def validateStep2_def finishStep2_def noLocationError_def
      opt_truthy_def clientIdValue_def ex_after_step1_state str_truthy_def
      checkLocation_def coordinateInvalid_def outOfRange_def js_gt_def Let_def err_if_def
      err_if_blank_def blank_def ex_location_def emptyLocation_def api_ok_def trim_def
      is_ws_def js_def)

text \<open>
  Claim C3. In each of the three components: when the Step 1 gate passes and the API call
  resolves (to a response from which a truthy identifier is read, or, when editing, the
  update call resolves), \<open>handleSubmitStep1\<close> sets \<open>clientId\<close> to that identifier and goes
  to Step 2; every payload that \<open>handleSubmitStep2\<close> passes to \<open>createLocationApi\<close> has the
  component's \<open>clientId\<close> as its \<open>client_id\<close>; and when \<open>clientId\<close> is \<open>null\<close>,
  \<open>handleSubmitStep2\<close> issues no call, sets the step-global error to the component's
  explanatory message and sets the current step to 1. With a \<open>clientId\<close> set and the
  Step 2 gate passed, the calls of each component are determined: when every call is
  answered well, the component sends, in order, one payload with that \<open>client_id\<close> for
  every location (the edit-capable one: for every location without an \<open>id\<close>) and moves on
  (to the dashboard, or to step 3); when call number \<open>k\<close> is the first to fail, it sends
  the payloads up to and including number \<open>k\<close> and shows the failure's message.
\<close>

theorem client_id_anchors_step2:
  "(fst (validateStep1 toNumber s) \<and> \<not> (isEditing s \<and> str_truthy (clientIdFromQuery s))
      \<and> createApi (createPayload toNumber (businessForm s)) = Resolved r
      \<and> createdClientId r = Some cid \<and> truthy cid \<longrightarrow>
      clientId (handleSubmitStep1 toNumber createApi updateApi s) = Some cid
      \<and> currentStep (handleSubmitStep1 toNumber createApi updateApi s) = 2)
   \<and> (fst (validateStep1 toNumber s) \<and> isEditing s \<and> clientIdFromQuery s = Some q \<and> q \<noteq> []
      \<and> updateApi q (updatePayload toNumber (businessForm s)) = Resolved r \<longrightarrow>
      clientId (handleSubmitStep1 toNumber createApi updateApi s) = Some (JStr q)
      \<and> currentStep (handleSubmitStep1 toNumber createApi updateApi s) = 2)
   \<and> (fst (validateStep1_plain s)
      \<and> createApi (clientPayload_plain (businessForm s)) = Resolved r
      \<and> createdClientId_plain r = Some cid \<and> truthy cid \<longrightarrow>
      clientId (handleSubmitStep1_plain createApi s) = Some cid
      \<and> currentStep (handleSubmitStep1_plain createApi s) = 2)
   \<and> (fst (validateStep1_onboarding s)
      \<and> createApi (createPayload_onboarding (businessForm s)) = Resolved r
      \<and> createdClientId r = Some cid \<and> truthy cid \<longrightarrow>
      clientId (handleSubmitStep1_onboarding createApi s) = Some cid
      \<and> currentStep (handleSubmitStep1_onboarding createApi s) = 2)
   \<and> (\<forall>p \<in> set (snd (handleSubmitStep2 api s)). l_client_id p = clientId s)
   \<and> (\<forall>p \<in> set (snd (handleSubmitStep2_plain api s)). l_client_id p = clientId s)
   \<and> (\<forall>p \<in> set (snd (handleSubmitStep2_onboarding E api s)). l_client_id p = clientId s)
   \<and> (clientId s = None \<longrightarrow>
        (snd (handleSubmitStep2 api s) = []
         \<and> e_global (step2Errors (fst (handleSubmitStep2 api s)))
             = Some (js ''Business has not been created yet. Please complete Step 1 first.'')
         \<and> currentStep (fst (handleSubmitStep2 api s)) = 1)
      \<and> (snd (handleSubmitStep2_plain api s) = []
         \<and> e_global (step2Errors (fst (handleSubmitStep2_plain api s)))
             = Some (js ''Business has not been created yet. Please complete Step 1 first.'')
         \<and> currentStep (fst (handleSubmitStep2_plain api s)) = 1)
      \<and> (snd (handleSubmitStep2_onboarding E api s) = []
         \<and> e_global (step2Errors (fst (handleSubmitStep2_onboarding E api s)))
             = Some (js ''Client has not been created yet. Please complete Step 1 first.'')
         \<and> currentStep (fst (handleSubmitStep2_onboarding E api s)) = 1))
   \<and> (clientId s = Some cid \<and> truthy cid \<and> fst (validateStep2 s)
        \<and> (\<forall>i < length (newLocationPayloads cid (locations s)).
              isResolved (answer api (newLocationPayloads cid (locations s)) i)) \<longrightarrow>
        snd (handleSubmitStep2 api s) = newLocationPayloads cid (locations s)
        \<and> pushed (fst (handleSubmitStep2 api s)) = pushed s @ [js ''/dashboard''])
   \<and> (clientId s = Some cid \<and> truthy cid \<and> fst (validateStep2 s)
        \<and> k < length (newLocationPayloads cid (locations s))
        \<and> (\<forall>i < k. isResolved (answer api (newLocationPayloads cid (locations s)) i))
        \<and> answer api (newLocationPayloads cid (locations s)) k = Rejected msg \<longrightarrow>
        snd (handleSubmitStep2 api s) = take (Suc k) (newLocationPayloads cid (locations s))
        \<and> e_global (step2Errors (fst (handleSubmitStep2 api s)))
            = Some (if msg \<noteq> [] then msg else js ''Failed to save locations'')
        \<and> pushed (fst (handleSubmitStep2 api s)) = pushed s)
   \<and> (clientId s = Some cid \<and> truthy cid \<and> fst (validateStep2_plain s)
        \<and> (\<forall>i < length (withClientId cid (locations s)).
              isResolved (answer api (withClientId cid (locations s)) i)) \<longrightarrow>
        snd (handleSubmitStep2_plain api s) = withClientId cid (locations s)
        \<and> pushed (fst (handleSubmitStep2_plain api s)) = pushed s @ [js ''/dashboard''])
   \<and> (clientId s = Some cid \<and> truthy cid \<and> fst (validateStep2_plain s)
        \<and> k < length (withClientId cid (locations s))
        \<and> (\<forall>i < k. isResolved (answer api (withClientId cid (locations s)) i))
        \<and> answer api (withClientId cid (locations s)) k = Rejected msg \<longrightarrow>
        snd (handleSubmitStep2_plain api s) = take (Suc k) (withClientId cid (locations s))
        \<and> e_global (step2Errors (fst (handleSubmitStep2_plain api s)))
            = Some (if msg \<noteq> [] then msg else js ''Failed to create locations'')
        \<and> pushed (fst (handleSubmitStep2_plain api s)) = pushed s)
   \<and> (clientId s = Some cid \<and> truthy cid \<and> fst (validateStep2_plain s)
        \<and> (\<forall>i < length (withClientId cid (locations s)).
              isReadable (answer api (withClientId cid (locations s)) i)) \<longrightarrow>
        snd (handleSubmitStep2_onboarding E api s) = withClientId cid (locations s)
        \<and> currentStep (fst (handleSubmitStep2_onboarding E api s)) = 3)
   \<and> (clientId s = Some cid \<and> truthy cid \<and> fst (validateStep2_plain s)
        \<and> k < length (withClientId cid (locations s))
        \<and> (\<forall>i < k. isReadable (answer api (withClientId cid (locations s)) i))
        \<and> \<not> isReadable (answer api (withClientId cid (locations s)) k)
        \<and> msg = failureMessage E (answer api (withClientId cid (locations s)) k) \<longrightarrow>
        snd (handleSubmitStep2_onboarding E api s) = take (Suc k) (withClientId cid (locations s))
        \<and> e_global (step2Errors (fst (handleSubmitStep2_onboarding E api s)))
            = Some (if msg \<noteq> [] then msg else js ''Failed to create locations'')
        \<and> currentStep (fst (handleSubmitStep2_onboarding E api s)) = currentStep s)"
proof -
  note old = client_id_attached [of toNumber s createApi r cid updateApi q api E]
  have n1: "(clientId s = Some cid \<and> truthy cid \<and> fst (validateStep2 s)
        \<and> (\<forall>i < length (newLocationPayloads cid (locations s)).
              isResolved (answer api (newLocationPayloads cid (locations s)) i)) \<longrightarrow>
        snd (handleSubmitStep2 api s) = newLocationPayloads cid (locations s)
        \<and> pushed (fst (handleSubmitStep2 api s)) = pushed s @ [js ''/dashboard''])"
    using step2_sent_all [of s cid api] by simp
  have n2: "(clientId s = Some cid \<and> truthy cid \<and> fst (validateStep2 s)
        \<and> k < length (newLocationPayloads cid (locations s))
        \<and> (\<forall>i < k. isResolved (answer api (newLocationPayloads cid (locations s)) i))
        \<and> answer api (newLocationPayloads cid (locations s)) k = Rejected msg \<longrightarrow>
        snd (handleSubmitStep2 api s) = take (Suc k) (newLocationPayloads cid (locations s))
        \<and> e_global (step2Errors (fst (handleSubmitStep2 api s)))
            = Some (if msg \<noteq> [] then msg else js ''Failed to save locations'')
        \<and> pushed (fst (handleSubmitStep2 api s)) = pushed s)"
    using step2_sent_until [of s cid k api msg] by simp
  have n3: "(clientId s = Some cid \<and> truthy cid \<and> fst (validateStep2_plain s)
        \<and> (\<forall>i < length (withClientId cid (locations s)).
              isResolved (answer api (withClientId cid (locations s)) i)) \<longrightarrow>
        snd (handleSubmitStep2_plain api s) = withClientId cid (locations s)
        \<and> pushed (fst (handleSubmitStep2_plain api s)) = pushed s @ [js ''/dashboard''])"
    using step2_plain_sent_all [of s cid api] by simp
  have n4: "(clientId s = Some cid \<and> truthy cid \<and> fst (validateStep2_plain s)
        \<and> k < length (withClientId cid (locations s))
        \<and> (\<forall>i < k. isResolved (answer api (withClientId cid (locations s)) i))
        \<and> answer api (withClientId cid (locations s)) k = Rejected msg \<longrightarrow>
        snd (handleSubmitStep2_plain api s) = take (Suc k) (withClientId cid (locations s))
        \<and> e_global (step2Errors (fst (handleSubmitStep2_plain api s)))
            = Some (if msg \<noteq> [] then msg else js ''Failed to create locations'')
        \<and> pushed (fst (handleSubmitStep2_plain api s)) = pushed s)"
    using step2_plain_sent_until [of s cid k api msg] by simp
  have n5: "(clientId s = Some cid \<and> truthy cid \<and> fst (validateStep2_plain s)
        \<and> (\<forall>i < length (withClientId cid (locations s)).
              isReadable (answer api (withClientId cid (locations s)) i)) \<longrightarrow>
        snd (handleSubmitStep2_onboarding E api s) = withClientId cid (locations s)
        \<and> currentStep (fst (handleSubmitStep2_onboarding E api s)) = 3)"
    using step2_onboarding_sent_all [of s cid api E] by simp
  have n6: "(clientId s = Some cid \<and> truthy cid \<and> fst (validateStep2_plain s)
        \<and> k < length (withClientId cid (locations s))
        \<and> (\<forall>i < k. isReadable (answer api (withClientId cid (locations s)) i))
        \<and> \<not> isReadable (answer api (withClientId cid (locations s)) k)
        \<and> msg = failureMessage E (answer api (withClientId cid (locations s)) k) \<longrightarrow>
        snd (handleSubmitStep2_onboarding E api s) = take (Suc k) (withClientId cid (locations s))
        \<and> e_global (step2Errors (fst (handleSubmitStep2_onboarding E api s)))
            = Some (if msg \<noteq> [] then msg else js ''Failed to create locations'')
        \<and> currentStep (fst (handleSubmitStep2_onboarding E api s)) = currentStep s)"
    using step2_onboarding_sent_until [of s cid k api msg E] by simp
  show ?thesis
    using old n1 n2 n3 n4 n5 n6 by (elim conjE, intro conjI) assumption+
qed

theorem client_id_anchors_step2_witness:
  "fst (validateStep1 ex_toNumber ex_acme_wizard)
   \<and> ex_create_api (createPayload ex_toNumber (businessForm ex_acme_wizard)) = Resolved (Some ex_created)
   \<and> createdClientId (Some ex_created) = Some (JStr (js ''u1''))
   \<and> clientId (handleSubmitStep1 ex_toNumber ex_create_api ex_update_api ex_acme_wizard)
       = Some (JStr (js ''u1''))
   \<and> currentStep (handleSubmitStep1 ex_toNumber ex_create_api ex_update_api ex_acme_wizard) = 2
   \<and> clientId (handleSubmitStep1 ex_toNumber ex_create_api ex_update_api ex_edit_acme)
       = Some (JStr (js ''u1''))
   \<and> clientId (handleSubmitStep1_plain ex_create_api ex_acme_wizard) = Some (JStr (js ''c9''))
   \<and> clientId (handleSubmitStep1_onboarding ex_create_api ex_acme_wizard)
       = Some (JStr (js ''u1''))
   \<and> snd (handleSubmitStep2 api_ok ex_after_step1)
       = [ex_location \<lparr> l_client_id := Some (JStr (js ''u1'')) \<rparr>]
   \<and> l_client_id (ex_location \<lparr> l_client_id := Some (JStr (js ''u1'')) \<rparr>) = clientId ex_after_step1
   \<and> clientId initialWizard = None
   \<and> snd (handleSubmitStep2 api_ok initialWizard) = []
   \<and> e_global (step2Errors (fst (handleSubmitStep2 api_ok initialWizard)))
       = Some (js ''Business has not been created yet. Please complete Step 1 first.'')
   \<and> currentStep (fst (handleSubmitStep2 api_ok initialWizard)) = 1
   \<and> locations ex_three_new = [ex_location, ex_annex, ex_depot]
   \<and> clientId ex_three_new = Some (JStr (js ''u1''))
   \<and> snd (handleSubmitStep2 api_ok ex_three_new)
       = [ex_location \<lparr> l_client_id := Some (JStr (js ''u1'')) \<rparr>,
          ex_annex \<lparr> l_client_id := Some (JStr (js ''u1'')) \<rparr>,
          ex_depot \<lparr> l_client_id := Some (JStr (js ''u1'')) \<rparr>]
   \<and> snd (handleSubmitStep2_plain api_ok ex_three_new)
       = [ex_location \<lparr> l_client_id := Some (JStr (js ''u1'')) \<rparr>,
          ex_annex \<lparr> l_client_id := Some (JStr (js ''u1'')) \<rparr>,
          ex_depot \<lparr> l_client_id := Some (JStr (js ''u1'')) \<rparr>]
   \<and> snd (handleSubmitStep2_onboarding (js ''TypeError'') api_ok ex_three_new)
       = [ex_location \<lparr> l_client_id := Some (JStr (js ''u1'')) \<rparr>,
          ex_annex \<lparr> l_client_id := Some (JStr (js ''u1'')) \<rparr>,
          ex_depot \<lparr> l_client_id := Some (JStr (js ''u1'')) \<rparr>]
   \<and> pushed (fst (handleSubmitStep2 api_ok ex_three_new)) = [js ''/dashboard'']
   \<and> pushed (fst (handleSubmitStep2_plain api_ok ex_three_new)) = [js ''/dashboard'']
   \<and> currentStep (fst (handleSubmitStep2_onboarding (js ''TypeError'') api_ok ex_three_new)) = 3
   \<and> snd (handleSubmitStep2 api_second_down ex_three_new)
       = [ex_location \<lparr> l_client_id := Some (JStr (js ''u1'')) \<rparr>,
          ex_annex \<lparr> l_client_id := Some (JStr (js ''u1'')) \<rparr>]
   \<and> e_global (step2Errors (fst (handleSubmitStep2 api_second_down ex_three_new)))
       = Some (js ''Service unavailable'')
   \<and> snd (handleSubmitStep2_plain api_second_down ex_three_new)
       = [ex_location \<lparr> l_client_id := Some (JStr (js ''u1'')) \<rparr>,
          ex_annex \<lparr> l_client_id := Some (JStr (js ''u1'')) \<rparr>]
   \<and> e_global (step2Errors (fst (handleSubmitStep2_plain api_second_down ex_three_new)))
       = Some (js ''Service unavailable'')
   \<and> snd (handleSubmitStep2_onboarding (js ''TypeError'') api_second_down ex_three_new)
       = [ex_location \<lparr> l_client_id := Some (JStr (js ''u1'')) \<rparr>,
          ex_annex \<lparr> l_client_id := Some (JStr (js ''u1'')) \<rparr>]
   \<and> e_global (step2Errors (fst (handleSubmitStep2_onboarding (js ''TypeError'') api_second_down ex_three_new)))
       = Some (js ''Service unavailable'')
   \<and> clientId ex_unanchored = None \<and> currentStep ex_unanchored = 2
   \<and> snd (handleSubmitStep2 api_ok ex_unanchored) = []
   \<and> e_global (step2Errors (fst (handleSubmitStep2 api_ok ex_unanchored)))
       = Some (js ''Business has not been created yet. Please complete Step 1 first.'')
   \<and> currentStep (fst (handleSubmitStep2 api_ok ex_unanchored)) = 1
   \<and> snd (handleSubmitStep2_plain api_ok ex_unanchored) = []
   \<and> e_global (step2Errors (fst (handleSubmitStep2_plain api_ok ex_unanchored)))
       = Some (js ''Business has not been created yet. Please complete Step 1 first.'')
   \<and> currentStep (fst (handleSubmitStep2_plain api_ok ex_unanchored)) = 1
   \<and> snd (handleSubmitStep2_onboarding (js ''TypeError'') api_ok ex_unanchored) = []
   \<and> e_global (step2Errors (fst (handleSubmitStep2_onboarding (js ''TypeError'') api_ok ex_unanchored)))
       = Some (js ''Client has not been created yet. Please complete Step 1 first.'')
   \<and> currentStep (fst (handleSubmitStep2_onboarding (js ''TypeError'') api_ok ex_unanchored)) = 1"
proof -
  note inst = client_id_anchors_step2 [where toNumber = ex_toNumber
      and createApi = ex_create_api and updateApi = ex_update_api and E = "js ''TypeError''"]
  have valid: "fst (validateStep1 ex_toNumber ex_acme_wizard)"
    "fst (validateStep1 ex_toNumber ex_edit_acme)"
    "fst (validateStep1_plain ex_acme_wizard)" "fst (validateStep1_onboarding ex_acme_wizard)"
    by (simp_all add: acme_accepted ex_acme_valid)
  have created: "ex_create_api payload = Resolved (Some ex_created)" for payload
    by (simp add: ex_create_api_def)
  have a: "clientId (handleSubmitStep1 ex_toNumber ex_create_api ex_update_api ex_acme_wizard)
             = Some (JStr (js ''u1''))
         \<and> currentStep (handleSubmitStep1 ex_toNumber ex_create_api ex_update_api ex_acme_wizard) = 2
         \<and> clientId (handleSubmitStep1_onboarding ex_create_api ex_acme_wizard)
             = Some (JStr (js ''u1''))"
    using inst [where s = ex_acme_wizard and r = "Some ex_created" and cid = "JStr (js ''u1'')"
        and q = "[]" and api = api_ok and k = 0 and msg = "[]"]
    by (simp add: valid created ex_ids ex_acme_valid)
  have b: "clientId (handleSubmitStep1_plain ex_create_api ex_acme_wizard)
      = Some (JStr (js ''c9''))"
    using inst [where s = ex_acme_wizard and r = "Some ex_created" and cid = "JStr (js ''c9'')"
        and q = "[]" and api = api_ok and k = 0 and msg = "[]"]
    by (simp add: valid created ex_ids js_def)
  have c: "clientId (handleSubmitStep1 ex_toNumber ex_create_api ex_update_api ex_edit_acme)
             = Some (JStr (js ''u1''))"
    using inst [where s = ex_edit_acme and r = "Some (JObj [(js ''id'', JStr (js ''u1''))])"
        and cid = JNull and q = "js ''u1''" and api = api_ok and k = 0 and msg = "[]"]
    by (simp add: valid ex_acme_valid ex_update_api_def)
  have d: "l_client_id (ex_location \<lparr> l_client_id := Some (JStr (js ''u1'')) \<rparr>)
             = clientId ex_after_step1"
    using inst [where s = ex_after_step1 and r = None and cid = JNull and q = "[]"
        and api = api_ok and k = 0 and msg = "[]"]
    by (simp add: ex_step2_calls)
  have e: "snd (handleSubmitStep2 api_ok initialWizard) = []
         \<and> e_global (step2Errors (fst (handleSubmitStep2 api_ok initialWizard)))
             = Some (js ''Business has not been created yet. Please complete Step 1 first.'')
         \<and> currentStep (fst (handleSubmitStep2 api_ok initialWizard)) = 1"
    using inst [where s = initialWizard and r = None and cid = JNull and q = "[]"
        and api = api_ok and k = 0 and msg = "[]"]
    by (simp add: ex_acme_valid)
  let ?u = "JStr (js ''u1'')"
  have ps: "withClientId ?u (locations ex_three_new)
      = [ex_location \<lparr> l_client_id := Some (JStr (js ''u1'')) \<rparr>,
         ex_annex \<lparr> l_client_id := Some (JStr (js ''u1'')) \<rparr>,
         ex_depot \<lparr> l_client_id := Some (JStr (js ''u1'')) \<rparr>]"
    "newLocationPayloads ?u (locations ex_three_new)
        = [ex_location \<lparr> l_client_id := Some (JStr (js ''u1'')) \<rparr>,
           ex_annex \<lparr> l_client_id := Some (JStr (js ''u1'')) \<rparr>,
           ex_depot \<lparr> l_client_id := Some (JStr (js ''u1'')) \<rparr>]"
    by (simp_all add: withClientId_def newLocationPayloads_def ex_states ex_no_ids)
  have all_ok: "\<forall>i < 3. isResolved (answer api_ok
      [ex_location \<lparr> l_client_id := Some (JStr (js ''u1'')) \<rparr>,
       ex_annex \<lparr> l_client_id := Some (JStr (js ''u1'')) \<rparr>,
       ex_depot \<lparr> l_client_id := Some (JStr (js ''u1'')) \<rparr>] i)"
    "\<forall>i < 3. isReadable (answer api_ok
        [ex_location \<lparr> l_client_id := Some (JStr (js ''u1'')) \<rparr>,
         ex_annex \<lparr> l_client_id := Some (JStr (js ''u1'')) \<rparr>,
         ex_depot \<lparr> l_client_id := Some (JStr (js ''u1'')) \<rparr>] i)"
    by (simp_all add: answer_def ex_answers)
  have first_ok: "\<forall>i < 1. isResolved (answer api_second_down
      [ex_location \<lparr> l_client_id := Some (JStr (js ''u1'')) \<rparr>,
       ex_annex \<lparr> l_client_id := Some (JStr (js ''u1'')) \<rparr>,
       ex_depot \<lparr> l_client_id := Some (JStr (js ''u1'')) \<rparr>] i)"
    "\<forall>i < 1. isReadable (answer api_second_down
        [ex_location \<lparr> l_client_id := Some (JStr (js ''u1'')) \<rparr>,
         ex_annex \<lparr> l_client_id := Some (JStr (js ''u1'')) \<rparr>,
         ex_depot \<lparr> l_client_id := Some (JStr (js ''u1'')) \<rparr>] i)"
    by (simp_all add: answer_def ex_answers)
  have second_down: "answer api_second_down
      [ex_location \<lparr> l_client_id := Some (JStr (js ''u1'')) \<rparr>,
       ex_annex \<lparr> l_client_id := Some (JStr (js ''u1'')) \<rparr>,
       ex_depot \<lparr> l_client_id := Some (JStr (js ''u1'')) \<rparr>] 1
           = Rejected (js ''Service unavailable'')"
    "\<not> isReadable (answer api_second_down
        [ex_location \<lparr> l_client_id := Some (JStr (js ''u1'')) \<rparr>,
         ex_annex \<lparr> l_client_id := Some (JStr (js ''u1'')) \<rparr>,
         ex_depot \<lparr> l_client_id := Some (JStr (js ''u1'')) \<rparr>] 1)"
    "failureMessage (js ''TypeError'') (answer api_second_down
        [ex_location \<lparr> l_client_id := Some (JStr (js ''u1'')) \<rparr>,
         ex_annex \<lparr> l_client_id := Some (JStr (js ''u1'')) \<rparr>,
         ex_depot \<lparr> l_client_id := Some (JStr (js ''u1'')) \<rparr>] 1)
       = js ''Service unavailable''"
    by (simp_all add: answer_def ex_answers)
  have f: "snd (handleSubmitStep2 api_ok ex_three_new)
      = [ex_location \<lparr> l_client_id := Some (JStr (js ''u1'')) \<rparr>,
         ex_annex \<lparr> l_client_id := Some (JStr (js ''u1'')) \<rparr>,
         ex_depot \<lparr> l_client_id := Some (JStr (js ''u1'')) \<rparr>]
         \<and> snd (handleSubmitStep2_plain api_ok ex_three_new)
             = [ex_location \<lparr> l_client_id := Some (JStr (js ''u1'')) \<rparr>,
                ex_annex \<lparr> l_client_id := Some (JStr (js ''u1'')) \<rparr>,
                ex_depot \<lparr> l_client_id := Some (JStr (js ''u1'')) \<rparr>]
         \<and> snd (handleSubmitStep2_onboarding (js ''TypeError'') api_ok ex_three_new)
             = [ex_location \<lparr> l_client_id := Some (JStr (js ''u1'')) \<rparr>,
                ex_annex \<lparr> l_client_id := Some (JStr (js ''u1'')) \<rparr>,
                ex_depot \<lparr> l_client_id := Some (JStr (js ''u1'')) \<rparr>]
         \<and> pushed (fst (handleSubmitStep2 api_ok ex_three_new)) = [js ''/dashboard'']
         \<and> pushed (fst (handleSubmitStep2_plain api_ok ex_three_new)) = [js ''/dashboard'']
         \<and> currentStep (fst (handleSubmitStep2_onboarding (js ''TypeError'') api_ok ex_three_new)) = 3"
    using inst [where s = ex_three_new and r = None and cid = ?u and q = "[]"
        and api = api_ok and k = 0 and msg = "[]"]
      all_ok ex_gates(3,4) ex_states(4,10,13)
    by (simp add: ps)
  have g: "snd (handleSubmitStep2 api_second_down ex_three_new)
      = [ex_location \<lparr> l_client_id := Some (JStr (js ''u1'')) \<rparr>,
         ex_annex \<lparr> l_client_id := Some (JStr (js ''u1'')) \<rparr>]
         \<and> e_global (step2Errors (fst (handleSubmitStep2 api_second_down ex_three_new)))
             = Some (js ''Service unavailable'')
         \<and> snd (handleSubmitStep2_plain api_second_down ex_three_new)
             = [ex_location \<lparr> l_client_id := Some (JStr (js ''u1'')) \<rparr>,
                ex_annex \<lparr> l_client_id := Some (JStr (js ''u1'')) \<rparr>]
         \<and> e_global (step2Errors (fst (handleSubmitStep2_plain api_second_down ex_three_new)))
             = Some (js ''Service unavailable'')
         \<and> snd (handleSubmitStep2_onboarding (js ''TypeError'') api_second_down ex_three_new)
             = [ex_location \<lparr> l_client_id := Some (JStr (js ''u1'')) \<rparr>,
                ex_annex \<lparr> l_client_id := Some (JStr (js ''u1'')) \<rparr>]
         \<and> e_global (step2Errors (fst (handleSubmitStep2_onboarding (js ''TypeError'') api_second_down ex_three_new)))
             = Some (js ''Service unavailable'')"
    using inst [where s = ex_three_new and r = None and cid = ?u and q = "[]"
        and api = api_second_down and k = 1 and msg = "js ''Service unavailable''"]
      first_ok second_down ex_gates(3,4) ex_states(4,10,13,14)
    by (simp add: ps)
  have h: "snd (handleSubmitStep2 api_ok ex_unanchored) = []
         \<and> e_global (step2Errors (fst (handleSubmitStep2 api_ok ex_unanchored)))
             = Some (js ''Business has not been created yet. Please complete Step 1 first.'')
         \<and> currentStep (fst (handleSubmitStep2 api_ok ex_unanchored)) = 1
         \<and> snd (handleSubmitStep2_plain api_ok ex_unanchored) = []
         \<and> e_global (step2Errors (fst (handleSubmitStep2_plain api_ok ex_unanchored)))
             = Some (js ''Business has not been created yet. Please complete Step 1 first.'')
         \<and> currentStep (fst (handleSubmitStep2_plain api_ok ex_unanchored)) = 1
         \<and> snd (handleSubmitStep2_onboarding (js ''TypeError'') api_ok ex_unanchored) = []
         \<and> e_global (step2Errors (fst (handleSubmitStep2_onboarding (js ''TypeError'') api_ok ex_unanchored)))
             = Some (js ''Client has not been created yet. Please complete Step 1 first.'')
         \<and> currentStep (fst (handleSubmitStep2_onboarding (js ''TypeError'') api_ok ex_unanchored)) = 1"
    using inst [where s = ex_unanchored and r = None and cid = JNull and q = "[]"
        and api = api_ok and k = 0 and msg = "[]"]
    by (simp add: ex_states)
  show ?thesis
    using a b c d e f g h valid(1) created ex_ids(1) ex_step2_calls ex_acme_valid(7)
      ex_states(3,4,8,9)
    by simp
qed

end
